theory Spec2Isabelle
  imports Complex_Main "HOL-Library.Word" "HOL-Library.Monad_Syntax"
begin

unbundle bit_operations_syntax

chapter \<open>pptxtojson: a shallow embedding of the slide conversion\<close>

text \<open>
  The development embeds three source files of the repository:
  \<^item> \<^verbatim>\<open>utils.js\<close> (the first part of \<^verbatim>\<open>src/src/utils.js\<close>): \<^verbatim>\<open>base64ArrayBuffer\<close>,
    \<^verbatim>\<open>extractFileExtension\<close>, \<^verbatim>\<open>getTextByPathList\<close>, \<^verbatim>\<open>angleToDegrees\<close>, \<^verbatim>\<open>escapeHtml\<close>,
    \<^verbatim>\<open>getMimeType\<close>, \<^verbatim>\<open>isVideoLink\<close>, \<^verbatim>\<open>toHex\<close>;
  \<^item> \<^verbatim>\<open>fill.js\<close> (\<^verbatim>\<open>src/unnamed/part_000\<close>): \<^verbatim>\<open>getFillType\<close>, \<^verbatim>\<open>getPicFill\<close>, \<^verbatim>\<open>getBgPicFill\<close>,
    \<^verbatim>\<open>getBgGradientFill\<close>, \<^verbatim>\<open>getSlideBackgroundFill\<close>, \<^verbatim>\<open>getShapeFill\<close>, \<^verbatim>\<open>getSolidFill\<close>;
  \<^item> \<^verbatim>\<open>pptxtojson.js\<close> (the second part of \<^verbatim>\<open>src/src/utils.js\<close>, from line 207): the tail of
    \<^verbatim>\<open>processSingleSlide\<close>, \<^verbatim>\<open>processNodesInSlide\<close>, \<^verbatim>\<open>processGroupSpNode\<close>, \<^verbatim>\<open>processSpNode\<close>,
    \<^verbatim>\<open>processCxnSpNode\<close>, \<^verbatim>\<open>genShape\<close>, \<^verbatim>\<open>processPicNode\<close>, \<^verbatim>\<open>processGraphicFrameNode\<close>,
    \<^verbatim>\<open>genChart\<close>, \<^verbatim>\<open>genDiagram\<close>.

  Conventions of the embedding.
  \<^item> A JavaScript value is a \<open>jv\<close>; an object is the list of its own properties in insertion
    order (JavaScript objects have distinct keys; inherited prototype properties are not
    modelled). The parsed XML trees, the relationship maps and the emitted element records
    are all such values.
  \<^item> A function that can throw returns an \<open>option\<close>: \<open>None\<close>, written \<open>TypeError\<close>, is the
    uncaught \<^verbatim>\<open>TypeError\<close> of reading a property of \<^verbatim>\<open>undefined\<close> or \<^verbatim>\<open>null\<close>, of calling
    a string method on a value that is not a string, or of \<^verbatim>\<open>zip.file(p)\<close> being
    \<^verbatim>\<open>null\<close>. No function of the three files catches an exception, so the first
    \<^verbatim>\<open>TypeError\<close> is the result of every caller. An \<^verbatim>\<open>async\<close> function that is awaited
    at once is modelled by its awaited result; a promise that is stored without being
    awaited is the value \<open>JPromise\<close>.
  \<^item> Numbers are exact: a finite number is a rational, with \<open>NaN\<close> and the two infinities
    beside it. The rounding of binary64 arithmetic and the sign of zero are not modelled.
  \<^item> Strings are lists of 8-bit characters.
  \<^item> Functions of the repository that are not among the source files, and the third-party
    library \<^verbatim>\<open>tinycolor2\<close>, are fields of the record \<open>externals\<close>, a parameter \<open>E\<close> of
    every function that calls them; theorems hold for every \<open>E\<close>.
  \<^item> \<^verbatim>\<open>console.log\<close> has no effect on any result and is left out.
\<close>

section \<open>JavaScript values\<close>

datatype jnum = Finite rat | PosInfinity | NegInfinity | NaN

datatype jv = JUndef | JNull | JBool bool | JNum jnum | JStr string
  | JArr "jv list" | JObj "(string \<times> jv) list" | JPromise "jv option"

abbreviation TypeError :: "'a option" where "TypeError \<equiv> None"

fun truthy :: "jv \<Rightarrow> bool" where
  "truthy JUndef = False"
| "truthy JNull = False"
| "truthy (JBool b) = b"
| "truthy (JNum n) = (n \<noteq> Finite 0 \<and> n \<noteq> NaN)"
| "truthy (JStr s) = (s \<noteq> [])"
| "truthy (JArr xs) = True"
| "truthy (JObj kvs) = True"
| "truthy (JPromise p) = True"

(* arithmetic *)

text \<open>
  Arithmetic follows IEEE 754 on the special values: \<open>0 / 0\<close> and \<open>\<infinity> - \<infinity>\<close> are \<open>NaN\<close>,
  \<open>x / 0\<close> is an infinity for \<open>x \<noteq> 0\<close>, and \<open>NaN\<close> is absorbing. \<open>Math_round\<close> rounds to the
  nearest integer, halves upwards.
\<close>

fun js_neg :: "jnum \<Rightarrow> jnum" where
  "js_neg (Finite a) = Finite (- a)"
| "js_neg PosInfinity = NegInfinity"
| "js_neg NegInfinity = PosInfinity"
| "js_neg NaN = NaN"

fun js_add :: "jnum \<Rightarrow> jnum \<Rightarrow> jnum" where
  "js_add (Finite a) (Finite b) = Finite (a + b)"
| "js_add NaN y = NaN"
| "js_add x NaN = NaN"
| "js_add PosInfinity NegInfinity = NaN"
| "js_add NegInfinity PosInfinity = NaN"
| "js_add PosInfinity y = PosInfinity"
| "js_add NegInfinity y = NegInfinity"
| "js_add x PosInfinity = PosInfinity"
| "js_add x NegInfinity = NegInfinity"

definition js_sub :: "jnum \<Rightarrow> jnum \<Rightarrow> jnum" where
  "js_sub x y = js_add x (js_neg y)"

definition signed_infinity :: "bool \<Rightarrow> jnum" where
  "signed_infinity positive = (if positive then PosInfinity else NegInfinity)"

fun js_mul :: "jnum \<Rightarrow> jnum \<Rightarrow> jnum" where
  "js_mul (Finite a) (Finite b) = Finite (a * b)"
| "js_mul NaN y = NaN"
| "js_mul x NaN = NaN"
| "js_mul (Finite a) PosInfinity = (if a = 0 then NaN else signed_infinity (0 < a))"
| "js_mul (Finite a) NegInfinity = (if a = 0 then NaN else signed_infinity (a < 0))"
| "js_mul PosInfinity (Finite b) = (if b = 0 then NaN else signed_infinity (0 < b))"
| "js_mul NegInfinity (Finite b) = (if b = 0 then NaN else signed_infinity (b < 0))"
| "js_mul PosInfinity PosInfinity = PosInfinity"
| "js_mul PosInfinity NegInfinity = NegInfinity"
| "js_mul NegInfinity PosInfinity = NegInfinity"
| "js_mul NegInfinity NegInfinity = PosInfinity"

fun js_div :: "jnum \<Rightarrow> jnum \<Rightarrow> jnum" where
  "js_div (Finite a) (Finite b) =
     (if b = 0 then (if a = 0 then NaN else signed_infinity (0 < a)) else Finite (a / b))"
| "js_div NaN y = NaN"
| "js_div x NaN = NaN"
| "js_div (Finite a) PosInfinity = Finite 0"
| "js_div (Finite a) NegInfinity = Finite 0"
| "js_div PosInfinity (Finite b) = signed_infinity (0 \<le> b)"
| "js_div NegInfinity (Finite b) = signed_infinity (b < 0)"
| "js_div PosInfinity y = NaN"
| "js_div NegInfinity y = NaN"

fun Math_round :: "jnum \<Rightarrow> jnum" where
  "Math_round (Finite a) = Finite (of_int \<lfloor>a + 1 / 2\<rfloor>)"
| "Math_round x = x"

definition isNaN :: "jnum \<Rightarrow> bool" where
  "isNaN x = (x = NaN)"

subsection \<open>Conversions between strings and numbers\<close>

text \<open>
  \<open>Number_toString radix\<close> is \<^verbatim>\<open>Number.prototype.toString(radix)\<close>: the integer part, and for
  a number with a fractional part a point and the digits of the fraction, exact when the
  expansion ends within 20 digits and cut there otherwise (JavaScript prints the shortest
  digits that identify the binary64 value; the exponent notation of very large and very
  small numbers is not modelled). \<open>parseInt_string\<close> is \<^verbatim>\<open>parseInt\<close> without a radix argument,
  \<open>StringToNumber\<close> the conversion that \<^verbatim>\<open>Number(s)\<close> and the arithmetic operators apply to a
  string.
\<close>

definition digit_chars :: string where
  "digit_chars = ''0123456789abcdefghijklmnopqrstuvwxyz''"

function digits_of :: "nat \<Rightarrow> nat \<Rightarrow> string" where
  "digits_of radix n =
     (if radix < 2 \<or> n < radix then [digit_chars ! n]
      else digits_of radix (n div radix) @ [digit_chars ! (n mod radix)])"
  by pat_completeness auto
termination
  by (relation "measure (\<lambda>(radix, n). n)") auto

declare digits_of.simps [simp del]

primrec fraction_digits :: "nat \<Rightarrow> nat \<Rightarrow> rat \<Rightarrow> string" where
  "fraction_digits radix 0 q = []"
| "fraction_digits radix (Suc fuel) q =
     (if q = 0 then []
      else (let d = nat \<lfloor>q * of_nat radix\<rfloor>
            in digit_chars ! d # fraction_digits radix fuel (q * of_nat radix - of_nat d)))"

fun Number_toString :: "nat \<Rightarrow> jnum \<Rightarrow> string" where
  "Number_toString radix NaN = ''NaN''"
| "Number_toString radix PosInfinity = ''Infinity''"
| "Number_toString radix NegInfinity = ''-Infinity''"
| "Number_toString radix (Finite q) =
     (let a = \<bar>q\<bar>; whole = nat \<lfloor>a\<rfloor>; part = a - of_nat whole
      in (if q < 0 then ''-'' else []) @ digits_of radix whole
         @ (if part = 0 then [] else ''.'' @ fraction_digits radix 20 part))"

definition digit_of :: "char \<Rightarrow> nat" where
  "digit_of c =
     (let n = of_char c :: nat
      in if 48 \<le> n \<and> n \<le> 57 then n - 48
         else if 97 \<le> n \<and> n \<le> 122 then n - 87
         else if 65 \<le> n \<and> n \<le> 90 then n - 55
         else 36)"

definition digits_value :: "nat \<Rightarrow> string \<Rightarrow> nat" where
  "digits_value radix ds = foldl (\<lambda>n c. n * radix + digit_of c) 0 ds"

definition is_space :: "char \<Rightarrow> bool" where
  "is_space c = (of_char c \<in> {32, 9, 10, 11, 12, 13 :: nat})"

definition parseInt_string :: "string \<Rightarrow> jnum" where
  "parseInt_string s =
     (let s1 = dropWhile is_space s;
          negative = (take 1 s1 = ''-'');
          s2 = (if take 1 s1 = ''-'' \<or> take 1 s1 = ''+'' then drop 1 s1 else s1);
          hex = (take 2 s2 = ''0x'' \<or> take 2 s2 = ''0X'');
          radix = (if hex then 16 else 10);
          s3 = (if hex then drop 2 s2 else s2);
          ds = takeWhile (\<lambda>c. digit_of c < radix) s3
      in if ds = [] then NaN
         else Finite ((if negative then - 1 else 1) * of_nat (digits_value radix ds)))"

definition is_decimal_digit :: "char \<Rightarrow> bool" where
  "is_decimal_digit c = (digit_of c < 10)"

definition trim :: "string \<Rightarrow> string" where
  "trim s = rev (dropWhile is_space (rev (dropWhile is_space s)))"

definition unsigned_decimal :: "string \<Rightarrow> jnum" where
  "unsigned_decimal t =
     (if t = ''Infinity'' then PosInfinity
      else
        (let ip = takeWhile is_decimal_digit t;
             r1 = dropWhile is_decimal_digit t;
             dot = (take 1 r1 = ''.'');
             fp = (if dot then takeWhile is_decimal_digit (drop 1 r1) else []);
             r2 = (if dot then dropWhile is_decimal_digit (drop 1 r1) else r1);
             expo = (take 1 r2 = ''e'' \<or> take 1 r2 = ''E'');
             r3 = drop 1 r2;
             eneg = (take 1 r3 = ''-'');
             r4 = (if take 1 r3 = ''-'' \<or> take 1 r3 = ''+'' then drop 1 r3 else r3);
             mantissa = (of_nat (digits_value 10 ip) :: rat)
                        + of_nat (digits_value 10 fp) / 10 ^ length fp
         in if ip = [] \<and> fp = [] then NaN
            else if expo then
              (if r4 = [] \<or> \<not> list_all is_decimal_digit r4 then NaN
               else Finite (if eneg then mantissa / 10 ^ digits_value 10 r4
                            else mantissa * 10 ^ digits_value 10 r4))
            else if r2 = [] then Finite mantissa
            else NaN))"

definition radix_literal :: "nat \<Rightarrow> string \<Rightarrow> jnum" where
  "radix_literal radix ds =
     (if ds = [] \<or> \<not> list_all (\<lambda>c. digit_of c < radix) ds then NaN
      else Finite (of_nat (digits_value radix ds)))"

definition StringToNumber :: "string \<Rightarrow> jnum" where
  "StringToNumber s =
     (let t = trim s
      in if t = [] then Finite 0
         else if take 2 t = ''0x'' \<or> take 2 t = ''0X'' then radix_literal 16 (drop 2 t)
         else if take 2 t = ''0o'' \<or> take 2 t = ''0O'' then radix_literal 8 (drop 2 t)
         else if take 2 t = ''0b'' \<or> take 2 t = ''0B'' then radix_literal 2 (drop 2 t)
         else if take 1 t = ''-'' then js_neg (unsigned_decimal (drop 1 t))
         else if take 1 t = ''+'' then unsigned_decimal (drop 1 t)
         else unsigned_decimal t)"

fun join :: "string \<Rightarrow> string list \<Rightarrow> string" where
  "join sep [] = []"
| "join sep [x] = x"
| "join sep (x # y # ys) = x @ sep @ join sep (y # ys)"

fun ToString :: "jv \<Rightarrow> string" where
  "ToString JUndef = ''undefined''"
| "ToString JNull = ''null''"
| "ToString (JBool b) = (if b then ''true'' else ''false'')"
| "ToString (JNum n) = Number_toString 10 n"
| "ToString (JStr s) = s"
| "ToString (JArr xs) =
     join '','' (map (\<lambda>x. if x = JUndef \<or> x = JNull then [] else ToString x) xs)"
| "ToString (JObj kvs) = ''[object Object]''"
| "ToString (JPromise p) = ''[object Promise]''"

fun ToNumber :: "jv \<Rightarrow> jnum" where
  "ToNumber JUndef = NaN"
| "ToNumber JNull = Finite 0"
| "ToNumber (JBool b) = Finite (if b then 1 else 0)"
| "ToNumber (JNum n) = n"
| "ToNumber (JStr s) = StringToNumber s"
| "ToNumber (JArr xs) = StringToNumber (ToString (JArr xs))"
| "ToNumber (JObj kvs) = NaN"
| "ToNumber (JPromise p) = NaN"

definition parseInt :: "jv \<Rightarrow> jnum" where
  "parseInt v = parseInt_string (ToString v)"

subsection \<open>Property access\<close>

text \<open>
  \<open>get v k\<close> is \<^verbatim>\<open>v[k]\<close> for a value that is neither \<^verbatim>\<open>undefined\<close> nor \<^verbatim>\<open>null\<close>;
  \<open>read_prop v k\<close> is \<^verbatim>\<open>v[k]\<close> in general, a \<^verbatim>\<open>TypeError\<close> on those two. \<open>own_props\<close> lists
  what \<^verbatim>\<open>for (k in v)\<close> and the spread \<^verbatim>\<open>{...v}\<close> enumerate (keys that are array indices
  come first in JavaScript; XML names never are). \<open>set_prop\<close> is the assignment
  \<^verbatim>\<open>o[k] = v\<close>: an existing key keeps its place. \<open>mapM\<close> runs a loop body over a list and
  stops at the first exception.

  \<open>getTextByPathList\<close> is the function of that name in \<^verbatim>\<open>utils.js\<close> (lines 84-95). Every call
  in the sources passes an array literal as the path, so the \<^verbatim>\<open>throw\<close> for a path that is not
  an array cannot happen and the path is a list.
\<close>

definition index_key :: "string \<Rightarrow> nat option" where
  "index_key k =
     (if k \<noteq> [] \<and> list_all is_decimal_digit k \<and> digits_of 10 (digits_value 10 k) = k
      then Some (digits_value 10 k) else None)"

definition indexed :: "jv list \<Rightarrow> (string \<times> jv) list" where
  "indexed xs = map (\<lambda>i. (digits_of 10 i, xs ! i)) [0..<length xs]"

definition characters :: "string \<Rightarrow> jv list" where
  "characters s = map (\<lambda>c. JStr [c]) s"

definition element_at :: "jv list \<Rightarrow> string \<Rightarrow> jv" where
  "element_at xs k =
     (if k = ''length'' then JNum (Finite (of_nat (length xs)))
      else (case index_key k of
              Some i \<Rightarrow> (if i < length xs then xs ! i else JUndef)
            | None \<Rightarrow> JUndef))"

fun get :: "jv \<Rightarrow> string \<Rightarrow> jv" where
  "get (JObj kvs) k = (case map_of kvs k of Some v \<Rightarrow> v | None \<Rightarrow> JUndef)"
| "get (JArr xs) k = element_at xs k"
| "get (JStr s) k = element_at (characters s) k"
| "get v k = JUndef"

definition read_prop :: "jv \<Rightarrow> string \<Rightarrow> jv option" where
  "read_prop v k = (if v = JUndef \<or> v = JNull then TypeError else Some (get v k))"

fun own_props :: "jv \<Rightarrow> (string \<times> jv) list" where
  "own_props (JObj kvs) = kvs"
| "own_props (JArr xs) = indexed xs"
| "own_props (JStr s) = indexed (characters s)"
| "own_props v = []"

fun set_prop :: "(string \<times> jv) list \<Rightarrow> string \<Rightarrow> jv \<Rightarrow> (string \<times> jv) list" where
  "set_prop [] k v = [(k, v)]"
| "set_prop ((k', v') # kvs) k v =
     (if k' = k then (k, v) # kvs else (k', v') # set_prop kvs k v)"

fun getTextByPathList :: "jv \<Rightarrow> string list \<Rightarrow> jv" where
  "getTextByPathList node [] = node"
| "getTextByPathList node (key # path) =
     (if \<not> truthy node then node else getTextByPathList (get node key) path)"

definition is_Array :: "jv \<Rightarrow> bool option" where
  "is_Array v = (if v = JUndef \<or> v = JNull then TypeError else Some (case v of JArr xs \<Rightarrow> True | _ \<Rightarrow> False))"

definition js_or :: "jv \<Rightarrow> jv \<Rightarrow> jv" where
  "js_or a b = (if truthy a then a else b)"

fun mapM :: "('a \<Rightarrow> 'b option) \<Rightarrow> 'a list \<Rightarrow> 'b list option" where
  "mapM f [] = Some []"
| "mapM f (x # xs) = do { y \<leftarrow> f x; ys \<leftarrow> mapM f xs; Some (y # ys) }"

definition str_of :: "jv \<Rightarrow> string option" where
  "str_of v = (case v of JStr s \<Rightarrow> Some s | _ \<Rightarrow> TypeError)"

fun index_from :: "nat \<Rightarrow> char \<Rightarrow> string \<Rightarrow> int" where
  "index_from i c [] = - 1"
| "index_from i c (x # xs) = (if x = c then int i else index_from (Suc i) c xs)"

definition indexOf :: "string \<Rightarrow> char \<Rightarrow> int" where
  "indexOf s c = index_from 0 c s"

definition lastIndexOf :: "string \<Rightarrow> char \<Rightarrow> int" where
  "lastIndexOf s c =
     (if c \<in> set s then int (length s) - 1 - index_from 0 c (rev s) else - 1)"

definition before_first :: "char \<Rightarrow> string \<Rightarrow> string" where
  "before_first c s = takeWhile (\<lambda>x. x \<noteq> c) s"

definition after_last :: "char \<Rightarrow> string \<Rightarrow> string" where
  "after_last c s = rev (takeWhile (\<lambda>x. x \<noteq> c) (rev s))"

definition toLowerCase :: "string \<Rightarrow> string" where
  "toLowerCase s =
     map (\<lambda>c. if 65 \<le> (of_char c :: nat) \<and> (of_char c :: nat) \<le> 90
               then char_of (of_char c + 32 :: nat) else c) s"

section \<open>utils.js\<close>

subsection \<open>base64ArrayBuffer (lines 6-46)\<close>

text \<open>
  The bytes of the \<^verbatim>\<open>Uint8Array\<close> are 8-bit words. The bitwise operators of JavaScript work on
  32-bit integers: \<^verbatim>\<open><<\<close> is \<open>push_bit\<close>, \<^verbatim>\<open>>>\<close> the sign-propagating \<open>signed_drop_bit\<close>,
  \<^verbatim>\<open>&\<close> and \<^verbatim>\<open>|\<close> are \<open>AND\<close> and \<open>OR\<close>. Reading a typed array beyond its end gives
  \<^verbatim>\<open>undefined\<close>, which the shift turns into 0 (\<open>byte_at\<close>); indexing the string \<^verbatim>\<open>encodings\<close>
  beyond its end gives \<^verbatim>\<open>undefined\<close>, which \<^verbatim>\<open>+\<close> appends as the text "undefined"
  (\<open>encodings_at\<close>). The \<^verbatim>\<open>for\<close> loop is \<open>base64_main\<close>: \<open>i\<close> is the loop counter and the last
  argument the string built so far.
\<close>

definition encodings :: string where
  "encodings = ''ABCDEFGHIJKLMNOPQRSTUVWXYZabcdefghijklmnopqrstuvwxyz0123456789+/''"

definition encodings_at :: "32 word \<Rightarrow> string" where
  "encodings_at a = (if unat a < length encodings then [encodings ! unat a] else ''undefined'')"

definition byte_at :: "8 word list \<Rightarrow> nat \<Rightarrow> 32 word" where
  "byte_at bytes i = (if i < length bytes then ucast (bytes ! i) else 0)"

function base64_main :: "8 word list \<Rightarrow> nat \<Rightarrow> nat \<Rightarrow> string \<Rightarrow> string" where
  "base64_main bytes mainLength i base64 =
     (if i < mainLength then
        (let chunk = push_bit 16 (byte_at bytes i) OR push_bit 8 (byte_at bytes (i + 1))
                       OR byte_at bytes (i + 2);
             a = signed_drop_bit 18 (chunk AND 16515072);
             b = signed_drop_bit 12 (chunk AND 258048);
             c = signed_drop_bit 6 (chunk AND 4032);
             d = chunk AND 63
         in base64_main bytes mainLength (i + 3)
              (base64 @ encodings_at a @ encodings_at b @ encodings_at c @ encodings_at d))
      else base64)"
  by pat_completeness auto
termination
  by (relation "measure (\<lambda>(bytes, mainLength, i, base64). mainLength - i)") auto

declare base64_main.simps [simp del]

definition base64ArrayBuffer :: "8 word list \<Rightarrow> string" where
  "base64ArrayBuffer bytes =
     (let byteLength = length bytes;
          byteRemainder = byteLength mod 3;
          mainLength = byteLength - byteRemainder;
          base64 = base64_main bytes mainLength 0 []
      in if byteRemainder = 1 then
           (let chunk = byte_at bytes mainLength;
                a = signed_drop_bit 2 (chunk AND 252);
                b = push_bit 4 (chunk AND 3)
            in base64 @ encodings_at a @ encodings_at b @ ''=='')
         else if byteRemainder = 2 then
           (let chunk = push_bit 8 (byte_at bytes mainLength) OR byte_at bytes (mainLength + 1);
                a = signed_drop_bit 10 (chunk AND 64512);
                b = signed_drop_bit 4 (chunk AND 1008);
                c = push_bit 2 (chunk AND 15)
            in base64 @ encodings_at a @ encodings_at b @ encodings_at c @ ''='')
         else base64)"

subsection \<open>The other helpers\<close>

text \<open>
  \<open>RATIO_EMUs_Points\<close> is imported from \<^verbatim>\<open>./constants\<close>, which is not among the source files.
  Modelled from the spec: "A single constant \<^verbatim>\<open>EMU_TO_POINT = 1/12700\<close> (or equivalent) converts
  every coordinate and dimension produced by the core to points."

  \<open>extractFileExtension\<close> (lines 53-55) computes \<^verbatim>\<open>(~-i >>> 0) + 2\<close> for the index \<open>i\<close> of
  the last dot: \<^verbatim>\<open>~-i\<close> is \<open>i - 1\<close>, and \<^verbatim>\<open>>>> 0\<close> reads it as an unsigned 32-bit integer, so
  that a name without a dot, or with its only dot in front, gets a start beyond its end and
  the empty extension. \<open>substr s start\<close> is \<^verbatim>\<open>s.substr(start)\<close>.

  \<open>isVideoLink\<close> (lines 190-193) tests a regular expression that is anchored at both ends.
  \<open>remainders r ss\<close> lists what can remain of the inputs \<open>ss\<close> after a match of \<open>r\<close> at their
  start; \<open>EndOfInput\<close> is the assertion \<^verbatim>\<open>$\<close>, which also occurs inside the last group of the
  pattern. \<^verbatim>\<open>RegExp.prototype.test\<close> converts its argument to a string first.

  \<open>toHex\<close> (lines 200-206) calls \<^verbatim>\<open>n.toString(16)\<close>, which is the hexadecimal expansion for a
  number and the ordinary string conversion for any other value but \<^verbatim>\<open>undefined\<close> and
  \<^verbatim>\<open>null\<close>, where the call throws.
\<close>

definition RATIO_EMUs_Points :: jnum where
  "RATIO_EMUs_Points = js_div (Finite 1) (Finite 12700)"

definition substr :: "string \<Rightarrow> int \<Rightarrow> string" where
  "substr s start =
     (if int (length s) \<le> start then []
      else if start < 0 then drop (nat (max 0 (int (length s) + start))) s
      else drop (nat start) s)"

definition extractFileExtension :: "jv \<Rightarrow> string option" where
  "extractFileExtension filename = do {
     s \<leftarrow> str_of filename;
     Some (substr s ((lastIndexOf s CHR ''.'' - 1) mod 4294967296 + 2))
   }"

definition angleToDegrees :: "jv \<Rightarrow> jnum" where
  "angleToDegrees angle =
     (if \<not> truthy angle then Finite 0
      else Math_round (js_div (ToNumber angle) (Finite 60000)))"

definition escapeHtml :: "jv \<Rightarrow> string option" where
  "escapeHtml text = do {
     s \<leftarrow> str_of text;
     Some (concat (map (\<lambda>c.
        if c = CHR ''&'' then ''&amp;''
        else if c = CHR ''<'' then ''&lt;''
        else if c = CHR ''>'' then ''&gt;''
        else if c = CHR 0x22 then ''&quot;''
        else if c = CHR 0x27 then ''&#039;''
        else [c]) s))
   }"

definition getMimeType :: "string \<Rightarrow> string" where
  "getMimeType imgFileExt =
     (let ext = toLowerCase imgFileExt
      in if ext = ''jpg'' \<or> ext = ''jpeg'' then ''image/jpeg''
         else if ext = ''png'' then ''image/png''
         else if ext = ''gif'' then ''image/gif''
         else if ext = ''emf'' then ''image/x-emf''
         else if ext = ''wmf'' then ''image/x-wmf''
         else if ext = ''svg'' then ''image/svg+xml''
         else if ext = ''mp4'' then ''video/mp4''
         else if ext = ''webm'' then ''video/webm''
         else if ext = ''ogg'' then ''video/ogg''
         else if ext = ''avi'' then ''video/avi''
         else if ext = ''mpg'' then ''video/mpg''
         else if ext = ''wmv'' then ''video/wmv''
         else if ext = ''mp3'' then ''audio/mpeg''
         else if ext = ''wav'' then ''audio/wav''
         else if ext = ''tif'' then ''image/tiff''
         else if ext = ''tiff'' then ''image/tiff''
         else [])"

datatype regex = Fail | Empty | EndOfInput | OneOf "char list"
  | Then regex regex | Or regex regex | Many regex

fun closure :: "(string list \<Rightarrow> string list) \<Rightarrow> nat \<Rightarrow> string list \<Rightarrow> string list \<Rightarrow> string list" where
  "closure step 0 seen frontier = seen"
| "closure step (Suc fuel) seen frontier =
     (let new = filter (\<lambda>s. s \<notin> set seen) (remdups (step frontier))
      in if new = [] then seen else closure step fuel (seen @ new) new)"

fun remainders :: "regex \<Rightarrow> string list \<Rightarrow> string list" where
  "remainders Fail ss = []"
| "remainders Empty ss = ss"
| "remainders EndOfInput ss = filter (\<lambda>s. s = []) ss"
| "remainders (OneOf cs) ss = map tl (filter (\<lambda>s. s \<noteq> [] \<and> hd s \<in> set cs) ss)"
| "remainders (Then r s) ss = remainders s (remainders r ss)"
| "remainders (Or r s) ss = remdups (remainders r ss @ remainders s ss)"
| "remainders (Many r) ss =
     closure (\<lambda>xs. remainders r xs) (sum_list (map (\<lambda>s. Suc (length s)) ss)) ss ss"

definition regex_test :: "regex \<Rightarrow> string \<Rightarrow> bool" where
  "regex_test r s = (remainders r [s] \<noteq> [])"

fun literal :: "string \<Rightarrow> regex" where
  "literal [] = Empty"
| "literal (c # cs) = Then (OneOf [c]) (literal cs)"

definition optional :: "regex \<Rightarrow> regex" where
  "optional r = Or r Empty"

definition many1 :: "regex \<Rightarrow> regex" where
  "many1 r = Then r (Many r)"

fun any_of :: "regex list \<Rightarrow> regex" where
  "any_of [] = Fail"
| "any_of [r] = r"
| "any_of (r # rs) = Or r (any_of rs)"

fun sequence :: "regex list \<Rightarrow> regex" where
  "sequence [] = Empty"
| "sequence [r] = r"
| "sequence (r # rs) = Then r (sequence rs)"

definition char_range :: "char \<Rightarrow> char \<Rightarrow> char list" where
  "char_range a b = map char_of [of_char a ..< Suc (of_char b :: nat)]"

definition alnum :: "char list" where
  "alnum = char_range CHR ''a'' CHR ''z'' @ char_range CHR ''A'' CHR ''Z'' @ char_range CHR ''0'' CHR ''9''"

definition urlRegex :: regex where
  "urlRegex =
     (let digit = OneOf (char_range CHR ''0'' CHR ''9'');
          letter = OneOf (char_range CHR ''a'' CHR ''z'' @ char_range CHR ''A'' CHR ''Z'');
          octet1 = any_of
            [sequence [literal ''25'', OneOf (char_range CHR ''0'' CHR ''5'')],
             sequence [literal ''2'', OneOf (char_range CHR ''0'' CHR ''4''), digit],
             sequence [literal ''1'', digit, digit],
             sequence [OneOf (char_range CHR ''1'' CHR ''9''), optional digit]];
          octet = any_of
            [sequence [literal ''25'', OneOf (char_range CHR ''0'' CHR ''5'')],
             sequence [literal ''2'', OneOf (char_range CHR ''0'' CHR ''4''), digit],
             sequence [literal ''1'', digit, digit],
             sequence [optional (OneOf (char_range CHR ''1'' CHR ''9'')), digit]];
          dotted = Then (literal ''.'') octet;
          label = many1 (OneOf (alnum @ ''-''));
          tld = any_of (map literal
                  [''com'', ''edu'', ''gov'', ''int'', ''mil'', ''net'', ''org'', ''biz'', ''arpa'',
                   ''info'', ''name'', ''pro'', ''aero'', ''coop'', ''museum'']
                @ [Then letter letter])
      in sequence
           [Or (Then (literal ''http'') (optional (literal ''s''))) (literal ''ftp''),
            literal ''://'',
            Many (sequence
              [many1 (OneOf (alnum @ ''.-'')),
               Many (Then (literal '':'') (many1 (OneOf (alnum @ ''.&%$-'')))),
               literal ''@'']),
            Or (sequence [octet1, dotted, dotted, dotted])
               (sequence [Many (Then label (literal ''.'')), label, literal ''.'', tld]),
            Many (Then (literal '':'') (many1 digit)),
            Many (Then (literal ''/'')
                    (Or EndOfInput (many1 (OneOf (alnum @ ''.,?'' @ [CHR 0x27, CHR 0x5C] @ ''+&%$#=~_-''))))),
            EndOfInput])"

definition isVideoLink :: "jv \<Rightarrow> bool" where
  "isVideoLink vdoFile = regex_test urlRegex (ToString vdoFile)"

definition toHex :: "jv \<Rightarrow> string option" where
  "toHex n =
     (if n = JUndef \<or> n = JNull then TypeError
      else (let hex = (case n of JNum x \<Rightarrow> Number_toString 16 x | _ \<Rightarrow> ToString n)
            in Some (replicate (2 - length hex) CHR ''0'' @ hex)))"

section \<open>fill.js\<close>

text \<open>
  \<open>warpObj\<close> is the per-slide context object that \<^verbatim>\<open>processSingleSlide\<close> builds (lines 506-523
  of \<^verbatim>\<open>pptxtojson.js\<close>): the field \<open>warp_k\<close> is \<^verbatim>\<open>warpObj['k']\<close>. Its \<^verbatim>\<open>zip\<close> is the opened
  archive, here the list of its files with their bytes; \<^verbatim>\<open>zip.file(p)\<close> is \<^verbatim>\<open>null\<close> for a
  path that is not in the archive, and the call of \<^verbatim>\<open>.async\<close> on it throws. \<open>warp_tree\<close> is the
  context as \<^verbatim>\<open>getTextByPathList(warpObj, ...)\<close> sees it; no source file ever stores a
  \<^verbatim>\<open>'loaded-images'\<close> property in it.

  \<open>externals\<close> collects what the three files import from elsewhere. From the repository's
  \<^verbatim>\<open>schemeColor\<close>, \<^verbatim>\<open>color\<close>, \<^verbatim>\<open>border\<close>, \<^verbatim>\<open>align\<close>, \<^verbatim>\<open>text\<close>, \<^verbatim>\<open>shadow\<close>, \<^verbatim>\<open>shape\<close>, \<^verbatim>\<open>chart\<close>
  and \<^verbatim>\<open>readXmlFile\<close> modules: the functions of the same names, each of which may throw.
  \<open>genTable\<close> stands for the function of that name in \<^verbatim>\<open>pptxtojson.js\<close> (lines 1043-1215),
  which assembles a table from the absent \<^verbatim>\<open>table\<close> module's helpers and is not embedded.
  \<open>createObjectURL bytes type\<close> is the browser's
  \<^verbatim>\<open>URL.createObjectURL(new Blob([bytes], {type}))\<close>. Of \<^verbatim>\<open>tinycolor2\<close>:
  \<^item> \<open>tinycolor_setAlpha_toHex8 c a\<close> is \<^verbatim>\<open>tinycolor(c)\<close> after \<^verbatim>\<open>setAlpha(a)\<close>, as \<^verbatim>\<open>toHex8()\<close>;
  \<^item> \<open>tinycolor_toHsl s\<close> is \<^verbatim>\<open>tinycolor(s).toHsl()\<close>, the four numbers \<open>h\<close>, \<open>s\<close>, \<open>l\<close>, \<open>a\<close>;
  \<^item> \<open>tinycolor_rgb (h, s, l, a)\<close> is the red, green and blue channel of
    \<^verbatim>\<open>tinycolor({h, s, l, a})\<close>.
  What \<^verbatim>\<open>toHexString()\<close> does with the three channels is embedded (\<open>tinycolor_toHexString\<close>):
  the library returns \<^verbatim>\<open>'#' + [pad2(Math.round(r).toString(16)), pad2(Math.round(g).toString(16)),
  pad2(Math.round(b).toString(16))].join('')\<close>, where \<^verbatim>\<open>pad2(c)\<close> puts a \<^verbatim>\<open>0\<close> before a single
  character.
\<close>

type_synonym bytes = "8 word list"

record warpObj =
  warp_zip :: "(string \<times> bytes) list"
  warp_slideLayoutContent :: jv
  warp_slideLayoutTables :: jv
  warp_slideMasterContent :: jv
  warp_slideMasterTables :: jv
  warp_slideContent :: jv
  warp_tableStyles :: jv
  warp_slideResObj :: jv
  warp_slideMasterTextStyles :: jv
  warp_layoutResObj :: jv
  warp_masterResObj :: jv
  warp_themeContent :: jv
  warp_themeResObj :: jv
  warp_digramFileContent :: jv
  warp_diagramResObj :: jv
  warp_defaultTextStyle :: jv

definition warp_tree :: "warpObj \<Rightarrow> jv" where
  "warp_tree w = JObj
     [(''slideLayoutContent'', warp_slideLayoutContent w),
      (''slideLayoutTables'', warp_slideLayoutTables w),
      (''slideMasterContent'', warp_slideMasterContent w),
      (''slideMasterTables'', warp_slideMasterTables w),
      (''slideContent'', warp_slideContent w),
      (''tableStyles'', warp_tableStyles w),
      (''slideResObj'', warp_slideResObj w),
      (''slideMasterTextStyles'', warp_slideMasterTextStyles w),
      (''layoutResObj'', warp_layoutResObj w),
      (''masterResObj'', warp_masterResObj w),
      (''themeContent'', warp_themeContent w),
      (''themeResObj'', warp_themeResObj w),
      (''digramFileContent'', warp_digramFileContent w),
      (''diagramResObj'', warp_diagramResObj w),
      (''defaultTextStyle'', warp_defaultTextStyle w)]"

definition zip_file_arraybuffer :: "warpObj \<Rightarrow> string \<Rightarrow> bytes option" where
  "zip_file_arraybuffer w path = map_of (warp_zip w) path"

record externals =
  getSchemeColorFromTheme :: "jv \<Rightarrow> warpObj \<Rightarrow> jv \<Rightarrow> jv \<Rightarrow> jv option"
  getColorName2Hex :: "jv \<Rightarrow> jv option"
  hslToRgb :: "jnum \<Rightarrow> jnum \<Rightarrow> jnum \<Rightarrow> jv option"
  applyShade :: "jv \<Rightarrow> jnum \<Rightarrow> bool \<Rightarrow> jv option"
  applyTint :: "jv \<Rightarrow> jnum \<Rightarrow> bool \<Rightarrow> jv option"
  applyLumOff :: "jv \<Rightarrow> jnum \<Rightarrow> bool \<Rightarrow> jv option"
  applyLumMod :: "jv \<Rightarrow> jnum \<Rightarrow> bool \<Rightarrow> jv option"
  applyHueMod :: "jv \<Rightarrow> jnum \<Rightarrow> bool \<Rightarrow> jv option"
  applySatMod :: "jv \<Rightarrow> jnum \<Rightarrow> bool \<Rightarrow> jv option"
  tinycolor_setAlpha_toHex8 :: "jv \<Rightarrow> jnum \<Rightarrow> jv"
  tinycolor_toHsl :: "string \<Rightarrow> jnum \<times> jnum \<times> jnum \<times> jnum"
  tinycolor_rgb :: "jnum \<times> jnum \<times> jnum \<times> jnum \<Rightarrow> jnum \<times> jnum \<times> jnum"
  getBorder :: "jv \<Rightarrow> jv \<Rightarrow> warpObj \<Rightarrow> jv option"
  getVerticalAlign :: "jv \<Rightarrow> jv \<Rightarrow> jv \<Rightarrow> jv \<Rightarrow> jv option"
  genTextBody :: "jv \<Rightarrow> jv \<Rightarrow> jv \<Rightarrow> jv \<Rightarrow> warpObj \<Rightarrow> jv option"
  getShadow :: "jv \<Rightarrow> warpObj \<Rightarrow> jv option"
  getCustomShapePath :: "jv \<Rightarrow> jnum \<Rightarrow> jnum \<Rightarrow> jv option"
  getChartInfo :: "jv \<Rightarrow> jv option"
  readXmlFile :: "warpObj \<Rightarrow> jv \<Rightarrow> jv option"
  genTable :: "jv \<Rightarrow> warpObj \<Rightarrow> jv option"
  createObjectURL :: "bytes \<Rightarrow> jv \<Rightarrow> jv"

definition getFillType :: "jv \<Rightarrow> string option" where
  "getFillType node = do {
     noFill \<leftarrow> read_prop node ''a:noFill'';
     let fillType = (if truthy noFill then ''NO_FILL'' else []);
     let fillType = (if truthy (get node ''a:solidFill'') then ''SOLID_FILL'' else fillType);
     let fillType = (if truthy (get node ''a:gradFill'') then ''GRADIENT_FILL'' else fillType);
     let fillType = (if truthy (get node ''a:pattFill'') then ''PATTERN_FILL'' else fillType);
     let fillType = (if truthy (get node ''a:blipFill'') then ''PIC_FILL'' else fillType);
     let fillType = (if truthy (get node ''a:grpFill'') then ''GROUP_FILL'' else fillType);
     Some fillType
   }"

definition getPicFill :: "string \<Rightarrow> jv \<Rightarrow> warpObj \<Rightarrow> jv option" where
  "getPicFill type node warpObj = do {
     blip \<leftarrow> read_prop node ''a:blip'';
     attrs \<leftarrow> read_prop blip ''attrs'';
     rId \<leftarrow> read_prop attrs ''r:embed'';
     let imgPath =
       (if type = ''slideBg'' \<or> type = ''slide''
          then getTextByPathList (warp_tree warpObj) [''slideResObj'', ToString rId, ''target'']
        else if type = ''slideLayoutBg''
          then getTextByPathList (warp_tree warpObj) [''layoutResObj'', ToString rId, ''target'']
        else if type = ''slideMasterBg''
          then getTextByPathList (warp_tree warpObj) [''masterResObj'', ToString rId, ''target'']
        else if type = ''themeBg''
          then getTextByPathList (warp_tree warpObj) [''themeResObj'', ToString rId, ''target'']
        else if type = ''diagramBg''
          then getTextByPathList (warp_tree warpObj) [''diagramResObj'', ToString rId, ''target'']
        else JUndef);
     if \<not> truthy imgPath then Some imgPath
     else do {
       let img = getTextByPathList (warp_tree warpObj) [''loaded-images'', ToString imgPath];
       if \<not> truthy img then do {
         imgPath \<leftarrow> escapeHtml imgPath;
         let imgExt = after_last CHR ''.'' imgPath;
         if imgExt = ''xml'' then Some JUndef
         else do {
           imgArrayBuffer \<leftarrow> zip_file_arraybuffer warpObj imgPath;
           let imgMimeType = getMimeType imgExt;
           Some (JStr (''data:'' @ imgMimeType @ '';base64,'' @ base64ArrayBuffer imgArrayBuffer))
         }
       }
       else Some img
     }
   }"

definition getBgPicFill :: "jv \<Rightarrow> string \<Rightarrow> warpObj \<Rightarrow> jv option" where
  "getBgPicFill bgPr sorce warpObj = do {
     blipFill \<leftarrow> read_prop bgPr ''a:blipFill'';
     picBase64 \<leftarrow> getPicFill sorce blipFill warpObj;
     aBlipNode \<leftarrow> read_prop blipFill ''a:blip'';
     let aphaModFixNode = getTextByPathList aBlipNode [''a:alphaModFix'', ''attrs''];
     let opacity =
       (if truthy aphaModFixNode \<and> truthy (get aphaModFixNode ''amt'')
           \<and> get aphaModFixNode ''amt'' \<noteq> JStr []
        then js_div (parseInt (get aphaModFixNode ''amt'')) (Finite 100000)
        else Finite 1);
     Some (JObj [(''picBase64'', picBase64), (''opacity'', JNum opacity)])
   }"

definition modifier :: "jv \<Rightarrow> string \<Rightarrow> jnum" where
  "modifier clrNode name = js_div (parseInt (getTextByPathList clrNode [name, ''attrs'', ''val''])) (Finite 100000)"

definition percent_attr :: "jv \<Rightarrow> jv option" where
  "percent_attr v = do {
     s \<leftarrow> str_of v;
     Some (if indexOf s CHR ''%'' \<noteq> - 1 then JStr (before_first CHR ''%'' s) else v)
   }"

definition scaled_channel :: "jv \<Rightarrow> jv" where
  "scaled_channel v = JNum (js_mul (Finite 255) (js_div (ToNumber v) (Finite 100)))"

definition apply_if_present ::
  "(jv \<Rightarrow> jnum \<Rightarrow> bool \<Rightarrow> jv option) \<Rightarrow> jnum \<Rightarrow> bool \<Rightarrow> jv \<Rightarrow> jv option" where
  "apply_if_present f amount isAlpha color = (if \<not> isNaN amount then f color amount isAlpha else Some color)"

definition getSolidFill :: "externals \<Rightarrow> jv \<Rightarrow> jv \<Rightarrow> jv \<Rightarrow> warpObj \<Rightarrow> jv option" where
  "getSolidFill E solidFill clrMap phClr warpObj =
     (if \<not> truthy solidFill then Some (JStr [])
      else do {
        (color, clrNode) \<leftarrow>
          (if truthy (get solidFill ''a:srgbClr'') then
             (let clrNode = get solidFill ''a:srgbClr''
              in Some (getTextByPathList clrNode [''attrs'', ''val''], clrNode))
           else if truthy (get solidFill ''a:schemeClr'') then
             (let clrNode = get solidFill ''a:schemeClr'';
                  schemeClr = ''a:'' @ ToString (getTextByPathList clrNode [''attrs'', ''val''])
              in do {
                   c \<leftarrow> getSchemeColorFromTheme E (JStr schemeClr) warpObj clrMap phClr;
                   Some (js_or c (JStr []), clrNode)
                 })
           else if truthy (get solidFill ''a:scrgbClr'') then
             (let clrNode = get solidFill ''a:scrgbClr''
              in do {
                   defBultColorVals \<leftarrow> Some (get clrNode ''attrs'');
                   r \<leftarrow> read_prop defBultColorVals ''r'';
                   red \<leftarrow> percent_attr r;
                   green \<leftarrow> percent_attr (get defBultColorVals ''g'');
                   blue \<leftarrow> percent_attr (get defBultColorVals ''b'');
                   hr \<leftarrow> toHex (scaled_channel red);
                   hg \<leftarrow> toHex (scaled_channel green);
                   hb \<leftarrow> toHex (scaled_channel blue);
                   Some (JStr (hr @ hg @ hb), clrNode)
                 })
           else if truthy (get solidFill ''a:prstClr'') then
             (let clrNode = get solidFill ''a:prstClr'';
                  prstClr = getTextByPathList clrNode [''attrs'', ''val'']
              in do {
                   c \<leftarrow> getColorName2Hex E prstClr;
                   Some (c, clrNode)
                 })
           else if truthy (get solidFill ''a:hslClr'') then
             (let clrNode = get solidFill ''a:hslClr''
              in do {
                   defBultColorVals \<leftarrow> Some (get clrNode ''attrs'');
                   h \<leftarrow> read_prop defBultColorVals ''hue'';
                   let hue = js_div (ToNumber h) (Finite 100000);
                   s \<leftarrow> percent_attr (get defBultColorVals ''sat'');
                   let sat = js_div (ToNumber s) (Finite 100);
                   l \<leftarrow> percent_attr (get defBultColorVals ''lum'');
                   let lum = js_div (ToNumber l) (Finite 100);
                   hsl2rgb \<leftarrow> hslToRgb E hue sat lum;
                   r \<leftarrow> read_prop hsl2rgb ''r'';
                   hr \<leftarrow> toHex r;
                   hg \<leftarrow> toHex (get hsl2rgb ''g'');
                   hb \<leftarrow> toHex (get hsl2rgb ''b'');
                   Some (JStr (hr @ hg @ hb), clrNode)
                 })
           else if truthy (get solidFill ''a:sysClr'') then
             (let clrNode = get solidFill ''a:sysClr'';
                  sysClr = getTextByPathList clrNode [''attrs'', ''lastClr'']
              in Some (if truthy sysClr then sysClr else JStr [], clrNode))
           else Some (JStr [], JUndef));
        let alpha = modifier clrNode ''a:alpha'';
        let isAlpha = \<not> isNaN alpha;
        let color = (if \<not> isNaN alpha then tinycolor_setAlpha_toHex8 E color alpha else color);
        color \<leftarrow> apply_if_present (applyHueMod E) (modifier clrNode ''a:hueMod'') isAlpha color;
        color \<leftarrow> apply_if_present (applyLumMod E) (modifier clrNode ''a:lumMod'') isAlpha color;
        color \<leftarrow> apply_if_present (applyLumOff E) (modifier clrNode ''a:lumOff'') isAlpha color;
        color \<leftarrow> apply_if_present (applySatMod E) (modifier clrNode ''a:satMod'') isAlpha color;
        color \<leftarrow> apply_if_present (applyShade E) (modifier clrNode ''a:shade'') isAlpha color;
        color \<leftarrow> apply_if_present (applyTint E) (modifier clrNode ''a:tint'') isAlpha color;
        if truthy color then do {
          s \<leftarrow> str_of color;
          Some (if indexOf s CHR ''#'' = - 1 then JStr (''#'' @ s) else color)
        }
        else Some color
      })"

text \<open>
  \<open>getBgGradientFill\<close> (lines 86-117). \<open>loop_indices n\<close> are the values of \<open>i\<close> for which
  \<^verbatim>\<open>i < n\<close> holds, counting from 0 (none when \<open>n\<close> is \<open>NaN\<close>, as for the \<^verbatim>\<open>length\<close> of a
  single stop, which the parser leaves an object). \<open>Array_sort\<close> is \<^verbatim>\<open>Array.prototype.sort\<close>
  with a comparison function: the sort is stable, and a comparison that returns \<open>NaN\<close>
  counts as 0. For a comparison function that is consistent every stable sort returns the
  same array, here by insertion; for one that is not (a \<open>NaN\<close> beside numbers) the
  language leaves the order to the implementation, and the model gives one possible order.

  \<open>getSlideBackgroundFill\<close> (lines 124-201). The branch for a slide \<^verbatim>\<open>p:bgRef\<close> is empty in the
  source, and the branch that reads the layout's and the master's \<^verbatim>\<open>p:bgPr\<close> and \<^verbatim>\<open>p:bgRef\<close>
  does nothing with them: the comments there say that code was left out.
\<close>

fun insert_by :: "('a \<Rightarrow> 'a \<Rightarrow> jnum) \<Rightarrow> 'a \<Rightarrow> 'a list \<Rightarrow> 'a list" where
  "insert_by compareFn x [] = [x]"
| "insert_by compareFn x (y # ys) =
     (case compareFn x y of
        Finite d \<Rightarrow> (if d < 0 then x # y # ys else y # insert_by compareFn x ys)
      | NegInfinity \<Rightarrow> x # y # ys
      | _ \<Rightarrow> y # insert_by compareFn x ys)"

definition Array_sort :: "('a \<Rightarrow> 'a \<Rightarrow> jnum) \<Rightarrow> 'a list \<Rightarrow> 'a list" where
  "Array_sort compareFn xs = foldl (\<lambda>sorted x. insert_by compareFn x sorted) [] xs"

definition loop_indices :: "jnum \<Rightarrow> nat list" where
  "loop_indices n = (case n of Finite q \<Rightarrow> [0..<nat \<lceil>q\<rceil>] | _ \<Rightarrow> [])"

definition getBgGradientFill :: "externals \<Rightarrow> jv \<Rightarrow> jv \<Rightarrow> jv \<Rightarrow> warpObj \<Rightarrow> jv option" where
  "getBgGradientFill E bgPr phClr slideMasterContent warpObj =
     (if truthy bgPr then do {
        let grdFill = get bgPr ''a:gradFill'';
        gsLstNode \<leftarrow> read_prop grdFill ''a:gsLst'';
        gsLst \<leftarrow> read_prop gsLstNode ''a:gs'';
        len \<leftarrow> read_prop gsLst ''length'';
        color_ary \<leftarrow> mapM (\<lambda>i. do {
            let gs = get gsLst (digits_of 10 i);
            sldMaster \<leftarrow> read_prop slideMasterContent ''p:sldMaster'';
            clrMapNode \<leftarrow> read_prop sldMaster ''p:clrMap'';
            clrMap \<leftarrow> read_prop clrMapNode ''attrs'';
            lo_color \<leftarrow> getSolidFill E gs clrMap phClr warpObj;
            let pos = getTextByPathList gs [''attrs'', ''pos''];
            Some (JObj
              [(''pos'', if truthy pos
                         then JStr (Number_toString 10 (js_div (ToNumber pos) (Finite 1000)) @ ''%'')
                         else JStr []),
               (''color'', lo_color)])
          }) (loop_indices (ToNumber len));
        let lin = get grdFill ''a:lin'';
        rot \<leftarrow> (if truthy lin then do {
                  attrs \<leftarrow> Some (get lin ''attrs'');
                  ang \<leftarrow> read_prop attrs ''ang'';
                  Some (js_add (angleToDegrees ang) (Finite 90))
                } else Some (Finite 90));
        Some (JObj
          [(''rot'', JNum rot),
           (''colors'', JArr (Array_sort
              (\<lambda>a b. js_sub (parseInt (get a ''pos'')) (parseInt (get b ''pos''))) color_ary))])
      }
      else if truthy phClr then do {
        s \<leftarrow> str_of phClr;
        Some (if indexOf s CHR ''#'' = - 1 then JStr (''#'' @ s) else phClr)
      }
      else Some JNull)"

definition background_record :: "string \<Rightarrow> jv \<Rightarrow> jv" where
  "background_record backgroundType background =
     JObj [(''type'', JStr backgroundType), (''value'', background)]"

definition getSlideBackgroundFill :: "externals \<Rightarrow> warpObj \<Rightarrow> jv option" where
  "getSlideBackgroundFill E warpObj =
     (let slideContent = warp_slideContent warpObj;
          slideLayoutContent = warp_slideLayoutContent warpObj;
          slideMasterContent = warp_slideMasterContent warpObj;
          bgPr = getTextByPathList slideContent [''p:sld'', ''p:cSld'', ''p:bg'', ''p:bgPr''];
          bgRef = getTextByPathList slideContent [''p:sld'', ''p:cSld'', ''p:bg'', ''p:bgRef''];
          background = JStr ''#fff'';
          backgroundType = ''color''
      in if truthy bgPr then do {
           bgFillTyp \<leftarrow> getFillType bgPr;
           if bgFillTyp = ''SOLID_FILL'' then do {
             let sldFill = get bgPr ''a:solidFill'';
             let sldClrMapOvr = getTextByPathList slideContent
                   [''p:sld'', ''p:clrMapOvr'', ''a:overrideClrMapping'', ''attrs''];
             let layoutClrMapOvr = getTextByPathList slideLayoutContent
                   [''p:sldLayout'', ''p:clrMapOvr'', ''a:overrideClrMapping'', ''attrs''];
             let clrMapOvr =
                   (if truthy sldClrMapOvr then sldClrMapOvr
                    else if truthy layoutClrMapOvr then layoutClrMapOvr
                    else getTextByPathList slideMasterContent [''p:sldMaster'', ''p:clrMap'', ''attrs'']);
             sldBgClr \<leftarrow> getSolidFill E sldFill clrMapOvr JUndef warpObj;
             Some (background_record backgroundType sldBgClr)
           }
           else if bgFillTyp = ''GRADIENT_FILL'' then do {
             gradientFill \<leftarrow> getBgGradientFill E bgPr JUndef slideMasterContent warpObj;
             Some (case gradientFill of
                     JStr s \<Rightarrow> background_record backgroundType gradientFill
                   | _ \<Rightarrow> (if truthy gradientFill then background_record ''gradient'' gradientFill
                           else background_record backgroundType background))
           }
           else if bgFillTyp = ''PIC_FILL'' then do {
             pic \<leftarrow> getBgPicFill bgPr ''slideBg'' warpObj;
             Some (background_record ''image'' pic)
           }
           else Some (background_record backgroundType background)
         }
         else if truthy bgRef then Some (background_record backgroundType background)
         else
           (let bgPr = getTextByPathList slideLayoutContent [''p:sldLayout'', ''p:cSld'', ''p:bg'', ''p:bgPr''];
                bgRef = getTextByPathList slideLayoutContent [''p:sldLayout'', ''p:cSld'', ''p:bg'', ''p:bgRef'']
            in if \<not> truthy bgPr \<and> \<not> truthy bgRef then
                 (let bgPr = getTextByPathList slideMasterContent [''p:sldMaster'', ''p:cSld'', ''p:bg'', ''p:bgPr''];
                      bgRef = getTextByPathList slideMasterContent [''p:sldMaster'', ''p:cSld'', ''p:bg'', ''p:bgRef'']
                  in Some (background_record backgroundType background))
               else Some (background_record backgroundType background)))"

definition pad2 :: "string \<Rightarrow> string" where
  "pad2 c = (if length c = 1 then ''0'' @ c else c)"

definition tinycolor_toHexString :: "jnum \<times> jnum \<times> jnum \<Rightarrow> string" where
  "tinycolor_toHexString rgb =
     (case rgb of (r, g, b) \<Rightarrow>
        ''#'' @ pad2 (Number_toString 16 (Math_round r))
              @ pad2 (Number_toString 16 (Math_round g))
              @ pad2 (Number_toString 16 (Math_round b)))"

definition getShapeFill :: "externals \<Rightarrow> jv \<Rightarrow> jv \<Rightarrow> warpObj \<Rightarrow> jv option" where
  "getShapeFill E node isSvgMode warpObj =
     (if truthy (getTextByPathList node [''p:spPr'', ''a:noFill''])
      then Some (if truthy isSvgMode then JStr ''none'' else JStr [])
      else do {
        let fillColor = getTextByPathList node [''p:spPr'', ''a:solidFill'', ''a:srgbClr'', ''attrs'', ''val''];
        fillColor \<leftarrow>
          (if \<not> truthy fillColor then
             getSchemeColorFromTheme E
               (JStr (''a:'' @ ToString (getTextByPathList node
                   [''p:spPr'', ''a:solidFill'', ''a:schemeClr'', ''attrs'', ''val''])))
               warpObj JUndef JUndef
           else Some fillColor);
        fillColor \<leftarrow>
          (if \<not> truthy fillColor then
             getSchemeColorFromTheme E
               (JStr (''a:'' @ ToString (getTextByPathList node
                   [''p:style'', ''a:fillRef'', ''a:schemeClr'', ''attrs'', ''val''])))
               warpObj JUndef JUndef
           else Some fillColor);
        if truthy fillColor then
          (let fillColor = ''#'' @ ToString fillColor;
               lumMod = js_div (parseInt (getTextByPathList node
                   [''p:spPr'', ''a:solidFill'', ''a:schemeClr'', ''a:lumMod'', ''attrs'', ''val''])) (Finite 100000);
               lumOff = js_div (parseInt (getTextByPathList node
                   [''p:spPr'', ''a:solidFill'', ''a:schemeClr'', ''a:lumOff'', ''attrs'', ''val''])) (Finite 100000);
               lumMod = (if isNaN lumMod then Finite 1 else lumMod);
               lumOff = (if isNaN lumOff then Finite 0 else lumOff)
           in (case tinycolor_toHsl E fillColor of (h, s, l, a) \<Rightarrow>
                 (let lum = js_add (js_mul l lumMod) lumOff
                  in Some (JStr (tinycolor_toHexString (tinycolor_rgb E (h, s, lum, a)))))))
        else if truthy isSvgMode then Some (JStr ''none'')
        else Some fillColor
      })"

section \<open>pptxtojson.js\<close>

text \<open>
  \<open>getPosition\<close> and \<open>getSize\<close> are imported from \<^verbatim>\<open>./position\<close>, which is not among the source
  files. Modelled from the spec: "\<^verbatim>\<open>position(slideXfrm, layoutXfrm?, masterXfrm?)\<close> returns
  \<^verbatim>\<open>{left, top}\<close> in points; for each axis, the first node in the chain that provides \<^verbatim>\<open>a:off\<close>
  wins; missing \<rightarrow> 0. \<^verbatim>\<open>size(...)\<close> is analogous using \<^verbatim>\<open>a:ext\<close> with attributes \<^verbatim>\<open>cx\<close>, \<^verbatim>\<open>cy\<close>."
  An attribute is read as the group handler reads the same attributes, with \<^verbatim>\<open>parseInt\<close>,
  and converted by \<open>RATIO_EMUs_Points\<close> (\<open>emu_attr\<close>).

  \<open>spread obj updates\<close> is the object literal \<^verbatim>\<open>{...obj, k1: v1, ...}\<close>. \<open>genShape\<close> (lines
  805-911) is \<^verbatim>\<open>async\<close>; \<open>processSpNode\<close> and \<open>processCxnSpNode\<close> are not and return its
  promise, which \<open>processNodesInSlide\<close> awaits and \<open>genDiagram\<close> stores as it is.
\<close>

definition emu_attr :: "jv \<Rightarrow> string \<Rightarrow> jnum" where
  "emu_attr attrs name = js_mul (parseInt (get attrs name)) RATIO_EMUs_Points"

definition getPosition :: "jv \<Rightarrow> jv \<Rightarrow> jv \<Rightarrow> jv" where
  "getPosition slideSpNode slideLayoutSpNode slideMasterSpNode =
     (let provided = filter truthy
            (map (\<lambda>xfrm. getTextByPathList xfrm [''a:off'', ''attrs''])
               [slideSpNode, slideLayoutSpNode, slideMasterSpNode])
      in case provided of
           [] \<Rightarrow> JObj [(''top'', JNum (Finite 0)), (''left'', JNum (Finite 0))]
         | off # _ \<Rightarrow> JObj [(''top'', JNum (emu_attr off ''y'')), (''left'', JNum (emu_attr off ''x''))])"

definition getSize :: "jv \<Rightarrow> jv \<Rightarrow> jv \<Rightarrow> jv" where
  "getSize slideSpNode slideLayoutSpNode slideMasterSpNode =
     (let provided = filter truthy
            (map (\<lambda>xfrm. getTextByPathList xfrm [''a:ext'', ''attrs''])
               [slideSpNode, slideLayoutSpNode, slideMasterSpNode])
      in case provided of
           [] \<Rightarrow> JObj [(''width'', JNum (Finite 0)), (''height'', JNum (Finite 0))]
         | ext # _ \<Rightarrow> JObj [(''width'', JNum (emu_attr ext ''cx'')), (''height'', JNum (emu_attr ext ''cy''))])"

definition strict_eq_str :: "jv \<Rightarrow> string \<Rightarrow> bool" where
  "strict_eq_str v s = (v = JStr s)"

definition spread :: "jv \<Rightarrow> (string \<times> jv) list \<Rightarrow> jv" where
  "spread obj updates = JObj (foldl (\<lambda>kvs (k, v). set_prop kvs k v) (own_props obj) updates)"

definition genShape ::
  "externals \<Rightarrow> jv \<Rightarrow> jv \<Rightarrow> jv \<Rightarrow> jv \<Rightarrow> jv \<Rightarrow> warpObj \<Rightarrow> jv option" where
  "genShape E node slideLayoutSpNode slideMasterSpNode name type warpObj = do {
     let xfrmList = [''p:spPr'', ''a:xfrm''];
     let slideXfrmNode = getTextByPathList node xfrmList;
     let slideLayoutXfrmNode = getTextByPathList slideLayoutSpNode xfrmList;
     let slideMasterXfrmNode = getTextByPathList slideMasterSpNode xfrmList;
     let shapType = getTextByPathList node [''p:spPr'', ''a:prstGeom'', ''attrs'', ''prst''];
     let custShapType = getTextByPathList node [''p:spPr'', ''a:custGeom''];
     let position = getPosition slideXfrmNode slideLayoutXfrmNode slideMasterXfrmNode;
     let top = get position ''top'';
     let left = get position ''left'';
     let size = getSize slideXfrmNode slideLayoutXfrmNode slideMasterXfrmNode;
     let width = get size ''width'';
     let height = get size ''height'';
     let isFlipV = strict_eq_str (getTextByPathList slideXfrmNode [''attrs'', ''flipV'']) ''1'';
     let isFlipH = strict_eq_str (getTextByPathList slideXfrmNode [''attrs'', ''flipH'']) ''1'';
     let rotate = angleToDegrees (getTextByPathList slideXfrmNode [''attrs'', ''rot'']);
     let txtXframeNode = getTextByPathList node [''p:txXfrm''];
     let txtXframeRot = getTextByPathList txtXframeNode [''attrs'', ''rot''];
     let txtRotate =
       (if truthy txtXframeNode then
          (if truthy txtXframeRot then JNum (js_add (angleToDegrees txtXframeRot) (Finite 90))
           else JUndef)
        else JNum rotate);
     txBody \<leftarrow> read_prop node ''p:txBody'';
     content \<leftarrow> (if truthy txBody then genTextBody E txBody node slideLayoutSpNode type warpObj
                  else Some (JStr []));
     border \<leftarrow> getBorder E node type warpObj;
     borderColor \<leftarrow> read_prop border ''borderColor'';
     let borderWidth = get border ''borderWidth'';
     let borderType = get border ''borderType'';
     let strokeDasharray = get border ''strokeDasharray'';
     shapeFill \<leftarrow> getShapeFill E node JUndef warpObj;
     let fillColor = js_or shapeFill (JStr []);
     gradientFill \<leftarrow> getSlideBackgroundFill E warpObj;
     let outerShdwNode = getTextByPathList node [''p:spPr'', ''a:effectLst'', ''a:outerShdw''];
     shadow \<leftarrow> (if truthy outerShdwNode then getShadow E outerShdwNode warpObj else Some JUndef);
     vAlign \<leftarrow> getVerticalAlign E node slideLayoutSpNode slideMasterSpNode type;
     let isVertical = strict_eq_str
           (getTextByPathList node [''p:txBody'', ''a:bodyPr'', ''attrs'', ''vert'']) ''eaVert'';
     let data = JObj
           [(''left'', left),
            (''top'', top),
            (''width'', width),
            (''height'', height),
            (''borderColor'', borderColor),
            (''borderWidth'', borderWidth),
            (''borderType'', borderType),
            (''borderStrokeDasharray'', strokeDasharray),
            (''fillColor'', fillColor),
            (''content'', content),
            (''isFlipV'', JBool isFlipV),
            (''isFlipH'', JBool isFlipH),
            (''rotate'', JNum rotate),
            (''vAlign'', vAlign),
            (''name'', name)];
     let data = (if truthy shadow then spread data [(''shadow'', shadow)] else data);
     if truthy custShapType \<and> type \<noteq> JStr ''diagram'' then do {
       let ext = getTextByPathList slideXfrmNode [''a:ext'', ''attrs''];
       cx \<leftarrow> read_prop ext ''cx'';
       let w = js_mul (parseInt cx) RATIO_EMUs_Points;
       let h = js_mul (parseInt (get ext ''cy'')) RATIO_EMUs_Points;
       d \<leftarrow> getCustomShapePath E custShapType w h;
       Some (spread data [(''type'', JStr ''shape''), (''shapType'', JStr ''custom''), (''path'', d)])
     }
     else if truthy shapType \<and> (type = JStr ''obj'' \<or> \<not> truthy type) then
       Some (spread data [(''type'', JStr ''shape''), (''shapType'', shapType)])
     else
       Some (spread data [(''type'', JStr ''text''), (''isVertical'', JBool isVertical), (''rotate'', txtRotate)])
   }"

definition placeholder_node :: "jv \<Rightarrow> string \<Rightarrow> jv \<Rightarrow> jv option" where
  "placeholder_node tables tableName key = do {
     table \<leftarrow> read_prop tables tableName;
     read_prop table (ToString key)
   }"

definition processSpNode :: "externals \<Rightarrow> jv \<Rightarrow> warpObj \<Rightarrow> string \<Rightarrow> jv option" where
  "processSpNode E node warpObj source = do {
     let name = getTextByPathList node [''p:nvSpPr'', ''p:cNvPr'', ''attrs'', ''name''];
     let idx = getTextByPathList node [''p:nvSpPr'', ''p:nvPr'', ''p:ph'', ''attrs'', ''idx''];
     let type = getTextByPathList node [''p:nvSpPr'', ''p:nvPr'', ''p:ph'', ''attrs'', ''type''];
     (slideLayoutSpNode, slideMasterSpNode) \<leftarrow>
       (if truthy type then do {
          l \<leftarrow> placeholder_node (warp_slideLayoutTables warpObj) ''typeTable'' type;
          m \<leftarrow> placeholder_node (warp_slideMasterTables warpObj) ''typeTable'' type;
          Some (l, m)
        }
        else if truthy idx then do {
          l \<leftarrow> placeholder_node (warp_slideLayoutTables warpObj) ''idxTable'' idx;
          m \<leftarrow> placeholder_node (warp_slideMasterTables warpObj) ''idxTable'' idx;
          Some (l, m)
        }
        else Some (JUndef, JUndef));
     let txBoxVal = getTextByPathList node [''p:nvSpPr'', ''p:cNvSpPr'', ''attrs'', ''txBox''];
     let type = (if \<not> truthy type \<and> txBoxVal = JStr ''1'' then JStr ''text'' else type);
     let type = (if \<not> truthy type
                 then getTextByPathList slideLayoutSpNode [''p:nvSpPr'', ''p:nvPr'', ''p:ph'', ''attrs'', ''type'']
                 else type);
     let type = (if \<not> truthy type
                 then getTextByPathList slideMasterSpNode [''p:nvSpPr'', ''p:nvPr'', ''p:ph'', ''attrs'', ''type'']
                 else type);
     let type = (if \<not> truthy type
                 then (if source = ''diagramBg'' then JStr ''diagram'' else JStr ''obj'')
                 else type);
     Some (JPromise (genShape E node slideLayoutSpNode slideMasterSpNode name type warpObj))
   }"

definition processCxnSpNode :: "externals \<Rightarrow> jv \<Rightarrow> warpObj \<Rightarrow> jv option" where
  "processCxnSpNode E node warpObj = do {
     nvCxnSpPr \<leftarrow> read_prop node ''p:nvCxnSpPr'';
     cNvPr \<leftarrow> read_prop nvCxnSpPr ''p:cNvPr'';
     attrs \<leftarrow> read_prop cNvPr ''attrs'';
     name \<leftarrow> read_prop attrs ''name'';
     ph \<leftarrow> read_prop (get nvCxnSpPr ''p:nvPr'') ''p:ph'';
     type \<leftarrow> (if ph = JUndef then Some JUndef
               else do {
                 nvSpPr \<leftarrow> read_prop node ''p:nvSpPr'';
                 nvPr \<leftarrow> read_prop nvSpPr ''p:nvPr'';
                 spPh \<leftarrow> read_prop nvPr ''p:ph'';
                 phAttrs \<leftarrow> read_prop spPh ''attrs'';
                 read_prop phAttrs ''type''
               });
     Some (JPromise (genShape E node JUndef JUndef name type warpObj))
   }"

definition await :: "jv \<Rightarrow> jv option" where
  "await v = (case v of JPromise outcome \<Rightarrow> outcome | _ \<Rightarrow> Some v)"

text \<open>
  \<open>processPicNode\<close> (lines 913-1017); \<open>resource_target resObj rid\<close> is
  \<^verbatim>\<open>resObj[rid]['target']\<close>. \<open>processGraphicFrameNode\<close> (lines 1019-1041): for an OLE object
  the source calls the \<^verbatim>\<open>async\<close> group handler without awaiting it and drops the promise, so
  neither a result nor an exception comes back.

  \<open>work_items node\<close> is the sequence of calls of \<open>processNodesInSlide\<close> that the loop
  \<^verbatim>\<open>for (const nodeKey in node)\<close> makes, in order (lines 529-540 and 702-713): one call for a
  child that is not an array, one for each item of a child that is; the test
  \<^verbatim>\<open>node[nodeKey].constructor === Array\<close> throws on \<^verbatim>\<open>undefined\<close> and \<^verbatim>\<open>null\<close>.
  \<open>remap_element\<close> is the arrow function that \<open>processGroupSpNode\<close> maps over the elements
  of a group (lines 722-728).
\<close>

definition iterate :: "jv \<Rightarrow> jv list option" where
  "iterate v = (case v of JArr xs \<Rightarrow> Some xs | JStr s \<Rightarrow> Some (characters s) | _ \<Rightarrow> TypeError)"

definition resource_target :: "jv \<Rightarrow> jv \<Rightarrow> jv option" where
  "resource_target resObj rid = do {
     entry \<leftarrow> read_prop resObj (ToString rid);
     read_prop entry ''target''
   }"

definition processPicNode :: "externals \<Rightarrow> jv \<Rightarrow> warpObj \<Rightarrow> string \<Rightarrow> jv option" where
  "processPicNode E node warpObj source = do {
     let resObj =
       (if source = ''slideMasterBg'' then warp_masterResObj warpObj
        else if source = ''slideLayoutBg'' then warp_layoutResObj warpObj
        else warp_slideResObj warpObj);
     blipFill \<leftarrow> read_prop node ''p:blipFill'';
     blip \<leftarrow> read_prop blipFill ''a:blip'';
     blipAttrs \<leftarrow> read_prop blip ''attrs'';
     rid \<leftarrow> read_prop blipAttrs ''r:embed'';
     imgName \<leftarrow> resource_target resObj rid;
     ext \<leftarrow> extractFileExtension imgName;
     let imgFileExt = toLowerCase ext;
     imgArrayBuffer \<leftarrow> zip_file_arraybuffer warpObj (ToString imgName);
     xfrmNode \<leftarrow> read_prop (get node ''p:spPr'') ''a:xfrm'';
     let mimeType = getMimeType imgFileExt;
     let position = getPosition xfrmNode JUndef JUndef;
     let top = get position ''top'';
     let left = get position ''left'';
     let size = getSize xfrmNode JUndef JUndef;
     let width = get size ''width'';
     let height = get size ''height'';
     let src = ''data:'' @ mimeType @ '';base64,'' @ base64ArrayBuffer imgArrayBuffer;
     let isFlipV = strict_eq_str (getTextByPathList xfrmNode [''attrs'', ''flipV'']) ''1'';
     let isFlipH = strict_eq_str (getTextByPathList xfrmNode [''attrs'', ''flipH'']) ''1'';
     let rotateNode = getTextByPathList node [''p:spPr'', ''a:xfrm'', ''attrs'', ''rot''];
     let rotate = (if truthy rotateNode then angleToDegrees rotateNode else Finite 0);
     let videoNode = getTextByPathList node [''p:nvPicPr'', ''p:nvPr'', ''a:videoFile''];
     (videoFile, isVdeoLink, videoBlob) \<leftarrow>
       (if truthy videoNode then do {
          videoRid \<leftarrow> read_prop (get videoNode ''attrs'') ''r:link'';
          videoFile \<leftarrow> resource_target resObj videoRid;
          if isVideoLink videoFile then do {
            escaped \<leftarrow> escapeHtml videoFile;
            Some (JStr escaped, True, JUndef)
          }
          else do {
            vext \<leftarrow> extractFileExtension videoFile;
            let videoFileExt = toLowerCase vext;
            if videoFileExt = ''mp4'' \<or> videoFileExt = ''webm'' \<or> videoFileExt = ''ogg'' then do {
              uInt8ArrayVideo \<leftarrow> zip_file_arraybuffer warpObj (ToString videoFile);
              let videoMimeType = getMimeType videoFileExt;
              Some (videoFile, False, createObjectURL E uInt8ArrayVideo (JStr videoMimeType))
            }
            else Some (videoFile, False, JUndef)
          }
        }
        else Some (JUndef, False, JUndef));
     let audioNode = getTextByPathList node [''p:nvPicPr'', ''p:nvPr'', ''a:audioFile''];
     audioBlob \<leftarrow>
       (if truthy audioNode then do {
          audioRid \<leftarrow> read_prop (get audioNode ''attrs'') ''r:link'';
          audioFile \<leftarrow> resource_target resObj audioRid;
          aext \<leftarrow> extractFileExtension audioFile;
          let audioFileExt = toLowerCase aext;
          if audioFileExt = ''mp3'' \<or> audioFileExt = ''wav'' \<or> audioFileExt = ''ogg'' then do {
            uInt8ArrayAudio \<leftarrow> zip_file_arraybuffer warpObj (ToString audioFile);
            Some (createObjectURL E uInt8ArrayAudio JUndef)
          }
          else Some JUndef
        }
        else Some JUndef);
     if truthy videoNode \<and> \<not> isVdeoLink then
       Some (JObj [(''type'', JStr ''video''), (''top'', top), (''left'', left), (''width'', width),
                   (''height'', height), (''rotate'', JNum rotate), (''blob'', videoBlob)])
     else if truthy videoNode \<and> isVdeoLink then
       Some (JObj [(''type'', JStr ''video''), (''top'', top), (''left'', left), (''width'', width),
                   (''height'', height), (''rotate'', JNum rotate), (''src'', videoFile)])
     else if truthy audioNode then
       Some (JObj [(''type'', JStr ''audio''), (''top'', top), (''left'', left), (''width'', width),
                   (''height'', height), (''rotate'', JNum rotate), (''blob'', audioBlob)])
     else
       Some (JObj [(''type'', JStr ''image''), (''top'', top), (''left'', left), (''width'', width),
                   (''height'', height), (''rotate'', JNum rotate), (''src'', JStr src),
                   (''isFlipV'', JBool isFlipV), (''isFlipH'', JBool isFlipH)])
   }"

definition genChart :: "externals \<Rightarrow> jv \<Rightarrow> warpObj \<Rightarrow> jv option" where
  "genChart E node warpObj = do {
     let xfrmNode = getTextByPathList node [''p:xfrm''];
     let position = getPosition xfrmNode JUndef JUndef;
     let size = getSize xfrmNode JUndef JUndef;
     graphic \<leftarrow> read_prop node ''a:graphic'';
     graphicData \<leftarrow> read_prop graphic ''a:graphicData'';
     cChart \<leftarrow> read_prop graphicData ''c:chart'';
     chartAttrs \<leftarrow> read_prop cChart ''attrs'';
     rid \<leftarrow> read_prop chartAttrs ''r:id'';
     refName \<leftarrow> resource_target (warp_slideResObj warpObj) rid;
     content \<leftarrow> readXmlFile E warpObj refName;
     let plotArea = getTextByPathList content [''c:chartSpace'', ''c:chart'', ''c:plotArea''];
     chart \<leftarrow> getChartInfo E plotArea;
     if \<not> truthy chart then Some (JObj [])
     else
       (let data = JObj
              [(''type'', JStr ''chart''),
               (''top'', get position ''top''),
               (''left'', get position ''left''),
               (''width'', get size ''width''),
               (''height'', get size ''height''),
               (''data'', get chart ''data''),
               (''chartType'', get chart ''type'')];
            optional_field = (\<lambda>name data.
               if get chart name \<noteq> JUndef then spread data [(name, get chart name)] else data)
        in Some (optional_field ''style'' (optional_field ''grouping'' (optional_field ''holeSize''
                   (optional_field ''barDir'' (optional_field ''marker'' data))))))
   }"

definition genDiagram :: "externals \<Rightarrow> jv \<Rightarrow> warpObj \<Rightarrow> jv option" where
  "genDiagram E node warpObj = do {
     let xfrmNode = getTextByPathList node [''p:xfrm''];
     let position = getPosition xfrmNode JUndef JUndef;
     let size = getSize xfrmNode JUndef JUndef;
     let dgmDrwSpArray = getTextByPathList (warp_digramFileContent warpObj)
           [''p:drawing'', ''p:spTree'', ''p:sp''];
     elements \<leftarrow>
       (if truthy dgmDrwSpArray then do {
          items \<leftarrow> iterate dgmDrwSpArray;
          els \<leftarrow> mapM (\<lambda>item. processSpNode E item warpObj ''diagramBg'') items;
          Some (filter truthy els)
        }
        else Some []);
     Some (JObj
       [(''type'', JStr ''diagram''),
        (''left'', get position ''left''),
        (''top'', get position ''top''),
        (''width'', get size ''width''),
        (''height'', get size ''height''),
        (''elements'', JArr elements)])
   }"

definition processGraphicFrameNode :: "externals \<Rightarrow> jv \<Rightarrow> warpObj \<Rightarrow> string \<Rightarrow> jv option" where
  "processGraphicFrameNode E node warpObj source =
     (let graphicTypeUri = getTextByPathList node [''a:graphic'', ''a:graphicData'', ''attrs'', ''uri'']
      in if graphicTypeUri = JStr ''http://schemas.openxmlformats.org/drawingml/2006/table''
           then genTable E node warpObj
         else if graphicTypeUri = JStr ''http://schemas.openxmlformats.org/drawingml/2006/chart''
           then genChart E node warpObj
         else if graphicTypeUri = JStr ''http://schemas.openxmlformats.org/drawingml/2006/diagram''
           then genDiagram E node warpObj
         else if graphicTypeUri = JStr ''http://schemas.openxmlformats.org/presentationml/2006/ole''
           then Some JUndef
         else Some JUndef)"

definition work_items :: "jv \<Rightarrow> (string \<times> jv) list option" where
  "work_items node =
     map_option concat
       (mapM (\<lambda>(nodeKey, child). do {
                 array \<leftarrow> is_Array child;
                 Some (case child of JArr items \<Rightarrow> map (Pair nodeKey) items | _ \<Rightarrow> [(nodeKey, child)])
               })
          (own_props node))"

definition remap_element :: "jnum \<Rightarrow> jnum \<Rightarrow> jnum \<Rightarrow> jnum \<Rightarrow> jv \<Rightarrow> jv" where
  "remap_element chx chy ws hs element =
     spread element
       [(''left'', JNum (js_mul (js_sub (ToNumber (get element ''left'')) chx) ws)),
        (''top'', JNum (js_mul (js_sub (ToNumber (get element ''top'')) chy) hs)),
        (''width'', JNum (js_mul (ToNumber (get element ''width'')) ws)),
        (''height'', JNum (js_mul (ToNumber (get element ''height'')) hs))]"

text \<open>
  The dispatcher and the group handler call each other. Every call descends into the
  tree: the lemmas below bound the size of what \<open>get\<close>, \<open>getTextByPathList\<close> and
  \<open>work_items\<close> return, for the termination proof.
\<close>

lemma size_member: "x \<in> set xs \<Longrightarrow> size x \<le> size_list size xs"
  for x :: jv
  using size_list_estimation' [of x xs "size x" size] by simp

lemma size_entry: "(k, v) \<in> set kvs \<Longrightarrow> size v \<le> size_list (size_prod (\<lambda>_. 0) size) kvs"
  for v :: jv
  by (induction kvs) auto

lemma size_get: "size (get v k) \<le> size v"
proof (cases v)
  case (JObj kvs)
  show ?thesis
  proof (cases "map_of kvs k")
    case None
    with JObj show ?thesis by simp
  next
    case (Some x)
    then have "(k, x) \<in> set kvs" by (rule map_of_SomeD)
    from size_entry [OF this] JObj Some show ?thesis by simp
  qed
next
  case (JArr xs)
  then show ?thesis
    using size_member [of _ xs]
    by (auto simp: element_at_def le_SucI split: option.splits)
next
  case (JStr s)
  then show ?thesis
    by (auto simp: element_at_def characters_def split: option.splits)
qed simp_all

lemma size_getTextByPathList: "size (getTextByPathList v path) \<le> size v"
proof (induction path arbitrary: v)
  case Nil
  then show ?case by simp
next
  case (Cons key path)
  have "size (getTextByPathList (get v key) path) \<le> size (get v key)" by (rule Cons.IH)
  with size_get [of v key] show ?case by simp
qed

lemma mapM_Some_member:
  "mapM f xs = Some ys \<Longrightarrow> y \<in> set ys \<Longrightarrow> \<exists>x \<in> set xs. f x = Some y"
proof (induction xs arbitrary: ys)
  case Nil
  then show ?case by simp
next
  case (Cons x xs)
  then show ?case by (auto split: bind_splits)
qed

lemma mapM_cong [fundef_cong]:
  "xs = ys \<Longrightarrow> (\<And>x. x \<in> set ys \<Longrightarrow> f x = g x) \<Longrightarrow> mapM f xs = mapM g ys"
  by (induction ys arbitrary: xs) auto

lemma not_index_grpSpPr: "index_key ''p:grpSpPr'' = None"
  by (simp add: index_key_def is_decimal_digit_def digit_of_def)

lemma size_own_props:
  assumes "truthy (getTextByPathList node [''p:grpSpPr'', ''a:xfrm''])"
    and "(k, child) \<in> set (own_props node)"
  shows "size child < size node"
proof (cases node)
  case (JObj kvs)
  with assms(2) size_entry [of k child kvs] show ?thesis by simp
next
  case (JArr xs)
  with assms(2) have "child \<in> set xs" by (auto simp: indexed_def)
  from size_member [OF this] JArr show ?thesis by simp
next
  case (JStr s)
  with assms(1) show ?thesis
    by (simp add: element_at_def not_index_grpSpPr split: if_splits)
qed (use assms(1) in \<open>auto split: if_splits\<close>)

lemma work_items_size:
  assumes "truthy (getTextByPathList node [''p:grpSpPr'', ''a:xfrm''])"
    and "work_items node = Some items" and "(k, item) \<in> set items"
  shows "size item < size node"
proof -
  let ?f = "\<lambda>(nodeKey, child). do {
                 array \<leftarrow> is_Array child;
                 Some (case child of JArr items \<Rightarrow> map (Pair nodeKey) items | _ \<Rightarrow> [(nodeKey, child)])
               }"
  from assms(2) obtain groups where
    groups: "mapM ?f (own_props node) = Some groups" and items: "items = concat groups"
    by (auto simp: work_items_def)
  from assms(3) items obtain g where g: "g \<in> set groups" "(k, item) \<in> set g" by auto
  from mapM_Some_member [OF groups g(1)] obtain nodeKey child where
    c: "(nodeKey, child) \<in> set (own_props node)" "?f (nodeKey, child) = Some g"
    by auto
  have "size item \<le> size child"
  proof (cases child)
    case (JArr xs)
    with c(2) g(2) have "item \<in> set xs" by (auto split: bind_splits)
    from size_member [OF this] JArr show ?thesis by simp
  qed (use c(2) g(2) in \<open>auto split: bind_splits\<close>)
  with size_own_props [OF assms(1) c(1)] show ?thesis by simp
qed

function processNodesInSlide :: "externals \<Rightarrow> string \<Rightarrow> jv \<Rightarrow> warpObj \<Rightarrow> string \<Rightarrow> jv option"
  and processGroupSpNode :: "externals \<Rightarrow> jv \<Rightarrow> warpObj \<Rightarrow> string \<Rightarrow> jv option"
where
  "processNodesInSlide E nodeKey nodeValue warpObj source =
     (if nodeKey = ''p:sp'' then do { json \<leftarrow> processSpNode E nodeValue warpObj source; await json }
      else if nodeKey = ''p:cxnSp'' then do { json \<leftarrow> processCxnSpNode E nodeValue warpObj; await json }
      else if nodeKey = ''p:pic'' then processPicNode E nodeValue warpObj source
      else if nodeKey = ''p:graphicFrame'' then processGraphicFrameNode E nodeValue warpObj source
      else if nodeKey = ''p:grpSp'' then processGroupSpNode E nodeValue warpObj source
      else if nodeKey = ''mc:AlternateContent''
        then processGroupSpNode E (getTextByPathList nodeValue [''mc:Fallback'']) warpObj source
      else Some JUndef)"
| "processGroupSpNode E node warpObj source =
     (let xfrmNode = getTextByPathList node [''p:grpSpPr'', ''a:xfrm'']
      in if \<not> truthy xfrmNode then Some JNull
         else do {
           off \<leftarrow> read_prop (get xfrmNode ''a:off'') ''attrs'';
           offX \<leftarrow> read_prop off ''x'';
           let x = js_mul (parseInt offX) RATIO_EMUs_Points;
           let y = emu_attr off ''y'';
           chOff \<leftarrow> read_prop (get xfrmNode ''a:chOff'') ''attrs'';
           chOffX \<leftarrow> read_prop chOff ''x'';
           let chx = js_mul (parseInt chOffX) RATIO_EMUs_Points;
           let chy = emu_attr chOff ''y'';
           ext \<leftarrow> read_prop (get xfrmNode ''a:ext'') ''attrs'';
           extCx \<leftarrow> read_prop ext ''cx'';
           let cx = js_mul (parseInt extCx) RATIO_EMUs_Points;
           let cy = emu_attr ext ''cy'';
           chExt \<leftarrow> read_prop (get xfrmNode ''a:chExt'') ''attrs'';
           chExtCx \<leftarrow> read_prop chExt ''cx'';
           let chcx = js_mul (parseInt chExtCx) RATIO_EMUs_Points;
           let chcy = emu_attr chExt ''cy'';
           let rot = js_or (getTextByPathList xfrmNode [''attrs'', ''rot'']) (JNum (Finite 0));
           let rotate = (if truthy rot then JNum (angleToDegrees rot) else rot);
           let ws = js_div cx chcx;
           let hs = js_div cy chcy;
           items \<leftarrow> work_items node;
           rets \<leftarrow> mapM (\<lambda>(nodeKey, item). processNodesInSlide E nodeKey item warpObj source) items;
           let elements = filter truthy rets;
           Some (JObj
             [(''type'', JStr ''group''),
              (''top'', JNum y),
              (''left'', JNum x),
              (''width'', JNum cx),
              (''height'', JNum cy),
              (''rotate'', rotate),
              (''elements'', JArr (map (remap_element chx chy ws hs) elements))])
         })"
  by pat_completeness auto
termination
proof (relation "measure (\<lambda>a. case a of
      Inl (E, nodeKey, nodeValue, warpObj, source) \<Rightarrow> 2 * size nodeValue + 1
    | Inr (E, node, warpObj, source) \<Rightarrow> 2 * size node)", goal_cases)
  case 1
  show ?case by simp
next
  case 2
  show ?case by simp
next
  case (3 E nodeKey nodeValue warpObj source)
  show ?case
    using size_getTextByPathList [of nodeValue "[''mc:Fallback'']"] by simp
next
  case (4 E node warpObj source xfrmNode off offX x y chOff chOffX chx chy ext extCx cx cy
          chExt chExtCx chcx chcy rot rotate ws hs items entry nodeKey item)
  then have "size item < size node"
    using work_items_size [of node items nodeKey item] by simp
  then show ?case by simp
qed

declare processNodesInSlide.simps [simp del] processGroupSpNode.simps [simp del]

text \<open>
  \<open>processSingleSlide\<close> (lines 350-546) first loads the parts of the slide through
  \<^verbatim>\<open>readXmlFile\<close> and builds \<^verbatim>\<open>warpObj\<close>. The embedding starts where that object exists
  (line 505) and takes it as its argument.
\<close>

definition processSingleSlide :: "externals \<Rightarrow> warpObj \<Rightarrow> jv option" where
  "processSingleSlide E warpObj = do {
     sld \<leftarrow> read_prop (warp_slideContent warpObj) ''p:sld'';
     cSld \<leftarrow> read_prop sld ''p:cSld'';
     nodes \<leftarrow> read_prop cSld ''p:spTree'';
     bgColor \<leftarrow> getSlideBackgroundFill E warpObj;
     items \<leftarrow> work_items nodes;
     rets \<leftarrow> mapM (\<lambda>(nodeKey, node). processNodesInSlide E nodeKey node warpObj ''slide'') items;
     let elements = filter truthy rets;
     Some (JObj [(''fill'', bgColor), (''elements'', JArr elements)])
   }"

chapter \<open>Reference definitions\<close>

section \<open>Base 64 after RFC 4648\<close>

text \<open>
  The encoding as section 4 of RFC 4648 words it, for comparison with the code. The input
  is a stream of bits, each octet most significant bit first (\<open>bits_of_octet\<close>). A 24-bit
  group of three octets is treated as four 6-bit groups, each translated into one character
  of the alphabet (\<open>rfc4648_chars\<close>; \<open>bits_value\<close> reads a group as a number). When fewer
  than 24 bits are left, zero bits are added on the right to form an integral number of
  6-bit groups (\<open>groups_of_6\<close>): a final quantum of 8 bits gives two characters and
  \<^verbatim>\<open>==\<close>, one of 16 bits three characters and \<^verbatim>\<open>=\<close>.

  \<open>rfc4648_decode\<close> is the inverse: four characters at a time, each character back to its
  6 bits, the bits regrouped into octets, and the padding of the last four characters
  telling how many octets they hold. \<open>rfc4648_body\<close> is the encoding without its padding.
  \<open>chunk3\<close> and \<open>chunk2\<close> name the integers that the code assembles from three and from two
  bytes.
\<close>

definition bits_of_octet :: "8 word \<Rightarrow> bool list" where
  "bits_of_octet x = [bit x 7, bit x 6, bit x 5, bit x 4, bit x 3, bit x 2, bit x 1, bit x 0]"

fun bits_value :: "bool list \<Rightarrow> nat" where
  "bits_value bs = foldl (\<lambda>n b. 2 * n + (if b then 1 else 0)) 0 bs"

fun groups_of_6 :: "bool list \<Rightarrow> bool list list" where
  "groups_of_6 (b1 # b2 # b3 # b4 # b5 # b6 # rest) = [b1, b2, b3, b4, b5, b6] # groups_of_6 rest"
| "groups_of_6 [] = []"
| "groups_of_6 bs = [bs @ replicate (6 - length bs) False]"

definition base64_alphabet :: string where
  "base64_alphabet = ''ABCDEFGHIJKLMNOPQRSTUVWXYZ'' @ ''abcdefghijklmnopqrstuvwxyz'' @ ''0123456789'' @ ''+/''"

definition rfc4648_chars :: "bool list \<Rightarrow> string" where
  "rfc4648_chars bs = map (\<lambda>g. base64_alphabet ! bits_value g) (groups_of_6 bs)"

fun rfc4648_encode :: "8 word list \<Rightarrow> string" where
  "rfc4648_encode (x # y # z # rest) =
     rfc4648_chars (bits_of_octet x @ bits_of_octet y @ bits_of_octet z) @ rfc4648_encode rest"
| "rfc4648_encode [x, y] = rfc4648_chars (bits_of_octet x @ bits_of_octet y) @ ''=''"
| "rfc4648_encode [x] = rfc4648_chars (bits_of_octet x) @ ''==''"
| "rfc4648_encode [] = []"

fun index_of :: "'a list \<Rightarrow> 'a \<Rightarrow> nat option" where
  "index_of [] c = None"
| "index_of (x # xs) c = (if x = c then Some 0 else map_option Suc (index_of xs c))"

definition bits_of_sextet :: "nat \<Rightarrow> bool list" where
  "bits_of_sextet n = [bit n 5, bit n 4, bit n 3, bit n 2, bit n 1, bit n 0]"

fun octets_of_bits :: "bool list \<Rightarrow> 8 word list" where
  "octets_of_bits (b7 # b6 # b5 # b4 # b3 # b2 # b1 # b0 # rest) =
     of_nat (bits_value [b7, b6, b5, b4, b3, b2, b1, b0]) # octets_of_bits rest"
| "octets_of_bits bs = []"

definition sextets_of_chars :: "string \<Rightarrow> bool list option" where
  "sextets_of_chars cs =
     (if list_all (\<lambda>c. index_of base64_alphabet c \<noteq> None) cs
      then Some (concat (map (\<lambda>c. bits_of_sextet (the (index_of base64_alphabet c))) cs))
      else None)"

fun rfc4648_decode :: "string \<Rightarrow> 8 word list option" where
  "rfc4648_decode [] = Some []"
| "rfc4648_decode (c1 # c2 # c3 # c4 # rest) =
     (if rest = [] \<and> c3 = CHR ''='' \<and> c4 = CHR ''='' then
        map_option octets_of_bits (sextets_of_chars [c1, c2])
      else if rest = [] \<and> c4 = CHR ''='' then
        map_option octets_of_bits (sextets_of_chars [c1, c2, c3])
      else
        (case (sextets_of_chars [c1, c2, c3, c4], rfc4648_decode rest) of
           (Some bs, Some octets) \<Rightarrow> Some (octets_of_bits bs @ octets)
         | _ \<Rightarrow> None))"
| "rfc4648_decode cs = None"

fun rfc4648_body :: "8 word list \<Rightarrow> string" where
  "rfc4648_body (x # y # z # rest) =
     rfc4648_chars (bits_of_octet x @ bits_of_octet y @ bits_of_octet z) @ rfc4648_body rest"
| "rfc4648_body [x, y] = rfc4648_chars (bits_of_octet x @ bits_of_octet y)"
| "rfc4648_body [x] = rfc4648_chars (bits_of_octet x)"
| "rfc4648_body [] = []"

definition chunk3 :: "8 word \<Rightarrow> 8 word \<Rightarrow> 8 word \<Rightarrow> 32 word" where
  "chunk3 x y z = push_bit 16 (ucast x) OR push_bit 8 (ucast y) OR ucast z"

definition chunk2 :: "8 word \<Rightarrow> 8 word \<Rightarrow> 32 word" where
  "chunk2 x y = push_bit 8 (ucast x) OR ucast y"

section \<open>The parsed tree\<close>

text \<open>
  \<^verbatim>\<open>readXmlFile\<close> is imported from \<^verbatim>\<open>./readXmlFile\<close>, which is not among the source files.
  Modelled from the spec: "\<^verbatim>\<open>readXml(zip, path)\<close> parses XML, producing a tree where elements
  become \<^verbatim>\<open>{attrs, child1, child2, ...}\<close>; repeated children collapse to arrays, single
  instances remain scalar." \<open>collapse_children\<close> gives the properties that stand for the
  children of an element, the children listed in document order with their tags: one
  property for each tag, in the order in which the tags first occur (the order in which
  the keys of a JavaScript object are enumerated), holding the child of that tag or the
  array of the children of that tag.

  \<open>group_by_tag\<close> lists the children tag after tag in the same order of tags, the children
  of one tag in document order. \<open>single_node\<close> holds of the values that can stand for one
  child: not an array, not \<^verbatim>\<open>undefined\<close> and not \<^verbatim>\<open>null\<close>.
\<close>

fun first_tags :: "string list \<Rightarrow> string list" where
  "first_tags [] = []"
| "first_tags (t # ts) = t # filter (\<lambda>u. u \<noteq> t) (first_tags ts)"

definition children_named :: "string \<Rightarrow> (string \<times> jv) list \<Rightarrow> (string \<times> jv) list" where
  "children_named tag cs = filter (\<lambda>(t, n). t = tag) cs"

definition collapse_children :: "(string \<times> jv) list \<Rightarrow> (string \<times> jv) list" where
  "collapse_children cs =
     map (\<lambda>tag. (tag, case map snd (children_named tag cs) of [n] \<Rightarrow> n | ns \<Rightarrow> JArr ns))
       (first_tags (map fst cs))"

definition group_by_tag :: "(string \<times> jv) list \<Rightarrow> (string \<times> jv) list" where
  "group_by_tag cs = concat (map (\<lambda>tag. children_named tag cs) (first_tags (map fst cs)))"

fun single_node :: "jv \<Rightarrow> bool" where
  "single_node JUndef = False"
| "single_node JNull = False"
| "single_node (JArr xs) = False"
| "single_node v = True"

section \<open>Groups and the elements of a slide\<close>

text \<open>
  \<open>frame_attr xfrmNode part name\<close> is one number of the frame of a group in points, as
  \<open>processGroupSpNode\<close> reads it: \<^verbatim>\<open>parseInt(xfrmNode[part]['attrs'][name]) * RATIO_EMUs_Points\<close>.

  \<open>emitted_elements\<close> is the loop shared by \<open>processSingleSlide\<close> (lines 528-540) and
  \<open>processGroupSpNode\<close> (lines 704-716): every work item is processed in turn and the
  truthy results are pushed, in that order.
\<close>

definition frame_attr :: "jv \<Rightarrow> string \<Rightarrow> string \<Rightarrow> jnum" where
  "frame_attr xfrmNode part name = emu_attr (get (get xfrmNode part) ''attrs'') name"

definition emitted_elements ::
  "externals \<Rightarrow> warpObj \<Rightarrow> string \<Rightarrow> (string \<times> jv) list \<Rightarrow> jv list option" where
  "emitted_elements E warpObj source items =
     map_option (filter truthy)
       (mapM (\<lambda>(nodeKey, node). processNodesInSlide E nodeKey node warpObj source) items)"

section \<open>Colour strings\<close>

text \<open>
  \<open>color_pattern\<close> is the regular expression \<^verbatim>\<open>/^#[0-9A-Fa-f]{6}([0-9A-Fa-f]{2})?$/\<close>,
  written with the constructors that \<open>isVideoLink\<close> uses.
\<close>

definition color_pattern :: regex where
  "color_pattern =
     (let hex = OneOf ''0123456789ABCDEFabcdef''
      in sequence [literal ''#'', hex, hex, hex, hex, hex, hex, optional (Then hex hex), EndOfInput])"

section \<open>Concrete inputs\<close>

text \<open>
  The inputs at which the theorems are instantiated. \<open>no_helpers\<close> provides no external
  helper at all (each one throws) and \<open>blank_deck\<close> is a presentation with empty parts:
  whatever is computed with them is computed by the code of the three source files alone.
  \<open>group_node off ext chOff chExt children\<close> is a parsed \<^verbatim>\<open>p:grpSp\<close> with the four
  attribute pairs of its \<^verbatim>\<open>a:xfrm\<close> in EMU, and \<open>group_record\<close> the record emitted for a
  group that is not rotated.

  \<open>scaled_group\<close> is the group of the example of the specification, 914400 EMU being 72
  points: off \<open>(0, 0)\<close>, ext \<open>(2000, 1000)\<close>, chOff \<open>(0, 0)\<close>, chExt \<open>(1000, 500)\<close> in points,
  with one child at \<open>(500, 250)\<close> of size \<open>(100, 100)\<close>. \<open>shifted_group\<close> has off = chOff =
  \<open>(1, 1)\<close> and ext = chExt = \<open>(2, 2)\<close>, with one child at \<open>(2, 2)\<close> of size \<open>(1, 1)\<close>.
  \<open>unframed_group\<close> is a group with a shape in it and no \<^verbatim>\<open>p:grpSpPr\<close>.
\<close>

definition no_helpers :: externals where
  "no_helpers =
     \<lparr> getSchemeColorFromTheme = (\<lambda>_ _ _ _. TypeError), getColorName2Hex = (\<lambda>_. TypeError),
       hslToRgb = (\<lambda>_ _ _. TypeError), applyShade = (\<lambda>_ _ _. TypeError),
       applyTint = (\<lambda>_ _ _. TypeError), applyLumOff = (\<lambda>_ _ _. TypeError),
       applyLumMod = (\<lambda>_ _ _. TypeError), applyHueMod = (\<lambda>_ _ _. TypeError),
       applySatMod = (\<lambda>_ _ _. TypeError), tinycolor_setAlpha_toHex8 = (\<lambda>_ _. JUndef),
       tinycolor_toHsl = (\<lambda>_. (NaN, NaN, NaN, NaN)), tinycolor_rgb = (\<lambda>_. (NaN, NaN, NaN)),
       getBorder = (\<lambda>_ _ _. TypeError), getVerticalAlign = (\<lambda>_ _ _ _. TypeError),
       genTextBody = (\<lambda>_ _ _ _ _. TypeError), getShadow = (\<lambda>_ _. TypeError),
       getCustomShapePath = (\<lambda>_ _ _. TypeError), getChartInfo = (\<lambda>_. TypeError),
       readXmlFile = (\<lambda>_ _. TypeError), genTable = (\<lambda>_ _. TypeError),
       createObjectURL = (\<lambda>_ _. JUndef) \<rparr>"

definition blank_deck :: warpObj where
  "blank_deck =
     \<lparr> warp_zip = [], warp_slideLayoutContent = JObj [], warp_slideLayoutTables = JObj [],
       warp_slideMasterContent = JObj [], warp_slideMasterTables = JObj [],
       warp_slideContent = JObj [], warp_tableStyles = JObj [], warp_slideResObj = JObj [],
       warp_slideMasterTextStyles = JUndef, warp_layoutResObj = JObj [],
       warp_masterResObj = JObj [], warp_themeContent = JObj [], warp_themeResObj = JObj [],
       warp_digramFileContent = JObj [], warp_diagramResObj = JObj [],
       warp_defaultTextStyle = JUndef \<rparr>"

definition attrs2 :: "string \<Rightarrow> string \<Rightarrow> string \<Rightarrow> string \<Rightarrow> jv" where
  "attrs2 a x b y = JObj [(''attrs'', JObj [(a, JStr x), (b, JStr y)])]"

definition group_node ::
  "string \<times> string \<Rightarrow> string \<times> string \<Rightarrow> string \<times> string \<Rightarrow> string \<times> string
     \<Rightarrow> (string \<times> jv) list \<Rightarrow> jv" where
  "group_node off ext chOff chExt children =
     JObj ((''p:grpSpPr'', JObj [(''a:xfrm'', JObj
        [(''a:off'', attrs2 ''x'' (fst off) ''y'' (snd off)),
         (''a:ext'', attrs2 ''cx'' (fst ext) ''cy'' (snd ext)),
         (''a:chOff'', attrs2 ''x'' (fst chOff) ''y'' (snd chOff)),
         (''a:chExt'', attrs2 ''cx'' (fst chExt) ''cy'' (snd chExt))])]) # children)"

definition scaled_child :: jv where
  "scaled_child =
     group_node (''6350000'', ''3175000'') (''1270000'', ''1270000'')
       (''0'', ''0'') (''1270000'', ''1270000'') []"

definition scaled_group :: jv where
  "scaled_group =
     group_node (''0'', ''0'') (''25400000'', ''12700000'') (''0'', ''0'') (''12700000'', ''6350000'')
       [(''p:grpSp'', scaled_child)]"

definition shifted_child :: jv where
  "shifted_child =
     group_node (''25400'', ''25400'') (''12700'', ''12700'') (''0'', ''0'') (''12700'', ''12700'') []"

definition shifted_group :: jv where
  "shifted_group =
     group_node (''12700'', ''12700'') (''25400'', ''25400'') (''12700'', ''12700'') (''25400'', ''25400'')
       [(''p:grpSp'', shifted_child)]"

definition group_record :: "rat \<Rightarrow> rat \<Rightarrow> rat \<Rightarrow> rat \<Rightarrow> jv list \<Rightarrow> jv" where
  "group_record l t w h elements =
     JObj [(''type'', JStr ''group''), (''top'', JNum (Finite t)), (''left'', JNum (Finite l)),
           (''width'', JNum (Finite w)), (''height'', JNum (Finite h)),
           (''rotate'', JNum (Finite 0)), (''elements'', JArr elements)]"

definition unframed_group :: jv where
  "unframed_group = JObj [(''p:nvGrpSpPr'', JObj []), (''p:sp'', JObj [])]"

text \<open>
  \<open>deck_with_children cs\<close> is \<open>blank_deck\<close> with a slide whose shape tree has the children
  \<open>cs\<close>, as the parser hands it over. \<open>unit_group x\<close> is an empty group of one point by one
  point at the horizontal offset \<open>x\<close> (in EMU); the two lists of children hold the same
  three nodes, with the tags interleaved and with the two \<^verbatim>\<open>p:grpSp\<close> adjacent.

  \<open>master_red_deck\<close> has a solid red background on the master only and \<open>slide_red_deck\<close>
  on the slide. \<open>half_scrgb\<close> is a colour of 50% in each channel, \<open>fractional_gradient\<close> a
  gradient with stops at 50.5% and 50.2%, \<open>picture_node rid nvPr\<close> a picture that embeds
  the relationship \<open>rid\<close>, and \<open>media_deck\<close> a presentation with one image, \<^verbatim>\<open>rId1\<close>.

  \<open>rect_shape\<close> is the shape of the example of the specification and \<open>claimed_rect_record\<close>
  the record expected there. \<open>red_helpers\<close> makes the helpers that \<open>genShape\<close> needs
  return: a border, an alignment, and for \<^verbatim>\<open>tinycolor\<close> the values of pure red, hue 0,
  saturation 1, lightness 1/2, which are the red, green and blue values 255, 0 and 0.
  \<open>rect_record\<close> is what \<open>genShape\<close> then assembles.
\<close>

definition deck_with_children :: "(string \<times> jv) list \<Rightarrow> warpObj" where
  "deck_with_children cs =
     blank_deck \<lparr> warp_slideContent :=
       JObj [(''p:sld'', JObj [(''p:cSld'', JObj [(''p:spTree'', JObj (collapse_children cs))])])] \<rparr>"

definition unit_group :: "string \<Rightarrow> jv" where
  "unit_group x = group_node (x, ''0'') (''12700'', ''12700'') (''0'', ''0'') (''12700'', ''12700'') []"

definition interleaved_children :: "(string \<times> jv) list" where
  "interleaved_children =
     [(''p:grpSp'', unit_group ''12700''),
      (''mc:AlternateContent'', JObj [(''mc:Fallback'', unit_group ''25400'')]),
      (''p:grpSp'', unit_group ''38100'')]"

definition adjacent_children :: "(string \<times> jv) list" where
  "adjacent_children =
     [(''p:grpSp'', unit_group ''12700''),
      (''p:grpSp'', unit_group ''38100''),
      (''mc:AlternateContent'', JObj [(''mc:Fallback'', unit_group ''25400'')])]"

definition solid_fill :: "string \<Rightarrow> jv" where
  "solid_fill val = JObj [(''a:solidFill'', JObj [(''a:srgbClr'', JObj [(''attrs'', JObj [(''val'', JStr val)])])])]"

definition master_with_background :: "jv \<Rightarrow> jv" where
  "master_with_background bgPr =
     JObj [(''p:sldMaster'', JObj
       [(''p:cSld'', JObj [(''p:bg'', JObj [(''p:bgPr'', bgPr)])]),
        (''p:clrMap'', JObj [(''attrs'', JObj [])])])]"

definition master_red_deck :: warpObj where
  "master_red_deck =
     blank_deck
       \<lparr> warp_slideLayoutContent := JObj [(''p:sldLayout'', JObj [(''p:cSld'', JObj [])])],
         warp_slideMasterContent := master_with_background (solid_fill ''FF0000''),
         warp_slideContent := JObj [(''p:sld'', JObj [(''p:cSld'', JObj [(''p:spTree'', JObj [])])])] \<rparr>"

definition slide_red_deck :: warpObj where
  "slide_red_deck =
     blank_deck
       \<lparr> warp_slideContent := JObj [(''p:sld'', JObj
           [(''p:cSld'', JObj [(''p:bg'', JObj [(''p:bgPr'', solid_fill ''FF0000'')]),
                               (''p:spTree'', JObj [])])])] \<rparr>"

definition half_scrgb :: jv where
  "half_scrgb =
     JObj [(''a:scrgbClr'', JObj [(''attrs'',
       JObj [(''r'', JStr ''50%''), (''g'', JStr ''50%''), (''b'', JStr ''50%'')])])]"

definition gradient_stop :: "string \<Rightarrow> string \<Rightarrow> jv" where
  "gradient_stop pos val =
     JObj [(''attrs'', JObj [(''pos'', JStr pos)]),
           (''a:srgbClr'', JObj [(''attrs'', JObj [(''val'', JStr val)])])]"

definition fractional_gradient :: jv where
  "fractional_gradient =
     JObj [(''a:gradFill'', JObj [(''a:gsLst'', JObj [(''a:gs'',
       JArr [gradient_stop ''50500'' ''FF0000'', gradient_stop ''50200'' ''00FF00''])])])]"

definition picture_node :: "string \<Rightarrow> (string \<times> jv) list \<Rightarrow> jv" where
  "picture_node rid nvPr =
     JObj [(''p:nvPicPr'', JObj [(''p:nvPr'', JObj nvPr)]),
           (''p:blipFill'', JObj [(''a:blip'', JObj [(''attrs'', JObj [(''r:embed'', JStr rid)])])]),
           (''p:spPr'', JObj [(''a:xfrm'', JObj [])])]"

definition media_deck :: warpObj where
  "media_deck =
     blank_deck
       \<lparr> warp_zip := [(''ppt/media/image1.png'', [77, 97, 110])],
         warp_slideResObj := JObj [(''rId1'', JObj [(''type'', JStr ''image''),
                                                     (''target'', JStr ''ppt/media/image1.png'')])] \<rparr>"

definition rect_shape :: jv where
  "rect_shape =
     JObj [(''p:spPr'', JObj
       [(''a:xfrm'', JObj [(''a:off'', attrs2 ''x'' ''914400'' ''y'' ''914400''),
                           (''a:ext'', attrs2 ''cx'' ''914400'' ''cy'' ''457200'')]),
        (''a:prstGeom'', JObj [(''attrs'', JObj [(''prst'', JStr ''rect'')])]),
        (''a:solidFill'', JObj [(''a:srgbClr'', JObj [(''attrs'', JObj [(''val'', JStr ''FF0000'')])])])])]"

definition red_helpers :: externals where
  "red_helpers =
     no_helpers
       \<lparr> tinycolor_toHsl := (\<lambda>color. (Finite 0, Finite 1, Finite (1 / 2), Finite 1)),
         tinycolor_rgb := (\<lambda>hsl. (Finite 255, Finite 0, Finite 0)),
         getBorder := (\<lambda>node type warpObj. Some (JObj
           [(''borderColor'', JStr ''#000''), (''borderWidth'', JNum (Finite 0)),
            (''borderType'', JStr ''solid''), (''strokeDasharray'', JStr ''0'')])),
         getVerticalAlign := (\<lambda>node slideLayoutSpNode slideMasterSpNode type. Some (JStr ''mid'')) \<rparr>"

definition rect_record :: jv where
  "rect_record =
     JObj [(''left'', JNum (Finite 72)), (''top'', JNum (Finite 72)),
           (''width'', JNum (Finite 72)), (''height'', JNum (Finite 36)),
           (''borderColor'', JStr ''#000''), (''borderWidth'', JNum (Finite 0)),
           (''borderType'', JStr ''solid''), (''borderStrokeDasharray'', JStr ''0''),
           (''fillColor'', JStr ''#ff0000''), (''content'', JStr []),
           (''isFlipV'', JBool False), (''isFlipH'', JBool False),
           (''rotate'', JNum (Finite 0)), (''vAlign'', JStr ''mid''), (''name'', JUndef),
           (''type'', JStr ''shape''), (''shapType'', JStr ''rect'')]"

definition claimed_rect_record :: jv where
  "claimed_rect_record =
     JObj [(''type'', JStr ''shape''), (''shapType'', JStr ''rect''),
           (''left'', JNum (Finite 72)), (''top'', JNum (Finite 72)),
           (''width'', JNum (Finite 72)), (''height'', JNum (Finite 36)),
           (''fillColor'', JStr ''#FF0000'')]"

chapter \<open>Proofs\<close>

section \<open>base64ArrayBuffer is the base 64 encoding of RFC 4648\<close>

text \<open>
  Each mask of the code selects six adjacent bits; the lemmas \<open>sextet_a\<close> to \<open>sextet_d\<close> and
  their companions for the last one or two bytes say which, and \<open>unat_bits6\<close> reads a
  6-bit word as the number of its bits.
\<close>

lemma encodings_alphabet: "encodings = base64_alphabet"
  by (simp add: encodings_def base64_alphabet_def)

lemma unat_bits6:
  fixes w :: "32 word"
  assumes "take_bit 6 w = w"
  shows "unat w = bits_value [bit w 5, bit w 4, bit w 3, bit w 2, bit w 1, bit w 0]"
proof -
  have "unat w = take_bit 6 (unat w)"
    using assms by (metis unsigned_take_bit_eq)
  also have "\<dots> = horner_sum of_bool 2 (map (bit (unat w)) [0..<6])"
    by (simp only: horner_sum_bit_eq_take_bit)
  also have "\<dots> = bits_value [bit w 5, bit w 4, bit w 3, bit w 2, bit w 1, bit w 0]"
    by (simp add: upt_rec numeral_eq_Suc bit_unsigned_iff)
  finally show ?thesis .
qed

lemma m1: "(16515072 :: 32 word) = push_bit 18 (mask 6)" by (simp add: mask_eq_exp_minus_1)
lemma m2: "(258048 :: 32 word) = push_bit 12 (mask 6)" by (simp add: mask_eq_exp_minus_1)
lemma m3: "(4032 :: 32 word) = push_bit 6 (mask 6)" by (simp add: mask_eq_exp_minus_1)
lemma m4: "(63 :: 32 word) = mask 6" by (simp add: mask_eq_exp_minus_1)
lemma m5: "(252 :: 32 word) = push_bit 2 (mask 6)" by (simp add: mask_eq_exp_minus_1)
lemma m6: "(3 :: 32 word) = mask 2" by (simp add: mask_eq_exp_minus_1)
lemma m7: "(64512 :: 32 word) = push_bit 10 (mask 6)" by (simp add: mask_eq_exp_minus_1)
lemma m8: "(1008 :: 32 word) = push_bit 4 (mask 6)" by (simp add: mask_eq_exp_minus_1)
lemma m9: "(15 :: 32 word) = mask 4" by (simp add: mask_eq_exp_minus_1)

lemma bit_octet_bound: "bit (x :: 8 word) n \<Longrightarrow> n < 8"
  by (auto dest: bit_imp_le_length)

lemma bit_octet_high: "8 \<le> n \<Longrightarrow> bit (x :: 8 word) n = False"
  by (auto dest: bit_octet_bound)

lemma sextet_a: "signed_drop_bit 18 (chunk3 x y z AND 16515072) = ucast (drop_bit 2 x)"
  unfolding m1 chunk3_def
  by (rule bit_word_eqI) (auto simp: bit_simps dest: bit_octet_bound)

lemma sextet_b:
  "signed_drop_bit 12 (chunk3 x y z AND 258048) = push_bit 4 (ucast (take_bit 2 x)) OR ucast (drop_bit 4 y)"
  unfolding m2 chunk3_def
  by (rule bit_word_eqI) (auto simp: bit_simps dest: bit_octet_bound)

lemma sextet_c:
  "signed_drop_bit 6 (chunk3 x y z AND 4032) = push_bit 2 (ucast (take_bit 4 y)) OR ucast (drop_bit 6 z)"
  unfolding m3 chunk3_def
  by (rule bit_word_eqI) (auto simp: bit_simps dest: bit_octet_bound)

lemma sextet_d: "chunk3 x y z AND 63 = ucast (take_bit 6 z)"
  unfolding m4 chunk3_def
  by (rule bit_word_eqI) (auto simp: bit_simps dest: bit_octet_bound)

lemma tb_a: "take_bit 6 (ucast (drop_bit 2 (x :: 8 word)) :: 32 word) = ucast (drop_bit 2 x)"
  by (rule bit_word_eqI) (auto simp: bit_simps dest: bit_octet_bound)

lemma tb_b: "take_bit 6 (push_bit 4 (ucast (take_bit 2 (x :: 8 word))) OR ucast (drop_bit 4 (y :: 8 word)) :: 32 word)
   = push_bit 4 (ucast (take_bit 2 x)) OR ucast (drop_bit 4 y)"
  by (rule bit_word_eqI) (auto simp: bit_simps dest: bit_octet_bound)

lemma tb_c: "take_bit 6 (push_bit 2 (ucast (take_bit 4 (y :: 8 word))) OR ucast (drop_bit 6 (z :: 8 word)) :: 32 word)
   = push_bit 2 (ucast (take_bit 4 y)) OR ucast (drop_bit 6 z)"
  by (rule bit_word_eqI) (auto simp: bit_simps dest: bit_octet_bound)

lemma tb_d: "take_bit 6 (ucast (take_bit 6 (z :: 8 word)) :: 32 word) = ucast (take_bit 6 z)"
  by (rule bit_word_eqI) (auto simp: bit_simps dest: bit_octet_bound)

lemma unat_a: "unat (ucast (drop_bit 2 (x :: 8 word)) :: 32 word)
   = bits_value [bit x 7, bit x 6, bit x 5, bit x 4, bit x 3, bit x 2]"
  by (subst unat_bits6 [OF tb_a]) (simp add: bit_simps)

lemma unat_b: "unat (push_bit 4 (ucast (take_bit 2 (x :: 8 word))) OR ucast (drop_bit 4 (y :: 8 word)) :: 32 word)
   = bits_value [bit x 1, bit x 0, bit y 7, bit y 6, bit y 5, bit y 4]"
  by (subst unat_bits6 [OF tb_b]) (simp add: bit_simps bit_octet_high)

lemma unat_c: "unat (push_bit 2 (ucast (take_bit 4 (y :: 8 word))) OR ucast (drop_bit 6 (z :: 8 word)) :: 32 word)
   = bits_value [bit y 3, bit y 2, bit y 1, bit y 0, bit z 7, bit z 6]"
  by (subst unat_bits6 [OF tb_c]) (simp add: bit_simps bit_octet_high)

lemma unat_d: "unat (ucast (take_bit 6 (z :: 8 word)) :: 32 word)
   = bits_value [bit z 5, bit z 4, bit z 3, bit z 2, bit z 1, bit z 0]"
  by (subst unat_bits6 [OF tb_d]) (simp add: bit_simps)

lemma bits_value_6_less: "bits_value [b5, b4, b3, b2, b1, b0] < 64"
  by simp

declare bits_value.simps [simp del]

lemma groups_of_6_8: "groups_of_6 [a, b, c, d, e, f, g, h] = [[a, b, c, d, e, f], [g, h, False, False, False, False]]"
  by (simp add: eval_nat_numeral)

lemma groups_of_6_16:
  "groups_of_6 [a, b, c, d, e, f, g, h, a', b', c', d', e', f', g', h']
     = [[a, b, c, d, e, f], [g, h, a', b', c', d'], [e', f', g', h', False, False]]"
  by (simp add: eval_nat_numeral)

lemma encodings_at_sextet:
  "unat a = bits_value [b5, b4, b3, b2, b1, b0] \<Longrightarrow>
   encodings_at a = [base64_alphabet ! bits_value [b5, b4, b3, b2, b1, b0]]"
proof -
  assume a: "unat a = bits_value [b5, b4, b3, b2, b1, b0]"
  have "length encodings = 64" by (simp add: encodings_def)
  moreover have "bits_value [b5, b4, b3, b2, b1, b0] < 64" by (rule bits_value_6_less)
  ultimately show ?thesis
    unfolding encodings_at_def a encodings_alphabet [symmetric] by simp
qed

lemma full_quantum:
  "encodings_at (signed_drop_bit 18 (chunk3 x y z AND 16515072))
     @ encodings_at (signed_drop_bit 12 (chunk3 x y z AND 258048))
     @ encodings_at (signed_drop_bit 6 (chunk3 x y z AND 4032))
     @ encodings_at (chunk3 x y z AND 63)
   = rfc4648_chars (bits_of_octet x @ bits_of_octet y @ bits_of_octet z)"
  unfolding sextet_a sextet_b sextet_c sextet_d
  by (simp only: encodings_at_sextet [OF unat_a] encodings_at_sextet [OF unat_b]
        encodings_at_sextet [OF unat_c] encodings_at_sextet [OF unat_d])
     (simp add: rfc4648_chars_def bits_of_octet_def)

lemma rem1_a: "signed_drop_bit 2 ((ucast (x :: 8 word) :: 32 word) AND 252) = ucast (drop_bit 2 x)"
  unfolding m5
  by (rule bit_word_eqI) (auto simp: bit_simps dest: bit_octet_bound)

lemma rem1_b: "push_bit 4 ((ucast (x :: 8 word) :: 32 word) AND 3) = push_bit 4 (ucast (take_bit 2 x))"
  unfolding m6
  by (rule bit_word_eqI) (auto simp: bit_simps dest: bit_octet_bound)

lemma tb_r1b: "take_bit 6 (push_bit 4 (ucast (take_bit 2 (x :: 8 word))) :: 32 word)
   = push_bit 4 (ucast (take_bit 2 x))"
  by (rule bit_word_eqI) (auto simp: bit_simps dest: bit_octet_bound)

lemma unat_r1b: "unat (push_bit 4 (ucast (take_bit 2 (x :: 8 word))) :: 32 word)
   = bits_value [bit x 1, bit x 0, False, False, False, False]"
  by (subst unat_bits6 [OF tb_r1b]) (simp add: bit_simps bit_octet_high)

lemma final_8_bits:
  "encodings_at (signed_drop_bit 2 (ucast x AND 252)) @ encodings_at (push_bit 4 (ucast x AND 3))
   = rfc4648_chars (bits_of_octet x)"
  unfolding rem1_a rem1_b
  by (simp only: encodings_at_sextet [OF unat_a] encodings_at_sextet [OF unat_r1b])
     (simp add: rfc4648_chars_def bits_of_octet_def eval_nat_numeral)

lemma rem2_a: "signed_drop_bit 10 (chunk2 x y AND 64512) = ucast (drop_bit 2 x)"
  unfolding m7 chunk2_def
  by (rule bit_word_eqI) (auto simp: bit_simps dest: bit_octet_bound)

lemma rem2_b:
  "signed_drop_bit 4 (chunk2 x y AND 1008) = push_bit 4 (ucast (take_bit 2 x)) OR ucast (drop_bit 4 y)"
  unfolding m8 chunk2_def
  by (rule bit_word_eqI) (auto simp: bit_simps dest: bit_octet_bound)

lemma rem2_c: "push_bit 2 (chunk2 x y AND 15) = push_bit 2 (ucast (take_bit 4 y))"
  unfolding m9 chunk2_def
  by (rule bit_word_eqI) (auto simp: bit_simps dest: bit_octet_bound)

lemma tb_r2c: "take_bit 6 (push_bit 2 (ucast (take_bit 4 (y :: 8 word))) :: 32 word)
   = push_bit 2 (ucast (take_bit 4 y))"
  by (rule bit_word_eqI) (auto simp: bit_simps dest: bit_octet_bound)

lemma unat_r2c: "unat (push_bit 2 (ucast (take_bit 4 (y :: 8 word))) :: 32 word)
   = bits_value [bit y 3, bit y 2, bit y 1, bit y 0, False, False]"
  by (subst unat_bits6 [OF tb_r2c]) (simp add: bit_simps bit_octet_high)

lemma final_16_bits:
  "encodings_at (signed_drop_bit 10 (chunk2 x y AND 64512))
     @ encodings_at (signed_drop_bit 4 (chunk2 x y AND 1008))
     @ encodings_at (push_bit 2 (chunk2 x y AND 15))
   = rfc4648_chars (bits_of_octet x @ bits_of_octet y)"
  unfolding rem2_a rem2_b rem2_c
  by (simp only: encodings_at_sextet [OF unat_a] encodings_at_sextet [OF unat_b]
        encodings_at_sextet [OF unat_r2c])
     (simp add: rfc4648_chars_def bits_of_octet_def eval_nat_numeral)

lemma base64_main_quanta:
  "i + 3 * k = mainLength \<Longrightarrow> mainLength \<le> length bytes \<Longrightarrow>
   base64_main bytes mainLength i acc
     = acc @ rfc4648_encode (take (3 * k) (drop i bytes))"
proof (induction k arbitrary: i acc)
  case 0
  then show ?case by (simp add: base64_main.simps)
next
  case (Suc k)
  then have lt: "i + 2 < length bytes" "i < mainLength" by simp_all
  define x where "x = bytes ! i"
  define y where "y = bytes ! (i + 1)"
  define z where "z = bytes ! (i + 2)"
  have nth: "bytes ! i = x" "bytes ! (i + 1) = y" "bytes ! (i + 2) = z"
    by (simp_all add: x_def y_def z_def)
  have d1: "drop i bytes = x # drop (i + 1) bytes"
    using lt(1) by (simp add: x_def Cons_nth_drop_Suc)
  have d2: "drop (i + 1) bytes = y # drop (i + 2) bytes"
    using lt(1) by (simp add: y_def Cons_nth_drop_Suc)
  have d3: "drop (i + 2) bytes = z # drop (i + 3) bytes"
    using lt(1) Cons_nth_drop_Suc [of "i + 2" bytes] by (simp add: z_def numeral_3_eq_3)
  have d: "drop i bytes = x # y # z # drop (i + 3) bytes"
    by (simp only: d1 d2 d3)
  have step: "base64_main bytes mainLength i acc =
      base64_main bytes mainLength (i + 3)
        (acc @ rfc4648_chars (bits_of_octet x @ bits_of_octet y @ bits_of_octet z))"
    using lt nth
    by (subst base64_main.simps)
       (simp add: byte_at_def Let_def full_quantum [unfolded chunk3_def])
  have "i + 3 + 3 * k = mainLength" using Suc.prems by simp
  from Suc.IH [OF this Suc.prems(2)] show ?case
    unfolding step d by (simp add: take_Suc_Cons numeral_3_eq_3)
qed

lemma rfc4648_encode_append:
  "length xs = 3 * k \<Longrightarrow> rfc4648_encode (xs @ ys) = rfc4648_encode xs @ rfc4648_encode ys"
proof (induction k arbitrary: xs)
  case 0
  then show ?case by simp
next
  case (Suc k)
  then obtain x y z rest where xs: "xs = x # y # z # rest"
    by (auto simp: length_Suc_conv eval_nat_numeral)
  with Suc.prems have "length rest = 3 * k" by simp
  from Suc.IH [OF this] show ?case by (simp add: xs)
qed

lemma base64ArrayBuffer_eq_rfc4648: "base64ArrayBuffer bytes = rfc4648_encode bytes"
proof -
  define r where "r = length bytes mod 3"
  define m where "m = length bytes - r"
  define k where "k = length bytes div 3"
  have m: "m = 3 * k" "m \<le> length bytes" "length bytes = m + r" "r < 3"
    unfolding m_def r_def k_def by (simp_all add: minus_mod_eq_mult_div)
  have main: "base64_main bytes m 0 [] = rfc4648_encode (take m bytes)"
    using base64_main_quanta [of 0 k m bytes "[]"] m by simp
  have split: "rfc4648_encode bytes = rfc4648_encode (take m bytes) @ rfc4648_encode (drop m bytes)"
    using rfc4648_encode_append [of "take m bytes" k "drop m bytes"] m by simp
  have unfold: "base64ArrayBuffer bytes =
      (if r = 1 then
           (let chunk = byte_at bytes m;
                a = signed_drop_bit 2 (chunk AND 252);
                b = push_bit 4 (chunk AND 3)
            in base64_main bytes m 0 [] @ encodings_at a @ encodings_at b @ ''=='')
         else if r = 2 then
           (let chunk = push_bit 8 (byte_at bytes m) OR byte_at bytes (m + 1);
                a = signed_drop_bit 10 (chunk AND 64512);
                b = signed_drop_bit 4 (chunk AND 1008);
                c = push_bit 2 (chunk AND 15)
            in base64_main bytes m 0 [] @ encodings_at a @ encodings_at b @ encodings_at c @ ''='')
         else base64_main bytes m 0 [])"
    unfolding base64ArrayBuffer_def r_def m_def by (simp only: Let_def)
  consider (zero) "r = 0" | (one) "r = 1" | (two) "r = 2" using m(4) by linarith
  then show ?thesis
  proof cases
    case zero
    then have "drop m bytes = []" using m by simp
    then have "rfc4648_encode bytes = rfc4648_encode (take m bytes)"
      using split by simp
    moreover have "base64ArrayBuffer bytes = base64_main bytes m 0 []"
      unfolding unfold using zero by simp
    ultimately show ?thesis using main by simp
  next
    case one
    then have lt: "m < length bytes" using m by simp
    then have "drop m bytes = [bytes ! m]"
      using m one Cons_nth_drop_Suc [of m bytes] by simp
    then have "rfc4648_encode bytes = rfc4648_encode (take m bytes) @ rfc4648_chars (bits_of_octet (bytes ! m)) @ ''==''"
      using split by simp
    moreover have "base64ArrayBuffer bytes = base64_main bytes m 0 [] @ rfc4648_chars (bits_of_octet (bytes ! m)) @ ''==''"
      unfolding unfold using one lt final_8_bits [of "bytes ! m"]
      by (simp add: byte_at_def Let_def)
    ultimately show ?thesis using main by simp
  next
    case two
    then have lt: "m < length bytes" "m + 1 < length bytes" using m by simp_all
    then have "drop m bytes = [bytes ! m, bytes ! (m + 1)]"
      using m two Cons_nth_drop_Suc [of m bytes] Cons_nth_drop_Suc [of "m + 1" bytes] by simp
    then have "rfc4648_encode bytes = rfc4648_encode (take m bytes)
        @ rfc4648_chars (bits_of_octet (bytes ! m) @ bits_of_octet (bytes ! (m + 1))) @ ''=''"
      using split by simp
    moreover have "base64ArrayBuffer bytes = base64_main bytes m 0 []
        @ rfc4648_chars (bits_of_octet (bytes ! m) @ bits_of_octet (bytes ! (m + 1))) @ ''=''"
      unfolding unfold using two lt final_16_bits [of "bytes ! m" "bytes ! (m + 1)", unfolded chunk2_def]
      by (simp add: byte_at_def Let_def)
    ultimately show ?thesis using main by simp
  qed
qed

lemma index_of_nth: "distinct xs \<Longrightarrow> i < length xs \<Longrightarrow> index_of xs (xs ! i) = Some i"
proof (induction xs arbitrary: i)
  case Nil
  then show ?case by simp
next
  case (Cons x xs)
  show ?case
  proof (cases i)
    case 0
    then show ?thesis by simp
  next
    case (Suc j)
    with Cons.prems have "xs ! j \<in> set xs" "x \<notin> set xs" by simp_all
    then have "x \<noteq> xs ! j" by blast
    with Cons Suc show ?thesis by simp
  qed
qed

lemma distinct_base64_alphabet: "distinct base64_alphabet"
  by (simp add: base64_alphabet_def)

lemma length_base64_alphabet: "length base64_alphabet = 64"
  by (simp add: base64_alphabet_def)

lemma pad_not_in_alphabet: "CHR ''='' \<notin> set base64_alphabet"
  by (simp add: base64_alphabet_def)

lemma sextet_char_value:
  "index_of base64_alphabet (base64_alphabet ! bits_value [b5, b4, b3, b2, b1, b0])
     = Some (bits_value [b5, b4, b3, b2, b1, b0])"
  by (rule index_of_nth [OF distinct_base64_alphabet])
     (simp only: length_base64_alphabet bits_value_6_less)

lemma sextet_char_not_pad: "base64_alphabet ! bits_value [b5, b4, b3, b2, b1, b0] \<noteq> CHR ''=''"
  using pad_not_in_alphabet nth_mem [of "bits_value [b5, b4, b3, b2, b1, b0]" base64_alphabet]
  by (metis length_base64_alphabet bits_value_6_less)

lemma bits_of_sextet_value: "bits_of_sextet (bits_value [b5, b4, b3, b2, b1, b0]) = [b5, b4, b3, b2, b1, b0]"
  by (cases b5; cases b4; cases b3; cases b2; cases b1; cases b0)
     (simp_all add: bits_of_sextet_def bits_value.simps bit_iff_odd)

lemma octet_of_bits_of_octet:
  "of_nat (bits_value [bit x 7, bit x 6, bit x 5, bit x 4, bit x 3, bit x 2, bit x 1, bit x 0]) = (x :: 8 word)"
proof -
  have "x = take_bit 8 x" using take_bit_length_eq [of x] by simp
  also have "\<dots> = horner_sum of_bool 2 (map (bit x) [0..<8])"
    by (simp only: horner_sum_bit_eq_take_bit)
  also have "\<dots> = of_nat (bits_value [bit x 7, bit x 6, bit x 5, bit x 4, bit x 3, bit x 2, bit x 1, bit x 0])"
    by (simp add: upt_rec numeral_eq_Suc bits_value.simps)
  finally show ?thesis by simp
qed

lemma sextets_of_sextet_chars:
  "sextets_of_chars (map (\<lambda>g. base64_alphabet ! bits_value g) gs) = Some (concat gs)"
  if "list_all (\<lambda>g. length g = 6) gs"
  using that
proof (induction gs)
  case Nil
  then show ?case by (simp add: sextets_of_chars_def)
next
  case (Cons g gs)
  then obtain b5 b4 b3 b2 b1 b0 where g: "g = [b5, b4, b3, b2, b1, b0]"
    by (auto simp: length_Suc_conv eval_nat_numeral)
  from Cons have "sextets_of_chars (map (\<lambda>g. base64_alphabet ! bits_value g) gs) = Some (concat gs)"
    by simp
  then show ?case
    unfolding g
    by (simp add: sextets_of_chars_def sextet_char_value bits_of_sextet_value split: if_splits)
qed

lemma decode_full_quantum:
  "rfc4648_decode (rfc4648_chars (bits_of_octet x @ bits_of_octet y @ bits_of_octet z) @ cs)
     = map_option (\<lambda>octets. x # y # z # octets) (rfc4648_decode cs)"
proof -
  let ?gs = "groups_of_6 (bits_of_octet x @ bits_of_octet y @ bits_of_octet z)"
  have gs: "?gs = [[bit x 7, bit x 6, bit x 5, bit x 4, bit x 3, bit x 2],
                   [bit x 1, bit x 0, bit y 7, bit y 6, bit y 5, bit y 4],
                   [bit y 3, bit y 2, bit y 1, bit y 0, bit z 7, bit z 6],
                   [bit z 5, bit z 4, bit z 3, bit z 2, bit z 1, bit z 0]]"
    by (simp add: bits_of_octet_def)
  have s: "sextets_of_chars (map (\<lambda>g. base64_alphabet ! bits_value g) ?gs) = Some (concat ?gs)"
    by (rule sextets_of_sextet_chars) (simp add: gs)
  show ?thesis
    using s unfolding rfc4648_chars_def gs
    by (simp add: sextet_char_not_pad octet_of_bits_of_octet [unfolded One_nat_def] split: option.splits)
qed

lemma decode_final_16:
  "rfc4648_decode (rfc4648_chars (bits_of_octet x @ bits_of_octet y) @ ''='') = Some [x, y]"
proof -
  let ?gs = "groups_of_6 (bits_of_octet x @ bits_of_octet y)"
  have gs: "?gs = [[bit x 7, bit x 6, bit x 5, bit x 4, bit x 3, bit x 2],
                   [bit x 1, bit x 0, bit y 7, bit y 6, bit y 5, bit y 4],
                   [bit y 3, bit y 2, bit y 1, bit y 0, False, False]]"
    by (simp add: bits_of_octet_def eval_nat_numeral)
  have s: "sextets_of_chars (map (\<lambda>g. base64_alphabet ! bits_value g) ?gs) = Some (concat ?gs)"
    by (rule sextets_of_sextet_chars) (simp add: gs)
  show ?thesis
    using s unfolding rfc4648_chars_def gs
    by (simp add: sextet_char_not_pad octet_of_bits_of_octet [unfolded One_nat_def])
qed

lemma decode_final_8:
  "rfc4648_decode (rfc4648_chars (bits_of_octet x) @ ''=='') = Some [x]"
proof -
  let ?gs = "groups_of_6 (bits_of_octet x)"
  have gs: "?gs = [[bit x 7, bit x 6, bit x 5, bit x 4, bit x 3, bit x 2],
                   [bit x 1, bit x 0, False, False, False, False]]"
    by (simp add: bits_of_octet_def eval_nat_numeral)
  have s: "sextets_of_chars (map (\<lambda>g. base64_alphabet ! bits_value g) ?gs) = Some (concat ?gs)"
    by (rule sextets_of_sextet_chars) (simp add: gs)
  show ?thesis
    using s unfolding rfc4648_chars_def gs
    by (simp add: sextet_char_not_pad octet_of_bits_of_octet [unfolded One_nat_def])
qed

lemma rfc4648_decode_encode: "rfc4648_decode (rfc4648_encode bytes) = Some bytes"
  by (induction bytes rule: rfc4648_encode.induct)
     (simp_all only: rfc4648_encode.simps decode_full_quantum decode_final_16 decode_final_8
        rfc4648_decode.simps option.map)

lemma length_rfc4648_chars_24: "length (rfc4648_chars (bits_of_octet x @ bits_of_octet y @ bits_of_octet z)) = 4"
  by (simp add: rfc4648_chars_def bits_of_octet_def)

lemma length_rfc4648_chars_16: "length (rfc4648_chars (bits_of_octet x @ bits_of_octet y)) = 3"
  by (simp add: rfc4648_chars_def bits_of_octet_def)

lemma length_rfc4648_chars_8: "length (rfc4648_chars (bits_of_octet x)) = 2"
  by (simp add: rfc4648_chars_def bits_of_octet_def)

lemma length_rfc4648_encode: "length (rfc4648_encode bytes) = 4 * ((length bytes + 2) div 3)"
proof (induction bytes rule: rfc4648_encode.induct)
  case (1 x y z rest)
  have "(length (x # y # z # rest) + 2) div 3 = Suc ((length rest + 2) div 3)"
    by simp
  with 1 show ?case
    by (simp only: rfc4648_encode.simps length_append length_rfc4648_chars_24) simp
qed (simp_all add: length_rfc4648_chars_16 length_rfc4648_chars_8)

lemma sextet_chars_not_pad:
  "list_all (\<lambda>g. length g = 6) gs \<Longrightarrow> CHR ''='' \<notin> set (map (\<lambda>g. base64_alphabet ! bits_value g) gs)"
proof (induction gs)
  case Nil
  then show ?case by simp
next
  case (Cons g gs)
  then obtain b5 b4 b3 b2 b1 b0 where g: "g = [b5, b4, b3, b2, b1, b0]"
    by (auto simp: length_Suc_conv eval_nat_numeral)
  with Cons show ?case
    using sextet_char_not_pad [of b5 b4 b3 b2 b1 b0] by auto
qed

lemma groups_of_6_lengths: "list_all (\<lambda>g. length g = 6) (groups_of_6 bs)"
  by (induction bs rule: groups_of_6.induct) simp_all

lemma pad_not_in_rfc4648_chars: "CHR ''='' \<notin> set (rfc4648_chars bs)"
  unfolding rfc4648_chars_def by (rule sextet_chars_not_pad) (rule groups_of_6_lengths)

lemma rfc4648_encode_padding:
  "rfc4648_encode bytes = rfc4648_body bytes @
     (if length bytes mod 3 = 1 then ''=='' else if length bytes mod 3 = 2 then ''='' else [])"
  by (induction bytes rule: rfc4648_encode.induct) simp_all

lemma pad_not_in_rfc4648_body: "CHR ''='' \<notin> set (rfc4648_body bytes)"
  by (induction bytes rule: rfc4648_body.induct) (simp_all add: pad_not_in_rfc4648_chars)

text \<open>
  Claim C10. For every byte array \<open>b\<close>, \<open>base64ArrayBuffer b\<close> is the RFC 4648 base 64
  encoding of \<open>b\<close> with its padding: its length is \<open>4 * \<lceil>|b| / 3\<rceil>\<close>, it ends in \<^verbatim>\<open>==\<close> when
  \<open>|b| mod 3 = 1\<close> and in \<^verbatim>\<open>=\<close> when \<open>|b| mod 3 = 2\<close>, with no \<^verbatim>\<open>=\<close> before that, and decoding
  it gives \<open>b\<close> back.
\<close>

theorem base64ArrayBuffer_rfc4648:
  "base64ArrayBuffer b = rfc4648_encode b
   \<and> length (base64ArrayBuffer b) = 4 * ((length b + 2) div 3)
   \<and> (\<exists>body. CHR ''='' \<notin> set body \<and>
         base64ArrayBuffer b = body @
           (if length b mod 3 = 1 then ''=='' else if length b mod 3 = 2 then ''='' else []))
   \<and> rfc4648_decode (base64ArrayBuffer b) = Some b"
proof -
  have "\<exists>body. CHR ''='' \<notin> set body \<and>
         rfc4648_encode b = body @
           (if length b mod 3 = 1 then ''=='' else if length b mod 3 = 2 then ''='' else [])"
    using rfc4648_encode_padding [of b] pad_not_in_rfc4648_body [of b] by blast
  then show ?thesis
    by (simp only: base64ArrayBuffer_eq_rfc4648 length_rfc4648_encode rfc4648_decode_encode)
qed

section \<open>Groups\<close>

text \<open>
  When the eight numbers of the frame are finite, the attribute nodes exist, so that
  \<open>processGroupSpNode\<close> reads them without a \<^verbatim>\<open>TypeError\<close> and returns the record of
  \<open>processGroupSpNode_frame\<close>, provided that its children are processed without an
  exception. \<open>get_remap_element\<close> reads a field of a remapped child.
\<close>

lemmas evaluate_group =
  group_node_def attrs2_def group_record_def frame_attr_def read_prop_def emu_attr_def
  parseInt_def parseInt_string_def is_space_def digit_of_def digits_value_def Let_def
  RATIO_EMUs_Points_def js_or_def work_items_def is_Array_def remap_element_def spread_def
  js_sub_def angleToDegrees_def processNodesInSlide.simps processGroupSpNode.simps

lemma getTextByPathList_falsy: "\<not> truthy node \<Longrightarrow> getTextByPathList node path = node"
  by (cases path) simp_all

lemma getTextByPathList_append:
  "getTextByPathList (getTextByPathList node path) rest = getTextByPathList node (path @ rest)"
  by (induction path arbitrary: node) (simp_all add: getTextByPathList_falsy)

lemma parseInt_undefined: "parseInt JUndef = NaN"
  by (simp add: parseInt_def parseInt_string_def is_space_def digit_of_def Let_def)

lemma emu_attr_missing: "v = JUndef \<or> v = JNull \<Longrightarrow> emu_attr v name = NaN"
  by (auto simp add: emu_attr_def parseInt_undefined)

lemma get_missing: "v = JUndef \<or> v = JNull \<Longrightarrow> get v name = JUndef"
  by auto

lemma frame_attr_Finite:
  assumes "frame_attr xfrmNode part name = Finite q"
  shows "read_prop (get xfrmNode part) ''attrs'' = Some (get (get xfrmNode part) ''attrs'')"
    and "read_prop (get (get xfrmNode part) ''attrs'') k = Some (get (get (get xfrmNode part) ''attrs'') k)"
proof -
  have a: "get (get xfrmNode part) ''attrs'' \<noteq> JUndef \<and> get (get xfrmNode part) ''attrs'' \<noteq> JNull"
    using assms emu_attr_missing [of "get (get xfrmNode part) ''attrs''" name]
    by (auto simp add: frame_attr_def)
  then have b: "get xfrmNode part \<noteq> JUndef \<and> get xfrmNode part \<noteq> JNull"
    using get_missing [of "get xfrmNode part" "''attrs''"] by auto
  show "read_prop (get xfrmNode part) ''attrs'' = Some (get (get xfrmNode part) ''attrs'')"
    using b by (simp add: read_prop_def)
  show "read_prop (get (get xfrmNode part) ''attrs'') k = Some (get (get (get xfrmNode part) ''attrs'') k)"
    using a by (simp add: read_prop_def)
qed

lemma processGroupSpNode_frame:
  assumes xfrm: "getTextByPathList node [''p:grpSpPr'', ''a:xfrm''] = xfrmNode" "truthy xfrmNode"
    and off: "frame_attr xfrmNode ''a:off'' ''x'' = Finite x" "frame_attr xfrmNode ''a:off'' ''y'' = Finite y"
    and ext: "frame_attr xfrmNode ''a:ext'' ''cx'' = Finite cx" "frame_attr xfrmNode ''a:ext'' ''cy'' = Finite cy"
    and chOff: "frame_attr xfrmNode ''a:chOff'' ''x'' = Finite chx" "frame_attr xfrmNode ''a:chOff'' ''y'' = Finite chy"
    and chExt: "frame_attr xfrmNode ''a:chExt'' ''cx'' = Finite chcx" "frame_attr xfrmNode ''a:chExt'' ''cy'' = Finite chcy"
    and items: "work_items node = Some items"
    and rets: "mapM (\<lambda>(nodeKey, item). processNodesInSlide E nodeKey item warpObj source) items = Some rets"
  shows "processGroupSpNode E node warpObj source = Some (JObj
     [(''type'', JStr ''group''), (''top'', JNum (Finite y)), (''left'', JNum (Finite x)),
      (''width'', JNum (Finite cx)), (''height'', JNum (Finite cy)),
      (''rotate'', (let rot = js_or (getTextByPathList xfrmNode [''attrs'', ''rot'']) (JNum (Finite 0))
                    in if truthy rot then JNum (angleToDegrees rot) else rot)),
      (''elements'', JArr (map (remap_element (Finite chx) (Finite chy)
          (js_div (Finite cx) (Finite chcx)) (js_div (Finite cy) (Finite chcy))) (filter truthy rets)))])"
proof -
  note r = frame_attr_Finite [OF off(1)] frame_attr_Finite [OF ext(1)]
    frame_attr_Finite [OF chOff(1)] frame_attr_Finite [OF chExt(1)]
  have v: "js_mul (parseInt (get (get (get xfrmNode ''a:off'') ''attrs'') ''x'')) RATIO_EMUs_Points = Finite x"
    "emu_attr (get (get xfrmNode ''a:off'') ''attrs'') ''y'' = Finite y"
    "js_mul (parseInt (get (get (get xfrmNode ''a:ext'') ''attrs'') ''cx'')) RATIO_EMUs_Points = Finite cx"
    "emu_attr (get (get xfrmNode ''a:ext'') ''attrs'') ''cy'' = Finite cy"
    "js_mul (parseInt (get (get (get xfrmNode ''a:chOff'') ''attrs'') ''x'')) RATIO_EMUs_Points = Finite chx"
    "emu_attr (get (get xfrmNode ''a:chOff'') ''attrs'') ''y'' = Finite chy"
    "js_mul (parseInt (get (get (get xfrmNode ''a:chExt'') ''attrs'') ''cx'')) RATIO_EMUs_Points = Finite chcx"
    "emu_attr (get (get xfrmNode ''a:chExt'') ''attrs'') ''cy'' = Finite chcy"
    using off ext chOff chExt by (simp_all add: frame_attr_def emu_attr_def)
  show ?thesis
    unfolding processGroupSpNode.simps [of E node warpObj source] xfrm(1) Let_def
    using xfrm(2) by (simp only: r v items rets if_False not_True_eq_False bind.bind_lunit simp_thms)
qed

lemma map_of_set_prop: "map_of (set_prop kvs k v) = (map_of kvs)(k \<mapsto> v)"
  by (induction kvs k v rule: set_prop.induct) (auto simp add: fun_eq_iff)

lemma get_remap_element:
  "get (remap_element chx chy ws hs (JObj kvs)) k =
     (if k = ''left'' then JNum (js_mul (js_sub (ToNumber (get (JObj kvs) ''left'')) chx) ws)
      else if k = ''top'' then JNum (js_mul (js_sub (ToNumber (get (JObj kvs) ''top'')) chy) hs)
      else if k = ''width'' then JNum (js_mul (ToNumber (get (JObj kvs) ''width'')) ws)
      else if k = ''height'' then JNum (js_mul (ToNumber (get (JObj kvs) ''height'')) hs)
      else get (JObj kvs) k)"
  by (simp add: remap_element_def spread_def map_of_set_prop)

lemma remap_element_Finite:
  assumes "get (JObj kvs) ''left'' = JNum (Finite l)" "get (JObj kvs) ''top'' = JNum (Finite t)"
    and "get (JObj kvs) ''width'' = JNum (Finite w)" "get (JObj kvs) ''height'' = JNum (Finite h)"
    and "chcx \<noteq> 0" "chcy \<noteq> 0"
  shows "get (remap_element (Finite chx) (Finite chy) (js_div (Finite cx) (Finite chcx))
            (js_div (Finite cy) (Finite chcy)) (JObj kvs)) k =
     (if k = ''left'' then JNum (Finite ((l - chx) * (cx / chcx)))
      else if k = ''top'' then JNum (Finite ((t - chy) * (cy / chcy)))
      else if k = ''width'' then JNum (Finite (w * (cx / chcx)))
      else if k = ''height'' then JNum (Finite (h * (cy / chcy)))
      else get (JObj kvs) k)"
  unfolding get_remap_element using assms by (simp add: js_sub_def)

lemma processGroupSpNode_children:
  assumes xfrm: "getTextByPathList node [''p:grpSpPr'', ''a:xfrm''] = xfrmNode" "truthy xfrmNode"
    and off: "frame_attr xfrmNode ''a:off'' ''x'' = Finite x" "frame_attr xfrmNode ''a:off'' ''y'' = Finite y"
    and ext: "frame_attr xfrmNode ''a:ext'' ''cx'' = Finite cx" "frame_attr xfrmNode ''a:ext'' ''cy'' = Finite cy"
    and chOff: "frame_attr xfrmNode ''a:chOff'' ''x'' = Finite chx" "frame_attr xfrmNode ''a:chOff'' ''y'' = Finite chy"
    and chExt: "frame_attr xfrmNode ''a:chExt'' ''cx'' = Finite chcx" "frame_attr xfrmNode ''a:chExt'' ''cy'' = Finite chcy"
    and nz: "chcx \<noteq> 0" "chcy \<noteq> 0"
    and items: "work_items node = Some items"
    and rets: "mapM (\<lambda>(nodeKey, item). processNodesInSlide E nodeKey item warpObj source) items = Some rets"
  shows "\<exists>group emitted.
           processGroupSpNode E node warpObj source = Some group
         \<and> get group ''elements'' = JArr emitted
         \<and> length emitted = length (filter truthy rets)
         \<and> (\<forall>i kvs l t w h k.
               i < length emitted \<and> filter truthy rets ! i = JObj kvs
             \<and> get (JObj kvs) ''left'' = JNum (Finite l) \<and> get (JObj kvs) ''top'' = JNum (Finite t)
             \<and> get (JObj kvs) ''width'' = JNum (Finite w) \<and> get (JObj kvs) ''height'' = JNum (Finite h)
             \<longrightarrow> get (emitted ! i) k =
                  (if k = ''left'' then JNum (Finite ((l - chx) * (cx / chcx)))
                   else if k = ''top'' then JNum (Finite ((t - chy) * (cy / chcy)))
                   else if k = ''width'' then JNum (Finite (w * (cx / chcx)))
                   else if k = ''height'' then JNum (Finite (h * (cy / chcy)))
                   else get (JObj kvs) k))"
proof -
  let ?remap = "remap_element (Finite chx) (Finite chy)
          (js_div (Finite cx) (Finite chcx)) (js_div (Finite cy) (Finite chcy))"
  let ?emitted = "map ?remap (filter truthy rets)"
  let ?group = "JObj
       [(''type'', JStr ''group''), (''top'', JNum (Finite y)), (''left'', JNum (Finite x)),
        (''width'', JNum (Finite cx)), (''height'', JNum (Finite cy)),
        (''rotate'', (let rot = js_or (getTextByPathList xfrmNode [''attrs'', ''rot'']) (JNum (Finite 0))
                      in if truthy rot then JNum (angleToDegrees rot) else rot)),
        (''elements'', JArr ?emitted)]"
  have "processGroupSpNode E node warpObj source = Some ?group"
    by (rule processGroupSpNode_frame [OF xfrm off ext chOff chExt items rets])
  moreover have "get ?group ''elements'' = JArr ?emitted"
    by simp
  moreover have "length ?emitted = length (filter truthy rets)"
    by simp
  moreover have "\<forall>i kvs l t w h k.
               i < length ?emitted \<and> filter truthy rets ! i = JObj kvs
             \<and> get (JObj kvs) ''left'' = JNum (Finite l) \<and> get (JObj kvs) ''top'' = JNum (Finite t)
             \<and> get (JObj kvs) ''width'' = JNum (Finite w) \<and> get (JObj kvs) ''height'' = JNum (Finite h)
             \<longrightarrow> get (?emitted ! i) k =
                  (if k = ''left'' then JNum (Finite ((l - chx) * (cx / chcx)))
                   else if k = ''top'' then JNum (Finite ((t - chy) * (cy / chcy)))
                   else if k = ''width'' then JNum (Finite (w * (cx / chcx)))
                   else if k = ''height'' then JNum (Finite (h * (cy / chcy)))
                   else get (JObj kvs) k)"
  proof (intro allI impI)
    fix i kvs l t w h k
    assume a: "i < length ?emitted \<and> filter truthy rets ! i = JObj kvs
             \<and> get (JObj kvs) ''left'' = JNum (Finite l) \<and> get (JObj kvs) ''top'' = JNum (Finite t)
             \<and> get (JObj kvs) ''width'' = JNum (Finite w) \<and> get (JObj kvs) ''height'' = JNum (Finite h)"
    then have "?emitted ! i = ?remap (JObj kvs)"
      by simp
    moreover have "get (?remap (JObj kvs)) k =
                  (if k = ''left'' then JNum (Finite ((l - chx) * (cx / chcx)))
                   else if k = ''top'' then JNum (Finite ((t - chy) * (cy / chcy)))
                   else if k = ''width'' then JNum (Finite (w * (cx / chcx)))
                   else if k = ''height'' then JNum (Finite (h * (cy / chcy)))
                   else get (JObj kvs) k)"
      using a nz by (intro remap_element_Finite) simp_all
    ultimately show "get (?emitted ! i) k =
                  (if k = ''left'' then JNum (Finite ((l - chx) * (cx / chcx)))
                   else if k = ''top'' then JNum (Finite ((t - chy) * (cy / chcy)))
                   else if k = ''width'' then JNum (Finite (w * (cx / chcx)))
                   else if k = ''height'' then JNum (Finite (h * (cy / chcy)))
                   else get (JObj kvs) k)"
      by simp
  qed
  ultimately show ?thesis
    by blast
qed

lemma processNodesInSlide_other:
  assumes "nodeKey \<notin> {''p:sp'', ''p:cxnSp'', ''p:pic'', ''p:graphicFrame'', ''p:grpSp'', ''mc:AlternateContent''}"
  shows "processNodesInSlide E nodeKey nodeValue warpObj source = Some JUndef"
  using assms by (simp add: processNodesInSlide.simps)

lemma scaled_child_alone:
  "processNodesInSlide E ''p:grpSp'' scaled_child warpObj source = Some (group_record 500 250 100 100 [])"
  by (simp add: scaled_child_def evaluate_group)

lemma scaled_group_result:
  "processGroupSpNode E scaled_group warpObj source =
     Some (group_record 0 0 2000 1000 [group_record 1000 500 200 200 []])"
  by (simp add: scaled_group_def scaled_child_def evaluate_group)

lemma shifted_child_alone:
  "processNodesInSlide E ''p:grpSp'' shifted_child warpObj source = Some (group_record 2 2 1 1 [])"
  by (simp add: shifted_child_def evaluate_group)

lemma shifted_group_result:
  "processGroupSpNode E shifted_group warpObj source =
     Some (group_record 1 1 2 2 [group_record 1 1 1 1 []])"
  by (simp add: shifted_group_def shifted_child_def evaluate_group)

text \<open>
  Claim C5. For every group element with off \<open>(x, y)\<close>, ext \<open>(cx, cy)\<close>, chOff \<open>(chx, chy)\<close>
  and chExt \<open>(chcx, chcy)\<close>, each child's resolved \<open>(left, top, width, height)\<close> is emitted as
  \<open>((left - chx) * sx, (top - chy) * sy, width * sx, height * sy)\<close> with \<open>sx = cx / chcx\<close> and
  \<open>sy = cy / chcy\<close>, and every other field of the child (its rotate, fills and colours
  among them) is emitted as it is. In particular, for off \<open>(0, 0)\<close>, ext \<open>(2000, 1000)\<close>,
  chOff \<open>(0, 0)\<close>, chExt \<open>(1000, 500)\<close> and a child at \<open>(500, 250)\<close> of size \<open>(100, 100)\<close>
  (\<open>scaled_group\<close> and its \<open>scaled_child\<close>), the emitted child has left 1000, top 500,
  width 200 and height 200.
\<close>

theorem processGroupSpNode_remaps_children:
  assumes xfrm: "getTextByPathList node [''p:grpSpPr'', ''a:xfrm''] = xfrmNode" "truthy xfrmNode"
    and off: "frame_attr xfrmNode ''a:off'' ''x'' = Finite x" "frame_attr xfrmNode ''a:off'' ''y'' = Finite y"
    and ext: "frame_attr xfrmNode ''a:ext'' ''cx'' = Finite cx" "frame_attr xfrmNode ''a:ext'' ''cy'' = Finite cy"
    and chOff: "frame_attr xfrmNode ''a:chOff'' ''x'' = Finite chx" "frame_attr xfrmNode ''a:chOff'' ''y'' = Finite chy"
    and chExt: "frame_attr xfrmNode ''a:chExt'' ''cx'' = Finite chcx" "frame_attr xfrmNode ''a:chExt'' ''cy'' = Finite chcy"
    and nz: "chcx \<noteq> 0" "chcy \<noteq> 0"
    and items: "work_items node = Some items"
    and rets: "mapM (\<lambda>(nodeKey, item). processNodesInSlide E nodeKey item warpObj source) items = Some rets"
  shows "(\<exists>group emitted.
           processGroupSpNode E node warpObj source = Some group
         \<and> get group ''elements'' = JArr emitted
         \<and> length emitted = length (filter truthy rets)
         \<and> (\<forall>i<length emitted. \<forall>kvs l t w h.
               filter truthy rets ! i = JObj kvs
             \<and> get (JObj kvs) ''left'' = JNum (Finite l) \<and> get (JObj kvs) ''top'' = JNum (Finite t)
             \<and> get (JObj kvs) ''width'' = JNum (Finite w) \<and> get (JObj kvs) ''height'' = JNum (Finite h)
             \<longrightarrow> get (emitted ! i) ''left'' = JNum (Finite ((l - chx) * (cx / chcx)))
               \<and> get (emitted ! i) ''top'' = JNum (Finite ((t - chy) * (cy / chcy)))
               \<and> get (emitted ! i) ''width'' = JNum (Finite (w * (cx / chcx)))
               \<and> get (emitted ! i) ''height'' = JNum (Finite (h * (cy / chcy)))
               \<and> (\<forall>k. k \<notin> {''left'', ''top'', ''width'', ''height''}
                      \<longrightarrow> get (emitted ! i) k = get (JObj kvs) k)))
       \<and> processNodesInSlide E ''p:grpSp'' scaled_child warpObj source =
           Some (group_record 500 250 100 100 [])
       \<and> processGroupSpNode E scaled_group warpObj source =
           Some (group_record 0 0 2000 1000 [group_record 1000 500 200 200 []])"
proof (intro conjI)
  show "\<exists>group emitted.
           processGroupSpNode E node warpObj source = Some group
         \<and> get group ''elements'' = JArr emitted
         \<and> length emitted = length (filter truthy rets)
         \<and> (\<forall>i<length emitted. \<forall>kvs l t w h.
               filter truthy rets ! i = JObj kvs
             \<and> get (JObj kvs) ''left'' = JNum (Finite l) \<and> get (JObj kvs) ''top'' = JNum (Finite t)
             \<and> get (JObj kvs) ''width'' = JNum (Finite w) \<and> get (JObj kvs) ''height'' = JNum (Finite h)
             \<longrightarrow> get (emitted ! i) ''left'' = JNum (Finite ((l - chx) * (cx / chcx)))
               \<and> get (emitted ! i) ''top'' = JNum (Finite ((t - chy) * (cy / chcy)))
               \<and> get (emitted ! i) ''width'' = JNum (Finite (w * (cx / chcx)))
               \<and> get (emitted ! i) ''height'' = JNum (Finite (h * (cy / chcy)))
               \<and> (\<forall>k. k \<notin> {''left'', ''top'', ''width'', ''height''}
                      \<longrightarrow> get (emitted ! i) k = get (JObj kvs) k))"
  proof -
    from processGroupSpNode_children [OF xfrm off ext chOff chExt nz items rets]
    obtain group emitted where g: "processGroupSpNode E node warpObj source = Some group"
        "get group ''elements'' = JArr emitted" "length emitted = length (filter truthy rets)"
      and each: "\<forall>i kvs l t w h k.
               i < length emitted \<and> filter truthy rets ! i = JObj kvs
             \<and> get (JObj kvs) ''left'' = JNum (Finite l) \<and> get (JObj kvs) ''top'' = JNum (Finite t)
             \<and> get (JObj kvs) ''width'' = JNum (Finite w) \<and> get (JObj kvs) ''height'' = JNum (Finite h)
             \<longrightarrow> get (emitted ! i) k =
                  (if k = ''left'' then JNum (Finite ((l - chx) * (cx / chcx)))
                   else if k = ''top'' then JNum (Finite ((t - chy) * (cy / chcy)))
                   else if k = ''width'' then JNum (Finite (w * (cx / chcx)))
                   else if k = ''height'' then JNum (Finite (h * (cy / chcy)))
                   else get (JObj kvs) k)"
      by blast
    have "(\<forall>i<length emitted. \<forall>kvs l t w h.
               filter truthy rets ! i = JObj kvs
             \<and> get (JObj kvs) ''left'' = JNum (Finite l) \<and> get (JObj kvs) ''top'' = JNum (Finite t)
             \<and> get (JObj kvs) ''width'' = JNum (Finite w) \<and> get (JObj kvs) ''height'' = JNum (Finite h)
             \<longrightarrow> get (emitted ! i) ''left'' = JNum (Finite ((l - chx) * (cx / chcx)))
               \<and> get (emitted ! i) ''top'' = JNum (Finite ((t - chy) * (cy / chcy)))
               \<and> get (emitted ! i) ''width'' = JNum (Finite (w * (cx / chcx)))
               \<and> get (emitted ! i) ''height'' = JNum (Finite (h * (cy / chcy)))
               \<and> (\<forall>k. k \<notin> {''left'', ''top'', ''width'', ''height''}
                      \<longrightarrow> get (emitted ! i) k = get (JObj kvs) k))"
    proof (intro allI impI)
      fix i kvs l t w h
      assume i: "i < length emitted"
        and e: "filter truthy rets ! i = JObj kvs
             \<and> get (JObj kvs) ''left'' = JNum (Finite l) \<and> get (JObj kvs) ''top'' = JNum (Finite t)
             \<and> get (JObj kvs) ''width'' = JNum (Finite w) \<and> get (JObj kvs) ''height'' = JNum (Finite h)"
      have at: "get (emitted ! i) k =
                  (if k = ''left'' then JNum (Finite ((l - chx) * (cx / chcx)))
                   else if k = ''top'' then JNum (Finite ((t - chy) * (cy / chcy)))
                   else if k = ''width'' then JNum (Finite (w * (cx / chcx)))
                   else if k = ''height'' then JNum (Finite (h * (cy / chcy)))
                   else get (JObj kvs) k)" for k
        using each [rule_format, of i kvs l t w h k] i e by simp
      show "get (emitted ! i) ''left'' = JNum (Finite ((l - chx) * (cx / chcx)))
               \<and> get (emitted ! i) ''top'' = JNum (Finite ((t - chy) * (cy / chcy)))
               \<and> get (emitted ! i) ''width'' = JNum (Finite (w * (cx / chcx)))
               \<and> get (emitted ! i) ''height'' = JNum (Finite (h * (cy / chcy)))
               \<and> (\<forall>k. k \<notin> {''left'', ''top'', ''width'', ''height''}
                      \<longrightarrow> get (emitted ! i) k = get (JObj kvs) k)"
        by (simp add: at)
    qed
    with g show ?thesis
      by blast
  qed
next
  show "processNodesInSlide E ''p:grpSp'' scaled_child warpObj source =
           Some (group_record 500 250 100 100 [])"
    by (rule scaled_child_alone)
next
  show "processGroupSpNode E scaled_group warpObj source =
           Some (group_record 0 0 2000 1000 [group_record 1000 500 200 200 []])"
    by (rule scaled_group_result)
qed

theorem processGroupSpNode_remaps_children_witness:
  "truthy (getTextByPathList scaled_group [''p:grpSpPr'', ''a:xfrm''])
   \<and> work_items scaled_group =
       Some [(''p:grpSpPr'', get scaled_group ''p:grpSpPr''), (''p:grpSp'', scaled_child)]
   \<and> mapM (\<lambda>(nodeKey, item). processNodesInSlide no_helpers nodeKey item blank_deck ''slide'')
         [(''p:grpSpPr'', get scaled_group ''p:grpSpPr''), (''p:grpSp'', scaled_child)] =
       Some [JUndef, group_record 500 250 100 100 []]
   \<and> (\<exists>group emitted.
         processGroupSpNode no_helpers scaled_group blank_deck ''slide'' = Some group
       \<and> get group ''elements'' = JArr emitted
       \<and> length emitted = 1
       \<and> get (emitted ! 0) ''left'' = JNum (Finite 1000)
       \<and> get (emitted ! 0) ''top'' = JNum (Finite 500)
       \<and> get (emitted ! 0) ''width'' = JNum (Finite 200)
       \<and> get (emitted ! 0) ''height'' = JNum (Finite 200)
       \<and> get (emitted ! 0) ''rotate'' = JNum (Finite 0))"
proof -
  let ?xfrm = "getTextByPathList scaled_group [''p:grpSpPr'', ''a:xfrm'']"
  let ?items = "[(''p:grpSpPr'', get scaled_group ''p:grpSpPr''), (''p:grpSp'', scaled_child)]"
  let ?rets = "[JUndef, group_record 500 250 100 100 []]"
  have xfrm: "truthy ?xfrm"
    by (simp add: scaled_group_def group_node_def)
  have off: "frame_attr ?xfrm ''a:off'' ''x'' = Finite 0" "frame_attr ?xfrm ''a:off'' ''y'' = Finite 0"
    and ext: "frame_attr ?xfrm ''a:ext'' ''cx'' = Finite 2000" "frame_attr ?xfrm ''a:ext'' ''cy'' = Finite 1000"
    and chOff: "frame_attr ?xfrm ''a:chOff'' ''x'' = Finite 0" "frame_attr ?xfrm ''a:chOff'' ''y'' = Finite 0"
    and chExt: "frame_attr ?xfrm ''a:chExt'' ''cx'' = Finite 1000" "frame_attr ?xfrm ''a:chExt'' ''cy'' = Finite 500"
    by (simp_all add: scaled_group_def evaluate_group)
  have items: "work_items scaled_group = Some ?items"
    by (simp add: scaled_group_def scaled_child_def group_node_def work_items_def is_Array_def)
  have rets: "mapM (\<lambda>(nodeKey, item). processNodesInSlide no_helpers nodeKey item blank_deck ''slide'')
      ?items = Some ?rets"
    by (simp add: scaled_child_alone processNodesInSlide_other)
  have rec: "filter truthy ?rets ! 0 = JObj
      [(''type'', JStr ''group''), (''top'', JNum (Finite 250)), (''left'', JNum (Finite 500)),
       (''width'', JNum (Finite 100)), (''height'', JNum (Finite 100)),
       (''rotate'', JNum (Finite 0)), (''elements'', JArr [])]"
    by (simp add: group_record_def)
  have nz: "(1000::rat) \<noteq> 0" "(500::rat) \<noteq> 0"
    by simp_all
  have "\<exists>group emitted.
           processGroupSpNode no_helpers scaled_group blank_deck ''slide'' = Some group
         \<and> get group ''elements'' = JArr emitted
         \<and> length emitted = length (filter truthy ?rets)
         \<and> (\<forall>i<length emitted. \<forall>kvs l t w h.
               filter truthy ?rets ! i = JObj kvs
             \<and> get (JObj kvs) ''left'' = JNum (Finite l) \<and> get (JObj kvs) ''top'' = JNum (Finite t)
             \<and> get (JObj kvs) ''width'' = JNum (Finite w) \<and> get (JObj kvs) ''height'' = JNum (Finite h)
             \<longrightarrow> get (emitted ! i) ''left'' = JNum (Finite ((l - 0) * (2000 / 1000)))
               \<and> get (emitted ! i) ''top'' = JNum (Finite ((t - 0) * (1000 / 500)))
               \<and> get (emitted ! i) ''width'' = JNum (Finite (w * (2000 / 1000)))
               \<and> get (emitted ! i) ''height'' = JNum (Finite (h * (1000 / 500)))
               \<and> (\<forall>k. k \<notin> {''left'', ''top'', ''width'', ''height''}
                      \<longrightarrow> get (emitted ! i) k = get (JObj kvs) k))"
    using processGroupSpNode_remaps_children [OF refl xfrm off ext chOff chExt nz items rets]
    by (rule conjunct1)
  then obtain group emitted where g: "processGroupSpNode no_helpers scaled_group blank_deck ''slide'' = Some group"
      "get group ''elements'' = JArr emitted" "length emitted = length (filter truthy ?rets)"
    and each: "\<forall>i<length emitted. \<forall>kvs l t w h.
               filter truthy ?rets ! i = JObj kvs
             \<and> get (JObj kvs) ''left'' = JNum (Finite l) \<and> get (JObj kvs) ''top'' = JNum (Finite t)
             \<and> get (JObj kvs) ''width'' = JNum (Finite w) \<and> get (JObj kvs) ''height'' = JNum (Finite h)
             \<longrightarrow> get (emitted ! i) ''left'' = JNum (Finite ((l - 0) * (2000 / 1000)))
               \<and> get (emitted ! i) ''top'' = JNum (Finite ((t - 0) * (1000 / 500)))
               \<and> get (emitted ! i) ''width'' = JNum (Finite (w * (2000 / 1000)))
               \<and> get (emitted ! i) ''height'' = JNum (Finite (h * (1000 / 500)))
               \<and> (\<forall>k. k \<notin> {''left'', ''top'', ''width'', ''height''}
                      \<longrightarrow> get (emitted ! i) k = get (JObj kvs) k)"
    by blast
  have len: "length emitted = 1"
    using g(3) by (simp add: group_record_def)
  have "get (emitted ! 0) ''left'' = JNum (Finite 1000)
       \<and> get (emitted ! 0) ''top'' = JNum (Finite 500)
       \<and> get (emitted ! 0) ''width'' = JNum (Finite 200)
       \<and> get (emitted ! 0) ''height'' = JNum (Finite 200)
       \<and> get (emitted ! 0) ''rotate'' = JNum (Finite 0)"
    using each [rule_format, of 0 _ 500 250 100 100, OF _ conjI [OF rec]] len
    by (simp del: filter.simps)
  with g(1,2) len xfrm items rets show ?thesis
    by blast
qed

text \<open>
  Claim C7 as stated fails. \<open>shifted_group\<close> has off = chOff = \<open>(1, 1)\<close> and
  ext = chExt = \<open>(2, 2)\<close>; its child \<open>shifted_child\<close> resolves to left 2 and top 2 and is
  emitted at left 1 and top 1.
\<close>

theorem processGroupSpNode_same_frame_moves_child:
  "frame_attr (getTextByPathList shifted_group [''p:grpSpPr'', ''a:xfrm'']) ''a:chOff'' ''x'' =
     frame_attr (getTextByPathList shifted_group [''p:grpSpPr'', ''a:xfrm'']) ''a:off'' ''x''
   \<and> frame_attr (getTextByPathList shifted_group [''p:grpSpPr'', ''a:xfrm'']) ''a:chOff'' ''y'' =
     frame_attr (getTextByPathList shifted_group [''p:grpSpPr'', ''a:xfrm'']) ''a:off'' ''y''
   \<and> frame_attr (getTextByPathList shifted_group [''p:grpSpPr'', ''a:xfrm'']) ''a:chExt'' ''cx'' =
     frame_attr (getTextByPathList shifted_group [''p:grpSpPr'', ''a:xfrm'']) ''a:ext'' ''cx''
   \<and> frame_attr (getTextByPathList shifted_group [''p:grpSpPr'', ''a:xfrm'']) ''a:chExt'' ''cy'' =
     frame_attr (getTextByPathList shifted_group [''p:grpSpPr'', ''a:xfrm'']) ''a:ext'' ''cy''
   \<and> processNodesInSlide no_helpers ''p:grpSp'' shifted_child blank_deck ''slide'' =
       Some (group_record 2 2 1 1 [])
   \<and> processGroupSpNode no_helpers shifted_group blank_deck ''slide'' =
       Some (group_record 1 1 2 2 [group_record 1 1 1 1 []])
   \<and> get (group_record 1 1 1 1 []) ''left'' \<noteq> get (group_record 2 2 1 1 []) ''left''
   \<and> get (group_record 1 1 1 1 []) ''top'' \<noteq> get (group_record 2 2 1 1 []) ''top''"
proof (intro conjI)
  show "processNodesInSlide no_helpers ''p:grpSp'' shifted_child blank_deck ''slide'' =
       Some (group_record 2 2 1 1 [])"
    by (rule shifted_child_alone)
  show "processGroupSpNode no_helpers shifted_group blank_deck ''slide'' =
       Some (group_record 1 1 2 2 [group_record 1 1 1 1 []])"
    by (rule shifted_group_result)
qed (simp_all add: shifted_group_def group_node_def attrs2_def frame_attr_def group_record_def)

text \<open>
  Claim C7, as amended. For every group whose chOff equals its off \<open>(x, y)\<close> and whose chExt
  equals its ext, the extent not being zero, every child's width and height are emitted
  unchanged and its left and top are emitted as \<open>left - x\<close> and \<open>top - y\<close>: the child
  offset is subtracted, the offset of the group is not added. Every other field of the
  child is emitted as it is.
\<close>

theorem processGroupSpNode_same_frame:
  assumes xfrm: "getTextByPathList node [''p:grpSpPr'', ''a:xfrm''] = xfrmNode" "truthy xfrmNode"
    and off: "frame_attr xfrmNode ''a:off'' ''x'' = Finite x" "frame_attr xfrmNode ''a:off'' ''y'' = Finite y"
    and ext: "frame_attr xfrmNode ''a:ext'' ''cx'' = Finite cx" "frame_attr xfrmNode ''a:ext'' ''cy'' = Finite cy"
    and chOff: "frame_attr xfrmNode ''a:chOff'' ''x'' = Finite x" "frame_attr xfrmNode ''a:chOff'' ''y'' = Finite y"
    and chExt: "frame_attr xfrmNode ''a:chExt'' ''cx'' = Finite cx" "frame_attr xfrmNode ''a:chExt'' ''cy'' = Finite cy"
    and nz: "cx \<noteq> 0" "cy \<noteq> 0"
    and items: "work_items node = Some items"
    and rets: "mapM (\<lambda>(nodeKey, item). processNodesInSlide E nodeKey item warpObj source) items = Some rets"
  shows "\<exists>group emitted.
           processGroupSpNode E node warpObj source = Some group
         \<and> get group ''elements'' = JArr emitted
         \<and> length emitted = length (filter truthy rets)
         \<and> (\<forall>i<length emitted. \<forall>kvs l t w h.
               filter truthy rets ! i = JObj kvs
             \<and> get (JObj kvs) ''left'' = JNum (Finite l) \<and> get (JObj kvs) ''top'' = JNum (Finite t)
             \<and> get (JObj kvs) ''width'' = JNum (Finite w) \<and> get (JObj kvs) ''height'' = JNum (Finite h)
             \<longrightarrow> get (emitted ! i) ''left'' = JNum (Finite (l - x))
               \<and> get (emitted ! i) ''top'' = JNum (Finite (t - y))
               \<and> get (emitted ! i) ''width'' = JNum (Finite (w))
               \<and> get (emitted ! i) ''height'' = JNum (Finite (h))
               \<and> (\<forall>k. k \<notin> {''left'', ''top'', ''width'', ''height''}
                      \<longrightarrow> get (emitted ! i) k = get (JObj kvs) k))"
proof -
    from processGroupSpNode_children [OF xfrm off ext chOff chExt nz items rets]
    obtain group emitted where g: "processGroupSpNode E node warpObj source = Some group"
        "get group ''elements'' = JArr emitted" "length emitted = length (filter truthy rets)"
      and each: "\<forall>i kvs l t w h k.
               i < length emitted \<and> filter truthy rets ! i = JObj kvs
             \<and> get (JObj kvs) ''left'' = JNum (Finite l) \<and> get (JObj kvs) ''top'' = JNum (Finite t)
             \<and> get (JObj kvs) ''width'' = JNum (Finite w) \<and> get (JObj kvs) ''height'' = JNum (Finite h)
             \<longrightarrow> get (emitted ! i) k =
                  (if k = ''left'' then JNum (Finite ((l - x) * (cx / cx)))
                   else if k = ''top'' then JNum (Finite ((t - y) * (cy / cy)))
                   else if k = ''width'' then JNum (Finite (w * (cx / cx)))
                   else if k = ''height'' then JNum (Finite (h * (cy / cy)))
                   else get (JObj kvs) k)"
      by blast
    have "(\<forall>i<length emitted. \<forall>kvs l t w h.
               filter truthy rets ! i = JObj kvs
             \<and> get (JObj kvs) ''left'' = JNum (Finite l) \<and> get (JObj kvs) ''top'' = JNum (Finite t)
             \<and> get (JObj kvs) ''width'' = JNum (Finite w) \<and> get (JObj kvs) ''height'' = JNum (Finite h)
             \<longrightarrow> get (emitted ! i) ''left'' = JNum (Finite (l - x))
               \<and> get (emitted ! i) ''top'' = JNum (Finite (t - y))
               \<and> get (emitted ! i) ''width'' = JNum (Finite (w))
               \<and> get (emitted ! i) ''height'' = JNum (Finite (h))
               \<and> (\<forall>k. k \<notin> {''left'', ''top'', ''width'', ''height''}
                      \<longrightarrow> get (emitted ! i) k = get (JObj kvs) k))"
    proof (intro allI impI)
      fix i kvs l t w h
      assume i: "i < length emitted"
        and e: "filter truthy rets ! i = JObj kvs
             \<and> get (JObj kvs) ''left'' = JNum (Finite l) \<and> get (JObj kvs) ''top'' = JNum (Finite t)
             \<and> get (JObj kvs) ''width'' = JNum (Finite w) \<and> get (JObj kvs) ''height'' = JNum (Finite h)"
      have at: "get (emitted ! i) k =
                  (if k = ''left'' then JNum (Finite (l - x))
                   else if k = ''top'' then JNum (Finite (t - y))
                   else if k = ''width'' then JNum (Finite (w))
                   else if k = ''height'' then JNum (Finite (h))
                   else get (JObj kvs) k)" for k
        using each [rule_format, of i kvs l t w h k] i e nz by simp
      show "get (emitted ! i) ''left'' = JNum (Finite (l - x))
               \<and> get (emitted ! i) ''top'' = JNum (Finite (t - y))
               \<and> get (emitted ! i) ''width'' = JNum (Finite (w))
               \<and> get (emitted ! i) ''height'' = JNum (Finite (h))
               \<and> (\<forall>k. k \<notin> {''left'', ''top'', ''width'', ''height''}
                      \<longrightarrow> get (emitted ! i) k = get (JObj kvs) k)"
        by (simp add: at)
    qed
    with g show ?thesis
      by blast
qed

theorem processGroupSpNode_same_frame_witness:
  "truthy (getTextByPathList shifted_group [''p:grpSpPr'', ''a:xfrm''])
   \<and> work_items shifted_group =
       Some [(''p:grpSpPr'', get shifted_group ''p:grpSpPr''), (''p:grpSp'', shifted_child)]
   \<and> mapM (\<lambda>(nodeKey, item). processNodesInSlide no_helpers nodeKey item blank_deck ''slide'')
         [(''p:grpSpPr'', get shifted_group ''p:grpSpPr''), (''p:grpSp'', shifted_child)] =
       Some [JUndef, group_record 2 2 1 1 []]
   \<and> (\<exists>group emitted.
         processGroupSpNode no_helpers shifted_group blank_deck ''slide'' = Some group
       \<and> get group ''elements'' = JArr emitted
       \<and> length emitted = 1
       \<and> get (emitted ! 0) ''left'' = JNum (Finite 1)
       \<and> get (emitted ! 0) ''top'' = JNum (Finite 1)
       \<and> get (emitted ! 0) ''width'' = JNum (Finite 1)
       \<and> get (emitted ! 0) ''height'' = JNum (Finite 1)
       \<and> get (emitted ! 0) ''rotate'' = JNum (Finite 0))"
proof -
  let ?xfrm = "getTextByPathList shifted_group [''p:grpSpPr'', ''a:xfrm'']"
  let ?items = "[(''p:grpSpPr'', get shifted_group ''p:grpSpPr''), (''p:grpSp'', shifted_child)]"
  let ?rets = "[JUndef, group_record 2 2 1 1 []]"
  have xfrm: "truthy ?xfrm"
    by (simp add: shifted_group_def group_node_def)
  have off: "frame_attr ?xfrm ''a:off'' ''x'' = Finite 1" "frame_attr ?xfrm ''a:off'' ''y'' = Finite 1"
    and ext: "frame_attr ?xfrm ''a:ext'' ''cx'' = Finite 2" "frame_attr ?xfrm ''a:ext'' ''cy'' = Finite 2"
    and chOff: "frame_attr ?xfrm ''a:chOff'' ''x'' = Finite 1" "frame_attr ?xfrm ''a:chOff'' ''y'' = Finite 1"
    and chExt: "frame_attr ?xfrm ''a:chExt'' ''cx'' = Finite 2" "frame_attr ?xfrm ''a:chExt'' ''cy'' = Finite 2"
    by (simp_all add: shifted_group_def evaluate_group)
  have items: "work_items shifted_group = Some ?items"
    by (simp add: shifted_group_def shifted_child_def group_node_def work_items_def is_Array_def)
  have rets: "mapM (\<lambda>(nodeKey, item). processNodesInSlide no_helpers nodeKey item blank_deck ''slide'')
      ?items = Some ?rets"
    by (simp add: shifted_child_alone processNodesInSlide_other)
  have rec: "filter truthy ?rets ! 0 = JObj
      [(''type'', JStr ''group''), (''top'', JNum (Finite 2)), (''left'', JNum (Finite 2)),
       (''width'', JNum (Finite 1)), (''height'', JNum (Finite 1)),
       (''rotate'', JNum (Finite 0)), (''elements'', JArr [])]"
    by (simp add: group_record_def)
  have nz: "(2::rat) \<noteq> 0" "(2::rat) \<noteq> 0"
    by simp_all
  from processGroupSpNode_same_frame [OF refl xfrm off ext chOff chExt nz items rets]
  obtain group emitted where g: "processGroupSpNode no_helpers shifted_group blank_deck ''slide'' = Some group"
      "get group ''elements'' = JArr emitted" "length emitted = length (filter truthy ?rets)"
    and each: "\<forall>i<length emitted. \<forall>kvs l t w h.
               filter truthy ?rets ! i = JObj kvs
             \<and> get (JObj kvs) ''left'' = JNum (Finite l) \<and> get (JObj kvs) ''top'' = JNum (Finite t)
             \<and> get (JObj kvs) ''width'' = JNum (Finite w) \<and> get (JObj kvs) ''height'' = JNum (Finite h)
             \<longrightarrow> get (emitted ! i) ''left'' = JNum (Finite (l - 1))
               \<and> get (emitted ! i) ''top'' = JNum (Finite (t - 1))
               \<and> get (emitted ! i) ''width'' = JNum (Finite (w))
               \<and> get (emitted ! i) ''height'' = JNum (Finite (h))
               \<and> (\<forall>k. k \<notin> {''left'', ''top'', ''width'', ''height''}
                      \<longrightarrow> get (emitted ! i) k = get (JObj kvs) k)"
    by blast
  have len: "length emitted = 1"
    using g(3) by (simp add: group_record_def)
  have "get (emitted ! 0) ''left'' = JNum (Finite 1)
       \<and> get (emitted ! 0) ''top'' = JNum (Finite 1)
       \<and> get (emitted ! 0) ''width'' = JNum (Finite 1)
       \<and> get (emitted ! 0) ''height'' = JNum (Finite 1)
       \<and> get (emitted ! 0) ''rotate'' = JNum (Finite 0)"
    using each [rule_format, of 0 _ 2 2 1 1, OF _ conjI [OF rec]] len
    by (simp del: filter.simps)
  with g(1,2) len xfrm items rets show ?thesis
    by blast
qed

text \<open>
  A work item whose result is falsy adds nothing to the emitted elements.
\<close>

lemma mapM_append:
  "mapM f (xs @ ys) = do { a \<leftarrow> mapM f xs; b \<leftarrow> mapM f ys; Some (a @ b) }"
  by (induction xs) (simp_all split: bind_splits)

lemma emitted_elements_append:
  "emitted_elements E warpObj source (xs @ ys) =
     do { a \<leftarrow> emitted_elements E warpObj source xs;
          b \<leftarrow> emitted_elements E warpObj source ys;
          Some (a @ b) }"
  by (simp add: emitted_elements_def mapM_append split: bind_splits)

lemma emitted_elements_falsy:
  assumes "processNodesInSlide E nodeKey node warpObj source = Some ret" "\<not> truthy ret"
  shows "emitted_elements E warpObj source (before @ [(nodeKey, node)] @ after) =
         emitted_elements E warpObj source (before @ after)"
proof -
  have single: "emitted_elements E warpObj source [(nodeKey, node)] = Some []"
    using assms by (simp add: emitted_elements_def)
  show ?thesis
    unfolding emitted_elements_append [of E warpObj source before]
      emitted_elements_append [of E warpObj source "[(nodeKey, node)]"] single
    by (cases "emitted_elements E warpObj source after") simp_all
qed

lemma processSingleSlide_emitted:
  "processSingleSlide E warpObj = do {
     sld \<leftarrow> read_prop (warp_slideContent warpObj) ''p:sld'';
     cSld \<leftarrow> read_prop sld ''p:cSld'';
     nodes \<leftarrow> read_prop cSld ''p:spTree'';
     bgColor \<leftarrow> getSlideBackgroundFill E warpObj;
     items \<leftarrow> work_items nodes;
     elements \<leftarrow> emitted_elements E warpObj ''slide'' items;
     Some (JObj [(''fill'', bgColor), (''elements'', JArr elements)])
   }"
  by (simp add: processSingleSlide_def emitted_elements_def Let_def split: bind_splits)

text \<open>
  Claim C9. For every \<^verbatim>\<open>p:grpSp\<close> node, and for the \<^verbatim>\<open>mc:Fallback\<close> of an
  \<^verbatim>\<open>mc:AlternateContent\<close> routed through the group handler, that lacks
  \<^verbatim>\<open>p:grpSpPr/a:xfrm\<close>, \<open>processGroupSpNode\<close> returns null, so the group and all of its
  descendants are omitted from the output: the loop of \<open>processSingleSlide\<close> emits for
  the children of the shape tree what it emits for them without that group.
\<close>

theorem processGroupSpNode_without_xfrm:
  assumes "\<not> truthy (getTextByPathList node [''p:grpSpPr'', ''a:xfrm''])"
  shows "processGroupSpNode E node warpObj source = Some JNull
       \<and> processNodesInSlide E ''p:grpSp'' node warpObj source = Some JNull
       \<and> (getTextByPathList alternate [''mc:Fallback''] = node \<longrightarrow>
            processNodesInSlide E ''mc:AlternateContent'' alternate warpObj source = Some JNull)
       \<and> emitted_elements E warpObj source (before @ [(''p:grpSp'', node)] @ after) =
           emitted_elements E warpObj source (before @ after)
       \<and> processSingleSlide E warpObj = do {
            sld \<leftarrow> read_prop (warp_slideContent warpObj) ''p:sld'';
            cSld \<leftarrow> read_prop sld ''p:cSld'';
            nodes \<leftarrow> read_prop cSld ''p:spTree'';
            bgColor \<leftarrow> getSlideBackgroundFill E warpObj;
            items \<leftarrow> work_items nodes;
            elements \<leftarrow> emitted_elements E warpObj ''slide'' items;
            Some (JObj [(''fill'', bgColor), (''elements'', JArr elements)])
          }"
proof -
  have group: "processGroupSpNode E node warpObj source = Some JNull" for E warpObj source
    using assms by (simp add: processGroupSpNode.simps)
  then have child: "processNodesInSlide E ''p:grpSp'' node warpObj source = Some JNull"
    by (simp add: processNodesInSlide.simps)
  have "processNodesInSlide E ''mc:AlternateContent'' alternate warpObj source = Some JNull"
    if "getTextByPathList alternate [''mc:Fallback''] = node"
    using that group by (simp add: processNodesInSlide.simps)
  moreover have "emitted_elements E warpObj source (before @ [(''p:grpSp'', node)] @ after) =
      emitted_elements E warpObj source (before @ after)"
    using child by (rule emitted_elements_falsy) simp
  ultimately show ?thesis
    using group child processSingleSlide_emitted [of E warpObj] by blast
qed

theorem processGroupSpNode_without_xfrm_witness:
  "\<not> truthy (getTextByPathList unframed_group [''p:grpSpPr'', ''a:xfrm''])
   \<and> processGroupSpNode no_helpers unframed_group blank_deck ''slide'' = Some JNull
   \<and> processNodesInSlide no_helpers ''mc:AlternateContent''
        (JObj [(''mc:Fallback'', unframed_group)]) blank_deck ''slide'' = Some JNull
   \<and> emitted_elements no_helpers blank_deck ''slide''
        [(''p:grpSp'', shifted_child), (''p:grpSp'', unframed_group)] =
       Some [group_record 2 2 1 1 []]"
proof -
  have missing: "\<not> truthy (getTextByPathList unframed_group [''p:grpSpPr'', ''a:xfrm''])"
    by (simp add: unframed_group_def)
  have fallback: "getTextByPathList (JObj [(''mc:Fallback'', unframed_group)]) [''mc:Fallback''] =
      unframed_group"
    by simp
  have others: "emitted_elements no_helpers blank_deck ''slide'' ([(''p:grpSp'', shifted_child)] @ []) =
      Some [group_record 2 2 1 1 []]"
    by (simp add: emitted_elements_def shifted_child_alone group_record_def)
  show ?thesis
    using processGroupSpNode_without_xfrm [OF missing, of no_helpers blank_deck "''slide''"
        "JObj [(''mc:Fallback'', unframed_group)]" "[(''p:grpSp'', shifted_child)]" "[]"]
      missing fallback others
    by simp
qed

section \<open>The order of the elements of a slide\<close>

text \<open>
  Iterating over the properties of a collapsed tree visits the children grouped by tag
  (\<open>work_items_collapse_children\<close>), which is the document order when no two children of one
  tag are separated by a child of another (\<open>group_by_tag_adjacent\<close>).
\<close>

lemma mapM_map_Some:
  assumes "\<And>x. x \<in> set xs \<Longrightarrow> f (g x) = Some (h x)"
  shows "mapM f (map g xs) = Some (map h xs)"
  using assms by (induction xs) simp_all

lemma children_named_tag: "map (Pair tag) (map snd (children_named tag cs)) = children_named tag cs"
  by (induction cs) (auto simp add: children_named_def)

lemma children_named_single_node:
  assumes "list_all single_node (map snd cs)" "map snd (children_named tag cs) = [n]"
  shows "single_node n"
proof -
  have "n \<in> set (map snd (children_named tag cs))"
    using assms(2) by simp
  then have "n \<in> set (map snd cs)"
    by (auto simp add: children_named_def)
  then show ?thesis
    using assms(1) by (auto simp add: list_all_iff)
qed

lemma expand_collapsed:
  assumes "list_all single_node (map snd cs)"
  shows "do {
           array \<leftarrow> is_Array (case map snd (children_named tag cs) of [n] \<Rightarrow> n | ns \<Rightarrow> JArr ns);
           Some (case (case map snd (children_named tag cs) of [n] \<Rightarrow> n | ns \<Rightarrow> JArr ns) of
                   JArr items \<Rightarrow> map (Pair tag) items
                 | _ \<Rightarrow> [(tag, case map snd (children_named tag cs) of [n] \<Rightarrow> n | ns \<Rightarrow> JArr ns)])
         } = Some (children_named tag cs)"
proof (cases "map snd (children_named tag cs)")
  case Nil
  then show ?thesis
    by (simp add: is_Array_def)
next
  case (Cons n ns)
  show ?thesis
  proof (cases ns)
    case Nil
    have one: "map snd (children_named tag cs) = [n]"
      using Cons Nil by simp
    have "single_node n"
      using children_named_single_node [OF assms one] .
    moreover have "children_named tag cs = [(tag, n)]"
      using children_named_tag [of tag cs] one by simp
    ultimately show ?thesis
      using one by (cases n) (simp_all add: is_Array_def)
  next
    case (Cons m ms)
    then have many: "map snd (children_named tag cs) = n # m # ms"
      using \<open>map snd (children_named tag cs) = n # ns\<close> by simp
    show ?thesis
      using children_named_tag [of tag cs] by (simp add: many is_Array_def)
  qed
qed

lemma work_items_collapse_children:
  assumes "list_all single_node (map snd cs)"
  shows "work_items (JObj (collapse_children cs)) = Some (group_by_tag cs)"
  unfolding work_items_def collapse_children_def group_by_tag_def own_props.simps
  by (subst mapM_map_Some [where h = "\<lambda>tag. children_named tag cs"])
     (simp_all add: expand_collapsed [OF assms])

lemma concat_filter_tags:
  "concat (map (\<lambda>tag. children_named tag cs) (filter (\<lambda>u. u \<noteq> t) tags)) =
   filter (\<lambda>c. fst c \<noteq> t) (concat (map (\<lambda>tag. children_named tag cs) tags))"
proof (induction tags)
  case Nil
  show ?case by simp
next
  case (Cons u tags)
  have "filter (\<lambda>c. fst c \<noteq> t) (children_named u cs) = (if u = t then [] else children_named u cs)"
    by (induction cs) (auto simp add: children_named_def)
  with Cons show ?case
    by simp
qed

lemma group_by_tag_Cons:
  "group_by_tag ((t, n) # cs) =
     (t, n) # children_named t cs @ filter (\<lambda>c. fst c \<noteq> t) (group_by_tag cs)"
proof -
  have eq: "map (\<lambda>tag. children_named tag ((t, n) # cs)) (filter (\<lambda>u. u \<noteq> t) tags) =
      map (\<lambda>tag. children_named tag cs) (filter (\<lambda>u. u \<noteq> t) tags)" for tags
    by (induction tags) (simp_all add: children_named_def)
  have "group_by_tag ((t, n) # cs) =
      children_named t ((t, n) # cs)
      @ concat (map (\<lambda>tag. children_named tag ((t, n) # cs))
                 (filter (\<lambda>u. u \<noteq> t) (first_tags (map fst cs))))"
    by (simp add: group_by_tag_def)
  also have "\<dots> = ((t, n) # children_named t cs)
      @ concat (map (\<lambda>tag. children_named tag cs)
                 (filter (\<lambda>u. u \<noteq> t) (first_tags (map fst cs))))"
    unfolding eq by (simp add: children_named_def)
  also have "\<dots> = (t, n) # children_named t cs @ filter (\<lambda>c. fst c \<noteq> t) (group_by_tag cs)"
    unfolding concat_filter_tags by (simp add: group_by_tag_def)
  finally show ?thesis .
qed

lemma distinct_remdups_adj_tl:
  assumes "distinct (remdups_adj (t # ts))"
  shows "distinct (remdups_adj ts)"
  using assms by (cases ts) (auto split: if_splits)

lemma adjacent_partition:
  assumes "distinct (remdups_adj (t # map fst cs))"
  shows "children_named t cs @ filter (\<lambda>c. fst c \<noteq> t) cs = cs"
  using assms
proof (induction cs)
  case Nil
  show ?case by (simp add: children_named_def)
next
  case (Cons c cs)
  show ?case
  proof (cases "fst c = t")
    case True
    then have "distinct (remdups_adj (t # map fst cs))"
      using Cons.prems by simp
    then show ?thesis
      using Cons.IH True by (simp add: children_named_def case_prod_unfold)
  next
    case False
    then have "t \<notin> set (remdups_adj (map fst (c # cs)))"
      using Cons.prems by auto
    then have "t \<notin> fst ` set (c # cs)"
      by simp
    then have "filter (\<lambda>c. fst c = t) (c # cs) = []" "filter (\<lambda>c. fst c \<noteq> t) (c # cs) = c # cs"
      by (auto simp add: filter_empty_conv filter_id_conv)
    then show ?thesis
      by (simp add: children_named_def case_prod_unfold)
  qed
qed

lemma group_by_tag_adjacent:
  assumes "distinct (remdups_adj (map fst cs))"
  shows "group_by_tag cs = cs"
  using assms
proof (induction cs)
  case Nil
  show ?case by (simp add: group_by_tag_def)
next
  case (Cons c cs)
  obtain t n where c: "c = (t, n)"
    by (cases c)
  have "distinct (remdups_adj (map fst cs))"
    using Cons.prems distinct_remdups_adj_tl [of t "map fst cs"] by (simp add: c)
  then have "group_by_tag cs = cs"
    by (rule Cons.IH)
  then show ?case
    using adjacent_partition [of t cs] Cons.prems by (simp add: c group_by_tag_Cons)
qed

lemma read_path3:
  assumes "truthy (getTextByPathList node [a, b, c])"
  shows "read_prop node a = Some (get node a)"
    and "read_prop (get node a) b = Some (get (get node a) b)"
    and "read_prop (get (get node a) b) c = Some (getTextByPathList node [a, b, c])"
  using assms by (auto simp add: read_prop_def split: if_splits)

lemma getSlideBackgroundFill_no_slide_bg:
  assumes "\<not> truthy (getTextByPathList (warp_slideContent warpObj) [''p:sld'', ''p:cSld'', ''p:bg'', ''p:bgPr''])"
    and "\<not> truthy (getTextByPathList (warp_slideContent warpObj) [''p:sld'', ''p:cSld'', ''p:bg'', ''p:bgRef''])"
  shows "getSlideBackgroundFill E warpObj = Some (background_record ''color'' (JStr ''#fff''))"
  using assms unfolding getSlideBackgroundFill_def Let_def by simp

lemma processSingleSlide_collapsed:
  assumes "list_all single_node (map snd children)"
    and "getTextByPathList (warp_slideContent warpObj) [''p:sld'', ''p:cSld'', ''p:spTree''] =
         JObj (collapse_children children)"
  shows "processSingleSlide E warpObj = do {
           bgColor \<leftarrow> getSlideBackgroundFill E warpObj;
           elements \<leftarrow> emitted_elements E warpObj ''slide'' (group_by_tag children);
           Some (JObj [(''fill'', bgColor), (''elements'', JArr elements)])
         }"
proof -
  have "truthy (getTextByPathList (warp_slideContent warpObj) [''p:sld'', ''p:cSld'', ''p:spTree''])"
    by (simp only: assms(2) truthy.simps)
  note path = read_path3 [OF this]
  show ?thesis
    by (simp only: processSingleSlide_emitted path assms(2) bind.bind_lunit
        work_items_collapse_children [OF assms(1)])
qed

lemma unit_group_alone:
  "processNodesInSlide E ''p:grpSp'' (unit_group ''12700'') warpObj source = Some (group_record 1 0 1 1 [])"
  "processNodesInSlide E ''p:grpSp'' (unit_group ''25400'') warpObj source = Some (group_record 2 0 1 1 [])"
  "processNodesInSlide E ''p:grpSp'' (unit_group ''38100'') warpObj source = Some (group_record 3 0 1 1 [])"
  by (simp_all add: unit_group_def evaluate_group)

lemma unit_group_fallback:
  "processNodesInSlide E ''mc:AlternateContent'' (JObj [(''mc:Fallback'', unit_group ''25400'')])
     warpObj source = Some (group_record 2 0 1 1 [])"
  using unit_group_alone(2) [of E warpObj source] by (simp add: processNodesInSlide.simps)

lemma deck_with_children_tree:
  "getTextByPathList (warp_slideContent (deck_with_children cs)) [''p:sld'', ''p:cSld'', ''p:spTree''] =
     JObj (collapse_children cs)"
  by (simp add: deck_with_children_def)

lemma deck_with_children_fill:
  "getSlideBackgroundFill E (deck_with_children cs) =
     Some (JObj [(''type'', JStr ''color''), (''value'', JStr ''#fff'')])"
  by (subst getSlideBackgroundFill_no_slide_bg)
     (simp_all add: deck_with_children_def background_record_def)

text \<open>
  Claim C1 as stated fails. In \<open>interleaved_children\<close> a group at left 1, an
  \<^verbatim>\<open>mc:AlternateContent\<close> whose fallback is a group at left 2, and a group at left 3 follow
  each other; processed in document order they give the records at left 1, 2 and 3, and
  the slide has them at left 1, 3 and 2.
\<close>

theorem processSingleSlide_interleaved_tags:
  "emitted_elements no_helpers (deck_with_children interleaved_children) ''slide'' interleaved_children =
     Some [group_record 1 0 1 1 [], group_record 2 0 1 1 [], group_record 3 0 1 1 []]
   \<and> processSingleSlide no_helpers (deck_with_children interleaved_children) =
     Some (JObj [(''fill'', JObj [(''type'', JStr ''color''), (''value'', JStr ''#fff'')]),
                 (''elements'', JArr [group_record 1 0 1 1 [], group_record 3 0 1 1 [],
                                      group_record 2 0 1 1 []])])"
proof
  show "emitted_elements no_helpers (deck_with_children interleaved_children) ''slide''
      interleaved_children =
     Some [group_record 1 0 1 1 [], group_record 2 0 1 1 [], group_record 3 0 1 1 []]"
    by (simp add: emitted_elements_def interleaved_children_def unit_group_alone unit_group_fallback
        group_record_def)
  have nodes: "list_all single_node (map snd interleaved_children)"
    by (simp add: interleaved_children_def unit_group_def group_node_def)
  have order: "group_by_tag interleaved_children =
      [(''p:grpSp'', unit_group ''12700''), (''p:grpSp'', unit_group ''38100''),
       (''mc:AlternateContent'', JObj [(''mc:Fallback'', unit_group ''25400'')])]"
    by (simp add: group_by_tag_def children_named_def interleaved_children_def)
  show "processSingleSlide no_helpers (deck_with_children interleaved_children) =
     Some (JObj [(''fill'', JObj [(''type'', JStr ''color''), (''value'', JStr ''#fff'')]),
                 (''elements'', JArr [group_record 1 0 1 1 [], group_record 3 0 1 1 [],
                                      group_record 2 0 1 1 []])])"
    unfolding processSingleSlide_collapsed [OF nodes deck_with_children_tree] order
      deck_with_children_fill
    by (simp add: emitted_elements_def unit_group_alone unit_group_fallback group_record_def)
qed

text \<open>
  Claim C1, as amended. For every slide produced by \<open>processSingleSlide\<close>, the elements
  are those of the convertible children of the shape tree in the order in which the
  parsed tree holds them: grouped by tag, the tags in the order of their first
  occurrence, and the children of one tag in document order (\<open>group_by_tag\<close>). That is the
  document order whenever the children of each tag are adjacent in the source.
\<close>

theorem processSingleSlide_element_order:
  assumes "list_all single_node (map snd children)"
    and "getTextByPathList (warp_slideContent warpObj) [''p:sld'', ''p:cSld'', ''p:spTree''] =
         JObj (collapse_children children)"
  shows "processSingleSlide E warpObj = do {
           bgColor \<leftarrow> getSlideBackgroundFill E warpObj;
           elements \<leftarrow> emitted_elements E warpObj ''slide'' (group_by_tag children);
           Some (JObj [(''fill'', bgColor), (''elements'', JArr elements)])
         }
       \<and> (distinct (remdups_adj (map fst children)) \<longrightarrow> group_by_tag children = children)"
  using processSingleSlide_collapsed [OF assms] group_by_tag_adjacent [of children] by blast

theorem processSingleSlide_element_order_witness:
  "list_all single_node (map snd adjacent_children)
   \<and> distinct (remdups_adj (map fst adjacent_children))
   \<and> processSingleSlide no_helpers (deck_with_children adjacent_children) =
     Some (JObj [(''fill'', JObj [(''type'', JStr ''color''), (''value'', JStr ''#fff'')]),
                 (''elements'', JArr [group_record 1 0 1 1 [], group_record 3 0 1 1 [],
                                      group_record 2 0 1 1 []])])"
proof -
  have nodes: "list_all single_node (map snd adjacent_children)"
    by (simp add: adjacent_children_def unit_group_def group_node_def)
  have adjacent: "distinct (remdups_adj (map fst adjacent_children))"
    by (simp add: adjacent_children_def)
  have "emitted_elements no_helpers (deck_with_children adjacent_children) ''slide'' adjacent_children =
     Some [group_record 1 0 1 1 [], group_record 3 0 1 1 [], group_record 2 0 1 1 []]"
    by (simp add: emitted_elements_def adjacent_children_def unit_group_alone unit_group_fallback
        group_record_def)
  then show ?thesis
    using processSingleSlide_element_order [OF nodes deck_with_children_tree, of no_helpers]
      nodes adjacent
    by (simp add: deck_with_children_fill)
qed

section \<open>Backgrounds, colours and gradients\<close>

text \<open>
  Rules that evaluate \<^verbatim>\<open>toString\<close> and the parsers on numerals.
\<close>

lemma fraction_digits_numeral:
  "fraction_digits radix (numeral k) q =
     (if q = 0 then []
      else (let d = nat \<lfloor>q * of_nat radix\<rfloor>
            in digit_chars ! d # fraction_digits radix (pred_numeral k) (q * of_nat radix - of_nat d)))"
  by (simp add: numeral_eq_Suc)

lemma floor_rat_numeral: "\<lfloor>(numeral a :: rat) / numeral b\<rfloor> = numeral a div numeral b"
  using floor_divide_of_int_eq [of "numeral a" "numeral b", where ?'a = rat] by simp

lemma floor_rat_one_numeral: "\<lfloor>(1 :: rat) / numeral b\<rfloor> = 1 div numeral b"
  using floor_divide_of_int_eq [of 1 "numeral b", where ?'a = rat] by simp

lemmas evaluate_number =
  floor_rat_numeral floor_rat_one_numeral digits_of.simps [of 16] digits_of.simps [of 10] digit_chars_def
  fraction_digits_numeral Let_def

lemmas evaluate_parse =
  parseInt_def parseInt_string_def StringToNumber_def trim_def is_space_def unsigned_decimal_def
  is_decimal_digit_def digit_of_def digits_value_def

lemma getSolidFill_srgbClr:
  "getSolidFill E (JObj [(''a:srgbClr'', JObj [(''attrs'', JObj [(''val'', JStr ''FF0000'')])])])
     clrMap phClr warpObj = Some (JStr ''#FF0000'')"
  "getSolidFill E (gradient_stop pos ''FF0000'') clrMap phClr warpObj = Some (JStr ''#FF0000'')"
  "getSolidFill E (gradient_stop pos ''00FF00'') clrMap phClr warpObj = Some (JStr ''#00FF00'')"
  by (simp_all add: getSolidFill_def gradient_stop_def modifier_def apply_if_present_def isNaN_def
      parseInt_undefined str_of_def indexOf_def)

text \<open>
  Claim C2 fails on the code: the fallback to the master is announced by the comments of
  \<open>getSlideBackgroundFill\<close> and left out. In \<open>master_red_deck\<close> neither the slide nor the
  layout has a \<^verbatim>\<open>p:bg\<close> and the master has a solid red \<^verbatim>\<open>p:bgPr\<close>: the result is the white
  default. The same \<^verbatim>\<open>p:bgPr\<close> on the slide itself (\<open>slide_red_deck\<close>) is resolved.
\<close>

theorem getSlideBackgroundFill_ignores_master:
  "getTextByPathList (warp_slideMasterContent master_red_deck)
      [''p:sldMaster'', ''p:cSld'', ''p:bg'', ''p:bgPr''] = solid_fill ''FF0000''
   \<and> getSlideBackgroundFill E master_red_deck =
       Some (JObj [(''type'', JStr ''color''), (''value'', JStr ''#fff'')])
   \<and> getSlideBackgroundFill E slide_red_deck =
       Some (JObj [(''type'', JStr ''color''), (''value'', JStr ''#FF0000'')])"
proof (intro conjI)
  show "getTextByPathList (warp_slideMasterContent master_red_deck)
      [''p:sldMaster'', ''p:cSld'', ''p:bg'', ''p:bgPr''] = solid_fill ''FF0000''"
    by (simp add: master_red_deck_def master_with_background_def solid_fill_def)
  show "getSlideBackgroundFill E master_red_deck =
       Some (JObj [(''type'', JStr ''color''), (''value'', JStr ''#fff'')])"
    by (subst getSlideBackgroundFill_no_slide_bg)
       (simp_all add: master_red_deck_def background_record_def)
  show "getSlideBackgroundFill E slide_red_deck =
       Some (JObj [(''type'', JStr ''color''), (''value'', JStr ''#FF0000'')])"
    by (simp add: getSlideBackgroundFill_def slide_red_deck_def solid_fill_def getFillType_def
        read_prop_def background_record_def getSolidFill_srgbClr Let_def)
qed

text \<open>
  Claim C3 fails on the code: \<open>toHex\<close> is documented to give two hexadecimal digits and
  writes a number that is not an integer below 256 with its fraction or with three digits.
  For an \<^verbatim>\<open>a:scrgbClr\<close> of 50% in each channel (\<open>half_scrgb\<close>) the channel value is 127.5
  and \<open>getSolidFill\<close> returns a string that is neither a colour of six or eight
  hexadecimal digits (\<open>color_pattern\<close>) nor one of the two sentinels.
\<close>

theorem getSolidFill_scrgbClr_fraction:
  "toHex (JNum (Finite (255 / 2))) = Some ''7f.8''
   \<and> getSolidFill E half_scrgb clrMap phClr warpObj = Some (JStr ''#7f.87f.87f.8'')
   \<and> \<not> regex_test color_pattern ''#7f.87f.87f.8''
   \<and> ''#7f.87f.87f.8'' \<noteq> [] \<and> ''#7f.87f.87f.8'' \<noteq> ''none''
   \<and> regex_test color_pattern ''#FF0000''"
proof (intro conjI)
  show hex: "toHex (JNum (Finite (255 / 2))) = Some ''7f.8''"
    by (simp add: toHex_def evaluate_number)
  have channel: "scaled_channel (JStr ''50'') = JNum (Finite (255 / 2))"
    by (simp add: scaled_channel_def evaluate_parse Let_def)
  have percent: "percent_attr (JStr ''50%'') = Some (JStr ''50'')"
    by (simp add: percent_attr_def str_of_def indexOf_def before_first_def)
  show "getSolidFill E half_scrgb clrMap phClr warpObj = Some (JStr ''#7f.87f.87f.8'')"
    by (simp add: getSolidFill_def half_scrgb_def read_prop_def percent channel hex modifier_def
        apply_if_present_def isNaN_def parseInt_undefined str_of_def indexOf_def)
  show "\<not> regex_test color_pattern ''#7f.87f.87f.8''"
    by (simp add: regex_test_def color_pattern_def optional_def Let_def)
  show "regex_test color_pattern ''#FF0000''"
    by (simp add: regex_test_def color_pattern_def optional_def Let_def)
qed simp_all

text \<open>
  Claim C4 fails on the code: the comparator of the sort reads the positions with
  \<^verbatim>\<open>parseInt\<close>, which drops the fraction of a percentage. The stops of
  \<open>fractional_gradient\<close> are at 50.5% and 50.2%, in that order, and are returned in that
  order.
\<close>

theorem getBgGradientFill_fractional_positions:
  "getBgGradientFill E fractional_gradient JUndef (master_with_background JUndef) warpObj =
     Some (JObj [(''rot'', JNum (Finite 90)),
                 (''colors'', JArr [JObj [(''pos'', JStr ''50.5%''), (''color'', JStr ''#FF0000'')],
                                    JObj [(''pos'', JStr ''50.2%''), (''color'', JStr ''#00FF00'')]])])
   \<and> parseInt (JStr ''50.5%'') = Finite 50 \<and> parseInt (JStr ''50.2%'') = Finite 50"
proof (intro conjI)
  have pos: "Number_toString 10 (js_div (ToNumber (JStr ''50500'')) (Finite 1000)) = ''50.5''"
    "Number_toString 10 (js_div (ToNumber (JStr ''50200'')) (Finite 1000)) = ''50.2''"
    by (simp_all add: evaluate_parse evaluate_number)
  show int: "parseInt (JStr ''50.5%'') = Finite 50" "parseInt (JStr ''50.2%'') = Finite 50"
    by (simp_all add: evaluate_parse Let_def)
  have index: "digits_of 10 0 = ''0''" "digits_of 10 1 = ''1''" "digits_of 10 (Suc 0) = ''1''"
    by (simp_all add: digits_of.simps [of 10] digit_chars_def)
  have key: "index_key ''0'' = Some 0" "index_key ''1'' = Some 1"
    by (simp_all add: index_key_def is_decimal_digit_def digit_of_def digits_value_def index)
  have stops: "loop_indices (ToNumber (JNum (Finite 2))) = [0, Suc 0]"
    by (simp add: loop_indices_def numeral_2_eq_2)
  have at: "getTextByPathList (gradient_stop p v) [''attrs'', ''pos''] = JStr p" for p v
    by (simp add: gradient_stop_def)
  show "getBgGradientFill E fractional_gradient JUndef (master_with_background JUndef) warpObj =
     Some (JObj [(''rot'', JNum (Finite 90)),
                 (''colors'', JArr [JObj [(''pos'', JStr ''50.5%''), (''color'', JStr ''#FF0000'')],
                                    JObj [(''pos'', JStr ''50.2%''), (''color'', JStr ''#00FF00'')]])])"
    by (simp add: getBgGradientFill_def fractional_gradient_def master_with_background_def
        read_prop_def stops element_at_def index key getSolidFill_srgbClr at pos
        Array_sort_def js_sub_def int Let_def
        del: Number_toString.simps ToNumber.simps getTextByPathList.simps)
qed

section \<open>Pictures\<close>

text \<open>
  Claim C8 fails on the code: \<open>processPicNode\<close> reads
  \<^verbatim>\<open>resObj[rid]['target']\<close> and throws a \<^verbatim>\<open>TypeError\<close> when the relationship id is not in
  the map, for \<^verbatim>\<open>r:embed\<close> and for \<^verbatim>\<open>r:link\<close> alike, and the exception leaves
  \<open>processSingleSlide\<close>. \<open>getPicFill\<close> looks the same id up with \<open>getTextByPathList\<close> and
  returns \<^verbatim>\<open>undefined\<close>.
\<close>

theorem processPicNode_dangling_relationship:
  "resource_target (warp_slideResObj blank_deck) (JStr ''rId9'') = TypeError
   \<and> processPicNode E (picture_node ''rId9'' []) blank_deck ''slide'' = TypeError
   \<and> processSingleSlide E (deck_with_children [(''p:pic'', picture_node ''rId9'' [])]) = TypeError
   \<and> getPicFill ''slide'' (get (picture_node ''rId9'' []) ''p:blipFill'') blank_deck = Some JUndef
   \<and> resource_target (warp_slideResObj media_deck) (JStr ''rId1'') = Some (JStr ''ppt/media/image1.png'')
   \<and> processPicNode E
        (picture_node ''rId1'' [(''a:videoFile'', JObj [(''attrs'', JObj [(''r:link'', JStr ''rId9'')])])])
        media_deck ''slide'' = TypeError"
proof (intro conjI)
  show "resource_target (warp_slideResObj blank_deck) (JStr ''rId9'') = TypeError"
    by (simp add: resource_target_def blank_deck_def read_prop_def)
  show dangling: "processPicNode E (picture_node ''rId9'' []) blank_deck ''slide'' = TypeError" for E
    by (simp add: processPicNode_def picture_node_def resource_target_def blank_deck_def
        read_prop_def)
  have nodes: "list_all single_node (map snd [(''p:pic'', picture_node ''rId9'' [])])"
    by (simp add: picture_node_def)
  show "processSingleSlide E (deck_with_children [(''p:pic'', picture_node ''rId9'' [])]) = TypeError"
    unfolding processSingleSlide_collapsed [OF nodes deck_with_children_tree] deck_with_children_fill
    by (simp add: group_by_tag_def children_named_def emitted_elements_def
        processNodesInSlide.simps processPicNode_def picture_node_def resource_target_def
        deck_with_children_def blank_deck_def read_prop_def)
  show "getPicFill ''slide'' (get (picture_node ''rId9'' []) ''p:blipFill'') blank_deck = Some JUndef"
    by (simp add: getPicFill_def picture_node_def read_prop_def warp_tree_def blank_deck_def)
  show "resource_target (warp_slideResObj media_deck) (JStr ''rId1'') =
      Some (JStr ''ppt/media/image1.png'')"
    by (simp add: resource_target_def media_deck_def read_prop_def)
  show "processPicNode E
        (picture_node ''rId1'' [(''a:videoFile'', JObj [(''attrs'', JObj [(''r:link'', JStr ''rId9'')])])])
        media_deck ''slide'' = TypeError"
    by (simp add: processPicNode_def picture_node_def resource_target_def media_deck_def
        blank_deck_def read_prop_def extractFileExtension_def str_of_def lastIndexOf_def
        substr_def zip_file_arraybuffer_def Let_def)
qed

section \<open>The rectangle of the specification\<close>

text \<open>
  \<open>rect_shape\<close> has no placeholder, no text body, no shadow and no custom geometry, so that
  \<open>processNodesInSlide\<close> comes down to one call of \<open>genShape\<close> with the type \<^verbatim>\<open>obj\<close>.
\<close>

lemma rect_shape_geometry:
  "getPosition (getTextByPathList rect_shape [''p:spPr'', ''a:xfrm'']) JUndef JUndef =
     JObj [(''top'', JNum (Finite 72)), (''left'', JNum (Finite 72))]"
  "getSize (getTextByPathList rect_shape [''p:spPr'', ''a:xfrm'']) JUndef JUndef =
     JObj [(''width'', JNum (Finite 72)), (''height'', JNum (Finite 36))]"
  by (simp_all add: rect_shape_def getPosition_def getSize_def attrs2_def emu_attr_def
      parseInt_def parseInt_string_def is_space_def digit_of_def digits_value_def
      RATIO_EMUs_Points_def Let_def)

lemma tinycolor_toHexString_red:
  "tinycolor_toHexString (Finite 255, Finite 0, Finite 0) = ''#ff0000''"
  by (simp add: tinycolor_toHexString_def pad2_def evaluate_number)

lemma rect_shape_fill:
  assumes "tinycolor_rgb E (case tinycolor_toHsl E ''#FF0000'' of
             (h, s, l, a) \<Rightarrow> (h, s, js_add (js_mul l (Finite 1)) (Finite 0), a)) =
           (Finite 255, Finite 0, Finite 0)"
  shows "getShapeFill E rect_shape JUndef warpObj = Some (JStr ''#ff0000'')"
proof -
  obtain h s l a where hsl: "tinycolor_toHsl E ''#FF0000'' = (h, s, l, a)"
    by (cases "tinycolor_toHsl E ''#FF0000''")
  show ?thesis
    using assms
    by (simp add: getShapeFill_def rect_shape_def hsl isNaN_def parseInt_undefined
        tinycolor_toHexString_red Let_def del: js_add.simps js_mul.simps)
qed

lemma rect_shape_paths:
  "getTextByPathList rect_shape [''p:spPr'', ''a:prstGeom'', ''attrs'', ''prst''] = JStr ''rect''"
  "getTextByPathList rect_shape [''p:spPr'', ''a:custGeom''] = JUndef"
  "getTextByPathList (getTextByPathList rect_shape [''p:spPr'', ''a:xfrm'']) [''attrs'', ''flipV''] = JUndef"
  "getTextByPathList (getTextByPathList rect_shape [''p:spPr'', ''a:xfrm'']) [''attrs'', ''flipH''] = JUndef"
  "getTextByPathList (getTextByPathList rect_shape [''p:spPr'', ''a:xfrm'']) [''attrs'', ''rot''] = JUndef"
  "getTextByPathList rect_shape [''p:txXfrm''] = JUndef"
  "read_prop rect_shape ''p:txBody'' = Some JUndef"
  "getTextByPathList rect_shape [''p:spPr'', ''a:effectLst'', ''a:outerShdw''] = JUndef"
  "getTextByPathList rect_shape [''p:txBody'', ''a:bodyPr'', ''attrs'', ''vert''] = JUndef"
  "getTextByPathList rect_shape [''p:nvSpPr'', ''p:cNvPr'', ''attrs'', ''name''] = JUndef"
  "getTextByPathList rect_shape [''p:nvSpPr'', ''p:nvPr'', ''p:ph'', ''attrs'', ''idx''] = JUndef"
  "getTextByPathList rect_shape [''p:nvSpPr'', ''p:nvPr'', ''p:ph'', ''attrs'', ''type''] = JUndef"
  "getTextByPathList rect_shape [''p:nvSpPr'', ''p:cNvSpPr'', ''attrs'', ''txBox''] = JUndef"
  by (simp_all add: rect_shape_def read_prop_def)

lemma getTextByPathList_undefined: "getTextByPathList JUndef path = JUndef"
  by (rule getTextByPathList_falsy) simp

lemma read_prop_JObj: "read_prop (JObj kvs) k = Some (get (JObj kvs) k)"
  by (simp add: read_prop_def)

lemma rect_shape_genShape:
  assumes "tinycolor_rgb E (case tinycolor_toHsl E ''#FF0000'' of
             (h, s, l, a) \<Rightarrow> (h, s, js_add (js_mul l (Finite 1)) (Finite 0), a)) =
           (Finite 255, Finite 0, Finite 0)"
    and "genShape E rect_shape JUndef JUndef name (JStr ''obj'') warpObj = Some element"
  shows "get element ''type'' = JStr ''shape'' \<and> get element ''shapType'' = JStr ''rect''
       \<and> get element ''left'' = JNum (Finite 72) \<and> get element ''top'' = JNum (Finite 72)
       \<and> get element ''width'' = JNum (Finite 72) \<and> get element ''height'' = JNum (Finite 36)
       \<and> get element ''fillColor'' = JStr ''#ff0000'' \<and> truthy element"
proof -
  have undef: "getTextByPathList JUndef path = JUndef" for path
    by (rule getTextByPathList_falsy) simp
  show ?thesis
    using assms(2) unfolding genShape_def Let_def
    by (auto simp add: rect_shape_paths rect_shape_geometry rect_shape_fill [OF assms(1)] undef
        bind_eq_Some_conv spread_def js_or_def strict_eq_str_def angleToDegrees_def
        simp del: getTextByPathList.simps)
qed

lemma red_helpers_results:
  "getBorder red_helpers node type warpObj = Some (JObj
     [(''borderColor'', JStr ''#000''), (''borderWidth'', JNum (Finite 0)),
      (''borderType'', JStr ''solid''), (''strokeDasharray'', JStr ''0'')])"
  "getVerticalAlign red_helpers node slideLayoutSpNode slideMasterSpNode type = Some (JStr ''mid'')"
  "tinycolor_toHsl red_helpers color = (Finite 0, Finite 1, Finite (1 / 2), Finite 1)"
  "tinycolor_rgb red_helpers hsl = (Finite 255, Finite 0, Finite 0)"
  by (simp_all add: red_helpers_def no_helpers_def)

lemma processNodesInSlide_rect_shape:
  "processNodesInSlide E ''p:sp'' rect_shape warpObj ''slide'' =
     genShape E rect_shape JUndef JUndef JUndef (JStr ''obj'') warpObj"
  by (simp add: processNodesInSlide.simps processSpNode_def rect_shape_paths await_def
      getTextByPathList_undefined Let_def del: getTextByPathList.simps)

lemma single_shape_tree:
  "collapse_children [(''p:sp'', rect_shape)] = [(''p:sp'', rect_shape)]"
  "group_by_tag [(''p:sp'', rect_shape)] = [(''p:sp'', rect_shape)]"
  "list_all single_node (map snd [(''p:sp'', rect_shape)])"
  by (simp_all add: collapse_children_def group_by_tag_def children_named_def rect_shape_def)

lemma processSingleSlide_single_rect:
  assumes "getTextByPathList (warp_slideContent warpObj) [''p:sld'', ''p:cSld'', ''p:spTree''] =
           JObj [(''p:sp'', rect_shape)]"
  shows "processSingleSlide E warpObj = do {
           bgColor \<leftarrow> getSlideBackgroundFill E warpObj;
           element \<leftarrow> genShape E rect_shape JUndef JUndef JUndef (JStr ''obj'') warpObj;
           Some (JObj [(''fill'', bgColor), (''elements'', JArr (filter truthy [element]))])
         }"
proof -
  have "getTextByPathList (warp_slideContent warpObj) [''p:sld'', ''p:cSld'', ''p:spTree''] =
      JObj (collapse_children [(''p:sp'', rect_shape)])"
    using assms by (simp only: single_shape_tree)
  from processSingleSlide_collapsed [OF single_shape_tree(3) this, of E]
  show ?thesis
    by (simp add: single_shape_tree(2) emitted_elements_def processNodesInSlide_rect_shape
        split: bind_splits)
qed

text \<open>
  Claim C6 as stated fails. With helpers that return a border and an alignment and a
  \<^verbatim>\<open>tinycolor\<close> that reads the colour as pure red (\<open>red_helpers\<close>), the slide of the claim has
  the one element \<open>rect_record\<close>: seventeen fields, and the fill colour \<^verbatim>\<open>#ff0000\<close> in the
  lower-case digits of \<^verbatim>\<open>toHexString\<close>.
\<close>

theorem processSingleSlide_rect_shape_lower_case:
  "processSingleSlide red_helpers (deck_with_children [(''p:sp'', rect_shape)]) =
     Some (JObj [(''fill'', JObj [(''type'', JStr ''color''), (''value'', JStr ''#fff'')]),
                 (''elements'', JArr [rect_record])])
   \<and> rect_record \<noteq> claimed_rect_record
   \<and> get rect_record ''fillColor'' = JStr ''#ff0000''
   \<and> get claimed_rect_record ''fillColor'' = JStr ''#FF0000''"
proof (intro conjI)
  have tree: "getTextByPathList (warp_slideContent (deck_with_children [(''p:sp'', rect_shape)]))
      [''p:sld'', ''p:cSld'', ''p:spTree''] = JObj [(''p:sp'', rect_shape)]"
    by (simp only: deck_with_children_tree single_shape_tree)
  have undef: "getTextByPathList JUndef path = JUndef" for path
    by (rule getTextByPathList_falsy) simp
  have fill: "getShapeFill red_helpers rect_shape JUndef warpObj = Some (JStr ''#ff0000'')" for warpObj
    by (rule rect_shape_fill) (simp add: red_helpers_results)
  have shape: "genShape red_helpers rect_shape JUndef JUndef JUndef (JStr ''obj'')
      (deck_with_children [(''p:sp'', rect_shape)]) = Some rect_record"
    unfolding genShape_def Let_def
    by (simp add: rect_shape_paths rect_shape_geometry fill undef deck_with_children_fill
        spread_def js_or_def strict_eq_str_def angleToDegrees_def rect_record_def
        red_helpers_results read_prop_JObj del: getTextByPathList.simps)
  show "processSingleSlide red_helpers (deck_with_children [(''p:sp'', rect_shape)]) =
     Some (JObj [(''fill'', JObj [(''type'', JStr ''color''), (''value'', JStr ''#fff'')]),
                 (''elements'', JArr [rect_record])])"
    unfolding processSingleSlide_single_rect [OF tree] deck_with_children_fill shape
    by (simp add: rect_record_def)
qed (simp_all add: rect_record_def claimed_rect_record_def)

text \<open>
  Claim C6, as amended. For a slide containing a single \<^verbatim>\<open>p:sp\<close> with \<^verbatim>\<open>a:prstGeom\<close>
  \<^verbatim>\<open>prst="rect"\<close>, \<^verbatim>\<open>a:solidFill/a:srgbClr\<close> \<^verbatim>\<open>val="FF0000"\<close> and \<^verbatim>\<open>a:xfrm\<close> off
  \<open>(914400, 914400)\<close>, ext \<open>(914400, 457200)\<close>, the one emitted element has type
  \<^verbatim>\<open>shape\<close>, shapType \<^verbatim>\<open>rect\<close>, left 72, top 72, width 72, height 36 and the fill colour
  \<^verbatim>\<open>#ff0000\<close>, in lower case, among its fields; \<^verbatim>\<open>tinycolor\<close> is taken to read
  \<^verbatim>\<open>#FF0000\<close> as the red, green and blue values 255, 0 and 0.
\<close>

theorem processSingleSlide_rect_shape:
  assumes "getTextByPathList (warp_slideContent warpObj) [''p:sld'', ''p:cSld'', ''p:spTree''] =
           JObj [(''p:sp'', rect_shape)]"
    and "tinycolor_rgb E (case tinycolor_toHsl E ''#FF0000'' of
             (h, s, l, a) \<Rightarrow> (h, s, js_add (js_mul l (Finite 1)) (Finite 0), a)) =
           (Finite 255, Finite 0, Finite 0)"
    and "processSingleSlide E warpObj = Some slide"
  shows "\<exists>element. get slide ''elements'' = JArr [element]
       \<and> get element ''type'' = JStr ''shape'' \<and> get element ''shapType'' = JStr ''rect''
       \<and> get element ''left'' = JNum (Finite 72) \<and> get element ''top'' = JNum (Finite 72)
       \<and> get element ''width'' = JNum (Finite 72) \<and> get element ''height'' = JNum (Finite 36)
       \<and> get element ''fillColor'' = JStr ''#ff0000''"
proof -
  from assms(3) obtain bgColor element
    where shape: "genShape E rect_shape JUndef JUndef JUndef (JStr ''obj'') warpObj = Some element"
      and slide: "slide = JObj [(''fill'', bgColor), (''elements'', JArr (filter truthy [element]))]"
    unfolding processSingleSlide_single_rect [OF assms(1)]
    by (auto simp add: bind_eq_Some_conv simp del: filter.simps)
  note fields = rect_shape_genShape [OF assms(2) shape]
  then have "get slide ''elements'' = JArr [element]"
    by (simp add: slide)
  with fields show ?thesis
    by blast
qed

theorem processSingleSlide_rect_shape_witness:
  "getTextByPathList (warp_slideContent (deck_with_children [(''p:sp'', rect_shape)]))
      [''p:sld'', ''p:cSld'', ''p:spTree''] = JObj [(''p:sp'', rect_shape)]
   \<and> tinycolor_rgb red_helpers (case tinycolor_toHsl red_helpers ''#FF0000'' of
         (h, s, l, a) \<Rightarrow> (h, s, js_add (js_mul l (Finite 1)) (Finite 0), a)) =
       (Finite 255, Finite 0, Finite 0)
   \<and> (\<exists>slide element.
         processSingleSlide red_helpers (deck_with_children [(''p:sp'', rect_shape)]) = Some slide
       \<and> get slide ''elements'' = JArr [element]
       \<and> get element ''type'' = JStr ''shape'' \<and> get element ''shapType'' = JStr ''rect''
       \<and> get element ''left'' = JNum (Finite 72) \<and> get element ''top'' = JNum (Finite 72)
       \<and> get element ''width'' = JNum (Finite 72) \<and> get element ''height'' = JNum (Finite 36)
       \<and> get element ''fillColor'' = JStr ''#ff0000'')"
proof -
  have tree: "getTextByPathList (warp_slideContent (deck_with_children [(''p:sp'', rect_shape)]))
      [''p:sld'', ''p:cSld'', ''p:spTree''] = JObj [(''p:sp'', rect_shape)]"
    by (simp only: deck_with_children_tree single_shape_tree)
  have tiny: "tinycolor_rgb red_helpers (case tinycolor_toHsl red_helpers ''#FF0000'' of
         (h, s, l, a) \<Rightarrow> (h, s, js_add (js_mul l (Finite 1)) (Finite 0), a)) =
       (Finite 255, Finite 0, Finite 0)"
    by (simp add: red_helpers_results)
  have undef: "getTextByPathList JUndef path = JUndef" for path
    by (rule getTextByPathList_falsy) simp
  have "genShape red_helpers rect_shape JUndef JUndef JUndef (JStr ''obj'')
      (deck_with_children [(''p:sp'', rect_shape)]) \<noteq> None"
    unfolding genShape_def Let_def
    by (simp add: rect_shape_paths rect_shape_geometry rect_shape_fill [OF tiny] undef
        deck_with_children_fill red_helpers_results read_prop_JObj
        del: getTextByPathList.simps)
  then obtain slide
    where slide: "processSingleSlide red_helpers (deck_with_children [(''p:sp'', rect_shape)]) = Some slide"
    unfolding processSingleSlide_single_rect [OF tree] deck_with_children_fill
    by auto
  from processSingleSlide_rect_shape [OF tree tiny slide] tree tiny slide
  show ?thesis
    by blast
qed

end
